theory Spec2Isabelle
  imports Main "HOL-Library.Sublist"
begin

section \<open>Python values and exceptions\<close>

text \<open>
  A value held in a table cell, in a JSON field or in an attribute of a transcript entry:
  a \<^verbatim>\<open>str\<close>, a number, or the null value (pandas' NaN, Python's \<^verbatim>\<open>None\<close>; pandas
  treats both as missing). A character of a \<^verbatim>\<open>str\<close> is modelled by one \<^typ>\<open>char\<close>, so the
  model covers the code points below 256.
\<close>

datatype cell = NaN | is_Str: Str (the_Str: string) | Num int

text \<open>
  The exceptions the two scripts can see. All of them are subclasses of Python's
  \<^verbatim>\<open>Exception\<close>, so \<^verbatim>\<open>except Exception\<close> catches each of them; the first three are the
  ones \<^verbatim>\<open>fetch_core_transcripts.py\<close> imports from \<^verbatim>\<open>youtube_transcript_api\<close>.
\<close>

datatype exn =
    TranscriptsDisabled
  | NoTranscriptFound
  | VideoUnavailable
  | TypeError
  | KeyError string
  | ValueError string
  | MergeError
  | OtherException string

section \<open>String primitives\<close>

text \<open>
  \<^verbatim>\<open>str.strip()\<close> without argument removes leading and trailing whitespace; below 256 the
  whitespace code points of Python are 9-13, 28-32, 133 and 160.
\<close>

definition is_space :: "char \<Rightarrow> bool" where
  "is_space c = (of_char c \<in> {9, 10, 11, 12, 13, 28, 29, 30, 31, 32, 133, 160 :: nat})"

definition strip :: "string \<Rightarrow> string" where
  "strip s = rev (dropWhile is_space (rev (dropWhile is_space s)))"

text \<open>\<^verbatim>\<open>sep.join(xs)\<close> on strings.\<close>

fun join :: "string \<Rightarrow> string list \<Rightarrow> string" where
  "join sep [] = []"
| "join sep [x] = x"
| "join sep (x # y # ys) = x @ sep @ join sep (y # ys)"

text \<open>\<^verbatim>\<open>sep.join(xs)\<close> on arbitrary values: an item that is not a \<^verbatim>\<open>str\<close> raises TypeError.\<close>

definition str_join :: "string \<Rightarrow> cell list \<Rightarrow> exn + string" where
  "str_join sep vs =
     (if list_all is_Str vs then Inr (join sep (map the_Str vs)) else Inl TypeError)"

section \<open>fetch\_core\_transcripts.py: the transcript resolver\<close>

definition LANGS :: "string list" where
  "LANGS = [''en'', ''en-US'', ''en-GB'']"

text \<open>
  A transcript entry, as far as \<^verbatim>\<open>getattr(entry, "text", "")\<close> reads it: the value of its
  attribute \<^verbatim>\<open>text\<close>, or \<open>None\<close> when the entry has no such attribute.
\<close>

type_synonym entry = "cell option"

definition getattr_text :: "entry \<Rightarrow> cell" where
  "getattr_text e = (case e of None \<Rightarrow> Str [] | Some v \<Rightarrow> v)"

text \<open>
  The transcript API is an external collaborator. Each of its operations runs in a world
  \<open>'w\<close> (the network, the service), returns either an exception or a value, and leaves a
  new world: \<open>construct\<close> is \<^verbatim>\<open>YouTubeTranscriptApi()\<close>, \<open>fetch\<close> is \<^verbatim>\<open>api.fetch\<close>,
  \<open>list_api\<close> is \<^verbatim>\<open>api.list\<close>, \<open>find_generated_transcript\<close> is the method of the
  transcript list (of type \<open>'tl\<close>) and \<open>gen_fetch\<close> is \<^verbatim>\<open>gen.fetch()\<close> on the transcript
  it found (of type \<open>'g\<close>).
\<close>

record ('w, 'tl, 'g) transcript_api =
  construct :: "'w \<Rightarrow> exn option \<times> 'w"
  fetch :: "cell \<Rightarrow> string list \<Rightarrow> 'w \<Rightarrow> (exn + entry list) \<times> 'w"
  list_api :: "cell \<Rightarrow> 'w \<Rightarrow> (exn + 'tl) \<times> 'w"
  find_generated_transcript :: "'tl \<Rightarrow> string list \<Rightarrow> 'w \<Rightarrow> (exn + 'g) \<times> 'w"
  gen_fetch :: "'g \<Rightarrow> 'w \<Rightarrow> (exn + entry list) \<times> 'w"

text \<open>The calls made on the API, in order, are recorded beside the result.\<close>

datatype call =
    CallConstruct
  | CallFetch cell "string list"
  | CallList cell
  | CallFindGenerated "string list"
  | CallGenFetch

record 'w resolved =
  returned :: "exn + string"
  calls :: "call list"
  world :: 'w

text \<open>\<^verbatim>\<open>" ".join(getattr(entry, "text", "") for entry in fetched).strip()\<close>\<close>

definition join_text :: "entry list \<Rightarrow> exn + string" where
  "join_text fetched =
     (case str_join '' '' (map getattr_text fetched) of
        Inl e \<Rightarrow> Inl e
      | Inr s \<Rightarrow> Inr (strip s))"

text \<open>The body of the outer \<^verbatim>\<open>try\<close> (lines 52-53).\<close>

definition primary_tier :: "('w, 'tl, 'g) transcript_api \<Rightarrow> cell \<Rightarrow> 'w \<Rightarrow> 'w resolved" where
  "primary_tier api video_id w =
     (case fetch api video_id LANGS w of
        (Inl e, w') \<Rightarrow> \<lparr>returned = Inl e, calls = [CallFetch video_id LANGS], world = w'\<rparr>
      | (Inr fetched, w') \<Rightarrow>
          \<lparr>returned = join_text fetched, calls = [CallFetch video_id LANGS], world = w'\<rparr>)"

text \<open>The body of the inner \<^verbatim>\<open>try\<close> (lines 57-59).\<close>

definition fallback_tier :: "('w, 'tl, 'g) transcript_api \<Rightarrow> cell \<Rightarrow> 'w \<Rightarrow> 'w resolved" where
  "fallback_tier api video_id w =
     (case list_api api video_id w of
        (Inl e, w1) \<Rightarrow> \<lparr>returned = Inl e, calls = [CallList video_id], world = w1\<rparr>
      | (Inr transcripts, w1) \<Rightarrow>
          (case find_generated_transcript api transcripts LANGS w1 of
             (Inl e, w2) \<Rightarrow>
               \<lparr>returned = Inl e, calls = [CallList video_id, CallFindGenerated LANGS],
                world = w2\<rparr>
           | (Inr gen, w2) \<Rightarrow>
               (case gen_fetch api gen w2 of
                  (Inl e, w3) \<Rightarrow>
                    \<lparr>returned = Inl e,
                     calls = [CallList video_id, CallFindGenerated LANGS, CallGenFetch],
                     world = w3\<rparr>
                | (Inr fetched, w3) \<Rightarrow>
                    \<lparr>returned = join_text fetched,
                     calls = [CallList video_id, CallFindGenerated LANGS, CallGenFetch],
                     world = w3\<rparr>)))"

text \<open>\<^verbatim>\<open>except (TranscriptsDisabled, NoTranscriptFound, VideoUnavailable)\<close>\<close>

fun expected_absence :: "exn \<Rightarrow> bool" where
  "expected_absence TranscriptsDisabled = True"
| "expected_absence NoTranscriptFound = True"
| "expected_absence VideoUnavailable = True"
| "expected_absence _ = False"

text \<open>
  \<^verbatim>\<open>get_transcript\<close> (lines 48-64). The constructor call stands before the \<^verbatim>\<open>try\<close>, so
  an exception it raises leaves the function. An exception of the outer \<^verbatim>\<open>try\<close> body goes
  to the first \<^verbatim>\<open>except\<close> clause when it is one of the three imported classes (the inner
  \<^verbatim>\<open>try\<close> runs, and any exception of its body gives the empty string), and to the clause
  \<^verbatim>\<open>except Exception\<close> otherwise.
\<close>

definition get_transcript :: "('w, 'tl, 'g) transcript_api \<Rightarrow> cell \<Rightarrow> 'w \<Rightarrow> 'w resolved" where
  "get_transcript api video_id w0 =
     (case construct api w0 of
        (Some e, w1) \<Rightarrow> \<lparr>returned = Inl e, calls = [CallConstruct], world = w1\<rparr>
      | (None, w1) \<Rightarrow>
          (let p = primary_tier api video_id w1 in
           case returned p of
             Inr s \<Rightarrow> \<lparr>returned = Inr s, calls = CallConstruct # calls p, world = world p\<rparr>
           | Inl e \<Rightarrow>
               if expected_absence e then
                 (let f = fallback_tier api video_id (world p) in
                  case returned f of
                    Inr s \<Rightarrow>
                      \<lparr>returned = Inr s, calls = CallConstruct # calls p @ calls f,
                       world = world f\<rparr>
                  | Inl e' \<Rightarrow>
                      \<lparr>returned = Inr [], calls = CallConstruct # calls p @ calls f,
                       world = world f\<rparr>)
               else \<lparr>returned = Inr [], calls = CallConstruct # calls p, world = world p\<rparr>))"

text \<open>
  A scripted API for concrete runs: the constructor's outcome, the outcome of the primary
  fetch and the outcome of fetching the generated transcript are given; listing and
  finding succeed. Its world is trivial.
\<close>

definition scripted_api ::
  "exn option \<Rightarrow> (exn + entry list) \<Rightarrow> (exn + entry list) \<Rightarrow> (unit, unit, unit) transcript_api"
where
  "scripted_api c p g =
     \<lparr>construct = (\<lambda>w. (c, w)),
      fetch = (\<lambda>v ls w. (p, w)),
      list_api = (\<lambda>v w. (Inr (), w)),
      find_generated_transcript = (\<lambda>t ls w. (Inr (), w)),
      gen_fetch = (\<lambda>g' w. (g, w))\<rparr>"

text \<open>
  A scripted API that keeps its own record: its world is the list of the operations that
  were invoked on it, in order. The primary fetch and the fetch of the generated
  transcript have the given outcomes; the constructor, listing and finding succeed.
\<close>

definition recording_api ::
  "(exn + entry list) \<Rightarrow> (exn + entry list) \<Rightarrow> (string list, unit, unit) transcript_api"
where
  "recording_api p g =
     \<lparr>construct = (\<lambda>w. (None, w @ [''YouTubeTranscriptApi''])),
      fetch = (\<lambda>v ls w. (p, w @ [''fetch''])),
      list_api = (\<lambda>v w. (Inr (), w @ [''list''])),
      find_generated_transcript = (\<lambda>t ls w. (Inr (), w @ [''find_generated_transcript''])),
      gen_fetch = (\<lambda>g' w. (g, w @ [''generated.fetch'']))\<rparr>"

definition fragments :: "string list \<Rightarrow> entry list" where
  "fragments xs = map (\<lambda>s. Some (Str s)) xs"

section \<open>Tables\<close>

text \<open>
  A pandas \<^verbatim>\<open>DataFrame\<close> with the default index: the column labels in order, and the rows
  in order, each row holding one cell per column. The tables both scripts handle are
  rectangular and have pairwise distinct labels (\<open>wf_frame\<close>).
\<close>

record frame =
  columns :: "string list"
  rows :: "cell list list"

definition wf_frame :: "frame \<Rightarrow> bool" where
  "wf_frame df \<longleftrightarrow>
     distinct (columns df) \<and> list_all (\<lambda>r. length r = length (columns df)) (rows df)"

text \<open>The cell of row \<open>r\<close> under label \<open>c\<close>, for a label among \<open>cols\<close>.\<close>

definition cell_at :: "string list \<Rightarrow> cell list \<Rightarrow> string \<Rightarrow> cell" where
  "cell_at cols r c = (case map_of (zip cols r) c of Some v \<Rightarrow> v | None \<Rightarrow> NaN)"

text \<open>\<^verbatim>\<open>df[c]\<close>\<close>

definition column :: "frame \<Rightarrow> string \<Rightarrow> cell list" where
  "column df c = map (\<lambda>r. cell_at (columns df) r c) (rows df)"

fun index_of :: "'a \<Rightarrow> 'a list \<Rightarrow> nat" where
  "index_of c [] = 0"
| "index_of c (x # xs) = (if x = c then 0 else Suc (index_of c xs))"

text \<open>
  \<^verbatim>\<open>df[c] = values\<close> with a list: an existing column is overwritten in place, a new one
  is appended; a list of another length than the table raises ValueError.
\<close>

definition set_column :: "frame \<Rightarrow> string \<Rightarrow> cell list \<Rightarrow> exn + frame" where
  "set_column df c vs =
     (if length vs \<noteq> length (rows df) then
        Inl (ValueError ''Length of values does not match length of index'')
      else if c \<in> set (columns df) then
        Inr \<lparr>columns = columns df,
             rows = map2 (\<lambda>r v. r[index_of c (columns df) := v]) (rows df) vs\<rparr>
      else
        Inr \<lparr>columns = columns df @ [c], rows = map2 (\<lambda>r v. r @ [v]) (rows df) vs\<rparr>)"

text \<open>\<^verbatim>\<open>df[[c1, ..., cn]]\<close> for labels of the table.\<close>

definition select :: "frame \<Rightarrow> string list \<Rightarrow> frame" where
  "select df cs = \<lparr>columns = cs, rows = map (\<lambda>r. map (cell_at (columns df) r) cs) (rows df)\<rparr>"

text \<open>
  In \<^verbatim>\<open>merge\<close>, labels that both sides have (the key apart) get the suffixes \<^verbatim>\<open>_x\<close> and
  \<^verbatim>\<open>_y\<close>; pandas 2 raises MergeError when a suffixed label repeats a label of the same
  side that was not a repetition before.
\<close>

definition suffix_dups :: "string list \<Rightarrow> string list \<Rightarrow> bool" where
  "suffix_dups orig new =
     list_ex (\<lambda>i. new ! i \<in> set (take i new) \<and> orig ! i \<notin> set (take i orig)) [0..<length new]"

text \<open>
  \<^verbatim>\<open>left.merge(right, on=key, how="left")\<close> for a left table that has rows (the scripts
  merge after their emptiness checks). The key column of the right table is dropped
  (\<open>rcols\<close> are its other labels); every left row, in order, is paired with each right
  row of the same key, in the right table's order, or with nulls when there is none
  (\<open>join_rows\<close>). Null keys match each other. A number stays the number it is (pandas
  stores a numeric column that received nulls as floats, which the table handed to
  \<^verbatim>\<open>to_csv\<close> shows as \<^verbatim>\<open>120.0\<close>).
\<close>

definition join_rows ::
  "string list \<Rightarrow> string list \<Rightarrow> cell list list \<Rightarrow> string \<Rightarrow> string list \<Rightarrow> cell list
     \<Rightarrow> cell list list" where
  "join_rows lcols rcols_all rrows on rcols l =
     (case filter (\<lambda>r. cell_at rcols_all r on = cell_at lcols l on) rrows of
        [] \<Rightarrow> [l @ replicate (length rcols) NaN]
      | ms \<Rightarrow> map (\<lambda>r. l @ map (cell_at rcols_all r) rcols) ms)"

definition merge_left :: "frame \<Rightarrow> frame \<Rightarrow> string \<Rightarrow> exn + frame" where
  "merge_left left right on =
     (if on \<notin> set (columns left) \<or> on \<notin> set (columns right) then Inl (KeyError on)
      else
        let rcols = filter (\<lambda>c. c \<noteq> on) (columns right);
            llabels = map (\<lambda>c. if c \<in> set rcols then c @ ''_x'' else c) (columns left);
            rlabels = map (\<lambda>c. if c \<in> set (columns left) then c @ ''_y'' else c) rcols
        in
          if suffix_dups (columns left) llabels \<or> suffix_dups rcols rlabels then Inl MergeError
          else
            Inr \<lparr>columns = llabels @ rlabels,
                 rows = concat (map (join_rows (columns left) (columns right) (rows right) on rcols)
                                  (rows left))\<rparr>)"

text \<open>\<^verbatim>\<open>str(n)\<close> for an integer.\<close>

function str_of_nat :: "nat \<Rightarrow> string" where
  "str_of_nat n =
     (if n < 10 then [char_of (48 + n)]
      else str_of_nat (n div 10) @ [char_of (48 + n mod 10)])"
  by pat_completeness auto
termination
  by (relation "measure id") auto

declare str_of_nat.simps [simp del]

definition str_of_int :: "int \<Rightarrow> string" where
  "str_of_int i = (if i < 0 then CHR ''-'' # str_of_nat (nat (- i)) else str_of_nat (nat i))"

text \<open>An element of \<^verbatim>\<open>series.astype(str)\<close>: the null value becomes the string \<^verbatim>\<open>nan\<close>.\<close>

fun astype_str :: "cell \<Rightarrow> string" where
  "astype_str NaN = ''nan''"
| "astype_str (Str s) = s"
| "astype_str (Num i) = str_of_int i"

section \<open>fetch\_core\_transcripts.py: main\<close>

text \<open>
  What a run of a script leaves behind: the lines it printed, the table it handed to
  \<^verbatim>\<open>to_csv\<close> with the path (if it got there), and the exception that ended it (if any).
  The progress bar of \<^verbatim>\<open>tqdm\<close> is not part of it.
\<close>

record outcome =
  printed :: "string list"
  written :: "(string \<times> frame) option"
  raised :: "exn option"

text \<open>The command line: \<^verbatim>\<open>--input\<close> and \<^verbatim>\<open>--output\<close>.\<close>

record args =
  input_path :: string
  output_path :: string

text \<open>The loop of lines 84-86: one call of \<^verbatim>\<open>get_transcript\<close> per selected row, in order.\<close>

fun fetch_transcripts ::
  "('w, 'tl, 'g) transcript_api \<Rightarrow> cell list \<Rightarrow> 'w \<Rightarrow> (exn + string list) \<times> 'w" where
  "fetch_transcripts api [] w = (Inr [], w)"
| "fetch_transcripts api (vid # vids) w =
     (let r = get_transcript api vid w in
      case returned r of
        Inl e \<Rightarrow> (Inl e, world r)
      | Inr t \<Rightarrow>
          (case fetch_transcripts api vids (world r) of
             (Inl e, w') \<Rightarrow> (Inl e, w')
           | (Inr ts, w') \<Rightarrow> (Inr (t # ts), w')))"

definition core_rows :: "frame \<Rightarrow> cell list list" where
  "core_rows df =
     filter (\<lambda>r. astype_str (cell_at (columns df) r ''Core_video'') = ''1'') (rows df)"

text \<open>The identifier of a row of table \<open>df\<close>, and the identifiers of its selected rows.\<close>

definition video_id_of :: "frame \<Rightarrow> cell list \<Rightarrow> cell" where
  "video_id_of df r = cell_at (columns df) r ''video_id''"

definition core_ids :: "frame \<Rightarrow> cell list" where
  "core_ids df = map (video_id_of df) (core_rows df)"

text \<open>
  The transcripts that the selected rows with identifier \<open>v\<close> were given, when \<open>ts\<close> holds
  the transcript of every selected row in order.
\<close>

definition transcripts_for :: "frame \<Rightarrow> string list \<Rightarrow> cell \<Rightarrow> string list" where
  "transcripts_for df ts v =
     map snd (filter (\<lambda>(r, t). video_id_of df r = v) (zip (core_rows df) ts))"

text \<open>
  The output rows that stem from the input row \<open>l\<close>: the row with a null appended when no
  selected row has its identifier, and otherwise one copy per transcript given to that
  identifier.
\<close>

definition expand :: "frame \<Rightarrow> string list \<Rightarrow> cell list \<Rightarrow> cell list list" where
  "expand df ts l =
     (if transcripts_for df ts (video_id_of df l) = [] then [l @ [NaN]]
      else map (\<lambda>t. l @ [Str t]) (transcripts_for df ts (video_id_of df l)))"

text \<open>
  \<^verbatim>\<open>main\<close> (lines 73-94), from the table that \<^verbatim>\<open>load_core_csv\<close> returned.
\<close>

definition fetch_core_transcripts_main ::
  "('w, 'tl, 'g) transcript_api \<Rightarrow> args \<Rightarrow> frame \<Rightarrow> 'w \<Rightarrow> outcome" where
  "fetch_core_transcripts_main api a df w =
     (if ''Core_video'' \<notin> set (columns df) then
        \<lparr>printed = [], written = None,
         raised = Some (ValueError (''Input CSV must contain a '' @ [CHR 0x27] @ ''Core_video''
                                      @ [CHR 0x27] @ '' column.''))\<rparr>
      else if ''video_id'' \<notin> set (columns df) then
        \<lparr>printed = [], written = None,
         raised = Some (ValueError (''Input CSV must contain a '' @ [CHR 0x27] @ ''video_id''
                                      @ [CHR 0x27] @ '' column.''))\<rparr>
      else
        let core_df = \<lparr>columns = columns df, rows = core_rows df\<rparr> in
        if rows core_df = [] then
          \<lparr>printed = [''No rows with Core_video = 1 found.''], written = None, raised = None\<rparr>
        else
          (case fetch_transcripts api (column core_df ''video_id'') w of
             (Inl e, w') \<Rightarrow> \<lparr>printed = [], written = None, raised = Some e\<rparr>
           | (Inr transcripts, w') \<Rightarrow>
               (case set_column core_df ''transcript'' (map Str transcripts) of
                  Inl e \<Rightarrow> \<lparr>printed = [], written = None, raised = Some e\<rparr>
                | Inr core_df' \<Rightarrow>
                    (case merge_left df (select core_df' [''video_id'', ''transcript''])
                            ''video_id'' of
                       Inl e \<Rightarrow> \<lparr>printed = [], written = None, raised = Some e\<rparr>
                     | Inr merged \<Rightarrow>
                         \<lparr>printed = [''Saved with transcripts to '' @ output_path a],
                          written = Some (output_path a, merged), raised = None\<rparr>))))"

section \<open>youtube\_aigc\_sampler.py\<close>

definition QUERIES :: "string list" where
  "QUERIES =
     [''AI tools for content creation'',
      ''AI tools for content creators'',
      ''AI workflow for content creation'']"

text \<open>
  \<^verbatim>\<open>iso_date\<close> for a valid date: \<^verbatim>\<open>datetime(y, m, d).isoformat("T") + "Z"\<close>, with the year
  padded to four digits and month and day to two.
\<close>

definition zfill :: "nat \<Rightarrow> string \<Rightarrow> string" where
  "zfill n s = replicate (n - length s) CHR ''0'' @ s"

definition iso_date :: "nat \<Rightarrow> nat \<Rightarrow> nat \<Rightarrow> string" where
  "iso_date y m d =
     zfill 4 (str_of_nat y) @ ''-'' @ zfill 2 (str_of_nat m) @ ''-'' @ zfill 2 (str_of_nat d)
       @ ''T00:00:00'' @ ''Z''"

definition START_DATE :: string where
  "START_DATE = iso_date 2025 8 1"

definition END_DATE :: string where
  "END_DATE = iso_date 2025 11 22"

text \<open>
  The JSON the YouTube Data API returns, as far as the script reads it. A field that is
  absent is \<open>None\<close>. A statistics value is a string: \<open>Digits n\<close> is one that
  \<^verbatim>\<open>int()\<close> reads as \<open>n\<close>, \<open>Malformed\<close> one that \<^verbatim>\<open>int()\<close> rejects with ValueError.
\<close>

record snippet =
  channelId :: "cell option"
  channelTitle :: "cell option"
  publishedAt :: "cell option"
  title :: "cell option"
  description :: "cell option"

text \<open>\<open>id_videoId\<close> is \<^verbatim>\<open>item["id"]["videoId"]\<close>: \<open>None\<close> when one of the two keys is missing.\<close>

record search_item =
  id_videoId :: "cell option"
  search_snippet :: snippet

datatype json_count = Digits int | Malformed

record statistics =
  viewCount :: "json_count option"
  likeCount :: "json_count option"
  commentCount :: "json_count option"

record video_item =
  item_id :: "cell option"
  item_statistics :: statistics
  item_snippet :: snippet

text \<open>The two requests, with the keyword arguments the script passes.\<close>

record search_request =
  search_part :: string
  q :: string
  search_type :: string
  maxResults :: nat
  publishedAfter :: string
  publishedBefore :: string
  search_order :: string

record videos_request =
  videos_part :: string
  videos_id :: string

text \<open>
  The client: \<open>build\<close> is \<^verbatim>\<open>build("youtube", "v3", developerKey=API_KEY)\<close>, the other two are
  \<^verbatim>\<open>youtube.search().list(...).execute()\<close> and \<^verbatim>\<open>youtube.videos().list(...).execute()\<close>. A
  response is its list of items, \<open>None\<close> when the response has no key \<^verbatim>\<open>items\<close>.
\<close>

record 'w youtube_api =
  build :: "'w \<Rightarrow> exn option \<times> 'w"
  search_list_execute :: "search_request \<Rightarrow> 'w \<Rightarrow> (exn + search_item list option) \<times> 'w"
  videos_list_execute :: "videos_request \<Rightarrow> 'w \<Rightarrow> (exn + video_item list option) \<times> 'w"

text \<open>\<^verbatim>\<open>d.get(key)\<close> and \<^verbatim>\<open>d.get(key, "")\<close> on a field.\<close>

definition get_or_none :: "cell option \<Rightarrow> cell" where
  "get_or_none f = (case f of None \<Rightarrow> NaN | Some v \<Rightarrow> v)"

definition get_or_empty :: "cell option \<Rightarrow> cell" where
  "get_or_empty f = (case f of None \<Rightarrow> Str [] | Some v \<Rightarrow> v)"

text \<open>
  The dictionaries of \<^verbatim>\<open>search_videos_for_query\<close> and \<^verbatim>\<open>fetch_video_details\<close> have fixed
  keys; a dictionary is the list of its values in the order of its keys.
\<close>

definition candidate_columns :: "string list" where
  "candidate_columns =
     [''video_id'', ''channel_id'', ''channel_title'', ''publish_date'', ''title'',
      ''description'', ''query'']"

definition detail_columns :: "string list" where
  "detail_columns =
     [''video_id'', ''view_count'', ''like_count'', ''comment_count'', ''full_title'',
      ''full_description'', ''publish_date_full'']"

text \<open>The loop of lines 72-84: a missing \<^verbatim>\<open>videoId\<close> raises KeyError.\<close>

fun search_rows :: "string \<Rightarrow> search_item list \<Rightarrow> exn + cell list list" where
  "search_rows query [] = Inr []"
| "search_rows query (item # items) =
     (case id_videoId item of
        None \<Rightarrow> Inl (KeyError ''videoId'')
      | Some vid \<Rightarrow>
          (case search_rows query items of
             Inl e \<Rightarrow> Inl e
           | Inr rest \<Rightarrow>
               Inr ([vid,
                     get_or_none (channelId (search_snippet item)),
                     get_or_none (channelTitle (search_snippet item)),
                     get_or_none (publishedAt (search_snippet item)),
                     get_or_none (title (search_snippet item)),
                     get_or_empty (description (search_snippet item)),
                     Str query] # rest)))"

definition search_videos_for_query ::
  "'w youtube_api \<Rightarrow> string \<Rightarrow> nat \<Rightarrow> 'w \<Rightarrow> (exn + cell list list) \<times> 'w" where
  "search_videos_for_query youtube query max_results w =
     (case search_list_execute youtube
             \<lparr>search_part = ''snippet'', q = query, search_type = ''video'',
              maxResults = max_results, publishedAfter = START_DATE,
              publishedBefore = END_DATE, search_order = ''relevance''\<rparr> w of
        (Inl e, w') \<Rightarrow> (Inl e, w')
      | (Inr response, w') \<Rightarrow>
          (search_rows query (case response of None \<Rightarrow> [] | Some items \<Rightarrow> items), w'))"

text \<open>\<^verbatim>\<open>int(s.get(key, 0))\<close>\<close>

definition int_count :: "json_count option \<Rightarrow> exn + cell" where
  "int_count f =
     (case f of
        None \<Rightarrow> Inr (Num 0)
      | Some (Digits n) \<Rightarrow> Inr (Num n)
      | Some Malformed \<Rightarrow> Inl (ValueError ''invalid literal for int() with base 10''))"

text \<open>The inner loop of lines 97-111.\<close>

fun detail_rows_of :: "video_item list \<Rightarrow> exn + cell list list" where
  "detail_rows_of [] = Inr []"
| "detail_rows_of (item # items) =
     (case int_count (viewCount (item_statistics item)) of
        Inl e \<Rightarrow> Inl e
      | Inr views \<Rightarrow>
          (case int_count (likeCount (item_statistics item)) of
             Inl e \<Rightarrow> Inl e
           | Inr likes \<Rightarrow>
               (case int_count (commentCount (item_statistics item)) of
                  Inl e \<Rightarrow> Inl e
                | Inr comments \<Rightarrow>
                    (case detail_rows_of items of
                       Inl e \<Rightarrow> Inl e
                     | Inr rest \<Rightarrow>
                         Inr ([get_or_none (item_id item), views, likes, comments,
                               get_or_empty (title (item_snippet item)),
                               get_or_empty (description (item_snippet item)),
                               get_or_empty (publishedAt (item_snippet item))] # rest)))))"

text \<open>\<^verbatim>\<open>video_ids[i : i + n]\<close> for \<^verbatim>\<open>i in range(0, len(video_ids), n)\<close>, with \<open>n\<close> positive.\<close>

function batches :: "nat \<Rightarrow> 'a list \<Rightarrow> 'a list list" where
  "batches n xs = (if xs = [] \<or> n = 0 then [] else take n xs # batches n (drop n xs))"
  by pat_completeness auto
termination
  by (relation "measure (\<lambda>(n, xs). length xs)") auto

declare batches.simps [simp del]

text \<open>The outer loop of lines 93-111, over the batches.\<close>

fun fetch_batches ::
  "'w youtube_api \<Rightarrow> cell list list \<Rightarrow> 'w \<Rightarrow> (exn + cell list list) \<times> 'w" where
  "fetch_batches youtube [] w = (Inr [], w)"
| "fetch_batches youtube (batch # rest) w =
     (case str_join '','' batch of
        Inl e \<Rightarrow> (Inl e, w)
      | Inr ids \<Rightarrow>
          (case videos_list_execute youtube
                  \<lparr>videos_part = ''snippet,statistics'', videos_id = ids\<rparr> w of
             (Inl e, w1) \<Rightarrow> (Inl e, w1)
           | (Inr response, w1) \<Rightarrow>
               (case detail_rows_of (case response of None \<Rightarrow> [] | Some items \<Rightarrow> items) of
                  Inl e \<Rightarrow> (Inl e, w1)
                | Inr rows1 \<Rightarrow>
                    (case fetch_batches youtube rest w1 of
                       (Inl e, w2) \<Rightarrow> (Inl e, w2)
                     | (Inr rows2, w2) \<Rightarrow> (Inr (rows1 @ rows2), w2)))))"

text \<open>
  \<^verbatim>\<open>pd.DataFrame(records)\<close> for a list of dictionaries with the keys \<open>keys\<close>: the empty
  list gives a table without columns.
\<close>

definition DataFrame :: "string list \<Rightarrow> cell list list \<Rightarrow> frame" where
  "DataFrame keys records =
     (if records = [] then \<lparr>columns = [], rows = []\<rparr> else \<lparr>columns = keys, rows = records\<rparr>)"

definition fetch_video_details ::
  "'w youtube_api \<Rightarrow> cell list \<Rightarrow> 'w \<Rightarrow> (exn + frame) \<times> 'w" where
  "fetch_video_details youtube video_ids w =
     (case fetch_batches youtube (batches 50 video_ids) w of
        (Inl e, w') \<Rightarrow> (Inl e, w')
      | (Inr detail_rows, w') \<Rightarrow> (Inr (DataFrame detail_columns detail_rows), w'))"

text \<open>\<^verbatim>\<open>df.empty\<close>\<close>

definition empty_frame :: "frame \<Rightarrow> bool" where
  "empty_frame df \<longleftrightarrow> rows df = [] \<or> columns df = []"

text \<open>
  \<^verbatim>\<open>df.drop_duplicates(subset=c)\<close>: an empty table is returned as it is; otherwise a row is
  kept when no earlier row has its value under \<open>c\<close> (\<open>seen\<close> holds the values met so far).
\<close>

fun keep_first :: "cell list \<Rightarrow> string list \<Rightarrow> string \<Rightarrow> cell list list \<Rightarrow> cell list list" where
  "keep_first seen cols c [] = []"
| "keep_first seen cols c (r # rs) =
     (if cell_at cols r c \<in> set seen then keep_first seen cols c rs
      else r # keep_first (cell_at cols r c # seen) cols c rs)"

definition drop_duplicates :: "frame \<Rightarrow> string \<Rightarrow> exn + frame" where
  "drop_duplicates df c =
     (if empty_frame df then Inr df
      else if c \<notin> set (columns df) then Inl (KeyError c)
      else Inr \<lparr>columns = columns df, rows = keep_first [] (columns df) c (rows df)\<rparr>)"

text \<open>\<^verbatim>\<open>a.fillna(b)\<close> on two columns of one table.\<close>

definition coalesce :: "cell \<Rightarrow> cell \<Rightarrow> cell" where
  "coalesce x y = (if x = NaN then y else x)"

definition fillna :: "cell list \<Rightarrow> cell list \<Rightarrow> cell list" where
  "fillna a b = map2 coalesce a b"

text \<open>\<^verbatim>\<open>df[c]\<close> with the KeyError of a missing label.\<close>

definition get_column :: "frame \<Rightarrow> string \<Rightarrow> exn + cell list" where
  "get_column df c = (if c \<in> set (columns df) then Inr (column df c) else Inl (KeyError c))"

text \<open>\<^verbatim>\<open>df[target] = df[source].fillna(df[target])\<close>\<close>

definition coalesce_column :: "frame \<Rightarrow> string \<Rightarrow> string \<Rightarrow> exn + frame" where
  "coalesce_column df target source =
     (case get_column df source of
        Inl e \<Rightarrow> Inl e
      | Inr a \<Rightarrow>
          (case get_column df target of
             Inl e \<Rightarrow> Inl e
           | Inr b \<Rightarrow> set_column df target (fillna a b)))"

text \<open>\<^verbatim>\<open>df.drop(columns=cs, errors="ignore")\<close>\<close>

definition drop_columns :: "frame \<Rightarrow> string list \<Rightarrow> frame" where
  "drop_columns df cs =
     \<lparr>columns = filter (\<lambda>c. c \<notin> set cs) (columns df),
      rows = map (\<lambda>r. map snd (filter (\<lambda>(c, v). c \<notin> set cs) (zip (columns df) r))) (rows df)\<rparr>"

text \<open>\<^verbatim>\<open>s[start:stop]\<close> for indices that are not negative.\<close>

definition py_slice :: "nat \<Rightarrow> nat \<Rightarrow> 'a list \<Rightarrow> 'a list" where
  "py_slice start stop xs = take (stop - start) (drop start xs)"

text \<open>An element of \<^verbatim>\<open>series.str.slice(start, stop)\<close>: a value that is no string gives null.\<close>

fun str_slice :: "nat \<Rightarrow> nat \<Rightarrow> cell \<Rightarrow> cell" where
  "str_slice start stop (Str s) = Str (py_slice start stop s)"
| "str_slice start stop _ = NaN"

text \<open>Lines 141-147: the left join with the details and the three coalesced columns.\<close>

definition reconcile :: "frame \<Rightarrow> frame \<Rightarrow> exn + frame" where
  "reconcile df details_df =
     (case merge_left df details_df ''video_id'' of
        Inl e \<Rightarrow> Inl e
      | Inr df1 \<Rightarrow>
          (case coalesce_column df1 ''description'' ''full_description'' of
             Inl e \<Rightarrow> Inl e
           | Inr df2 \<Rightarrow>
               (case coalesce_column df2 ''title'' ''full_title'' of
                  Inl e \<Rightarrow> Inl e
                | Inr df3 \<Rightarrow>
                    (case coalesce_column df3 ''publish_date'' ''publish_date_full'' of
                       Inl e \<Rightarrow> Inl e
                     | Inr df4 \<Rightarrow>
                         Inr (drop_columns df4
                                [''full_description'', ''full_title'', ''publish_date_full''])))))"

text \<open>
  What lines 144-147 make of a joined row (the seven cells of the candidate row followed
  by the six other cells of the detail row, or by six nulls): the three coalesced fields
  in place, the three detail-only cells dropped.
\<close>

definition reconciled_row :: "cell list \<Rightarrow> cell list" where
  "reconciled_row m =
     [m ! 0, m ! 1, m ! 2, coalesce (m ! 12) (m ! 3), coalesce (m ! 10) (m ! 4),
      coalesce (m ! 11) (m ! 5), m ! 6, m ! 7, m ! 8, m ! 9]"

text \<open>
  Line 150: \<^verbatim>\<open>df["month_bucket"] = df["publish_date"].str.slice(0, 7)\<close>. The column holds
  strings and nulls (dtype object), on which the \<^verbatim>\<open>.str\<close> accessor is defined.
\<close>

definition add_month_bucket :: "frame \<Rightarrow> exn + frame" where
  "add_month_bucket df =
     (case get_column df ''publish_date'' of
        Inl e \<Rightarrow> Inl e
      | Inr dates \<Rightarrow> set_column df ''month_bucket'' (map (str_slice 0 7) dates))"

text \<open>
  The loop of lines 124-126: each query is announced and searched; the first exception
  ends the loop with the lines printed so far.
\<close>

fun search_queries ::
  "'w youtube_api \<Rightarrow> string list \<Rightarrow> 'w \<Rightarrow> string list \<times> (exn + cell list list) \<times> 'w" where
  "search_queries youtube [] w = ([], Inr [], w)"
| "search_queries youtube (query # rest) w =
     (case search_videos_for_query youtube query 40 w of
        (Inl e, w1) \<Rightarrow> ([''Searching for query: '' @ query], Inl e, w1)
      | (Inr rows1, w1) \<Rightarrow>
          (case search_queries youtube rest w1 of
             (ps, Inl e, w2) \<Rightarrow> ((''Searching for query: '' @ query) # ps, Inl e, w2)
           | (ps, Inr rows2, w2) \<Rightarrow>
               ((''Searching for query: '' @ query) # ps, Inr (rows1 @ rows2), w2)))"

text \<open>\<^verbatim>\<open>main\<close> (lines 119-154).\<close>

definition youtube_aigc_sampler_main :: "'w youtube_api \<Rightarrow> 'w \<Rightarrow> outcome" where
  "youtube_aigc_sampler_main api w0 =
     (case build api w0 of
        (Some e, w1) \<Rightarrow> \<lparr>printed = [], written = None, raised = Some e\<rparr>
      | (None, w1) \<Rightarrow>
          (case search_queries api QUERIES w1 of
             (ps, Inl e, w2) \<Rightarrow> \<lparr>printed = ps, written = None, raised = Some e\<rparr>
           | (ps, Inr all_rows, w2) \<Rightarrow>
               let df = DataFrame candidate_columns all_rows;
                   ps1 = ps @ [''Raw candidates (before dedupe): '' @ str_of_nat (length (rows df))]
               in
               (case drop_duplicates df ''video_id'' of
                  Inl e \<Rightarrow> \<lparr>printed = ps1, written = None, raised = Some e\<rparr>
                | Inr deduped \<Rightarrow>
                    let ps2 = ps1 @ [''After dedupe: '' @ str_of_nat (length (rows deduped))] in
                    if empty_frame deduped then
                      \<lparr>printed = ps2 @ [''No videos found in the specified window/queries.''],
                       written = None, raised = None\<rparr>
                    else
                      (case fetch_video_details api (column deduped ''video_id'') w2 of
                         (Inl e, w3) \<Rightarrow> \<lparr>printed = ps2, written = None, raised = Some e\<rparr>
                       | (Inr details_df, w3) \<Rightarrow>
                           (case reconcile deduped details_df of
                              Inl e \<Rightarrow> \<lparr>printed = ps2, written = None, raised = Some e\<rparr>
                            | Inr reconciled \<Rightarrow>
                                (case add_month_bucket reconciled of
                                   Inl e \<Rightarrow> \<lparr>printed = ps2, written = None, raised = Some e\<rparr>
                                 | Inr bucketed \<Rightarrow>
                                     \<lparr>printed = ps2 @ [''Saved to youtube_candidates_basic.csv''],
                                      written = Some (''youtube_candidates_basic.csv'', bucketed),
                                      raised = None\<rparr>))))))"

text \<open>
  Inputs for concrete runs. An API that knows the fragments of some videos, reports every
  other video as unavailable and has no generated transcripts to list; the table of
  scenario A of the specification (three rows, two of them selected); a table whose two
  selected rows share one identifier; a table where a row that is not selected shares the
  identifier of a selected one; and a table that was already given a transcript column.
\<close>

definition lookup_api :: "(cell \<times> string list) list \<Rightarrow> (unit, unit, unit) transcript_api" where
  "lookup_api known =
     \<lparr>construct = (\<lambda>w. (None, w)),
      fetch = (\<lambda>v ls w.
        (case map_of known v of
           Some xs \<Rightarrow> Inr (fragments xs)
         | None \<Rightarrow> Inl VideoUnavailable, w)),
      list_api = (\<lambda>v w. (Inl NoTranscriptFound, w)),
      find_generated_transcript = (\<lambda>t ls w. (Inr (), w)),
      gen_fetch = (\<lambda>g w. (Inr [], w))\<rparr>"

definition cli :: args where
  "cli = \<lparr>input_path = ''youtube_core.csv'', output_path = ''youtube_core_transcripts.csv''\<rparr>"

definition scenario_table :: frame where
  "scenario_table =
     \<lparr>columns = [''video_id'', ''Core_video'', ''note''],
      rows = [[Str ''a'', Str ''1'', Str ''first''],
              [Str ''b'', Str ''0'', NaN],
              [Str ''c'', Str ''1'', Str ''third'']]\<rparr>"

definition shared_id_table :: frame where
  "shared_id_table =
     \<lparr>columns = [''video_id'', ''Core_video''],
      rows = [[Str ''a'', Str ''1''], [Str ''a'', Str ''1'']]\<rparr>"

definition twin_table :: frame where
  "twin_table =
     \<lparr>columns = [''video_id'', ''Core_video''],
      rows = [[Str ''a'', Str ''1''], [Str ''a'', Str ''0'']]\<rparr>"

definition rerun_table :: frame where
  "rerun_table =
     \<lparr>columns = [''video_id'', ''Core_video'', ''transcript''],
      rows = [[Str ''a'', Str ''1'', Str ''old''], [Str ''b'', Str ''0'', NaN]]\<rparr>"

text \<open>
  A YouTube client for concrete runs: the items of each query are looked up in a list
  (a query that is not listed gets a response without items), and every details request
  is answered with the same items.
\<close>

definition scripted_youtube ::
  "(string \<times> search_item list) list \<Rightarrow> video_item list \<Rightarrow> unit youtube_api" where
  "scripted_youtube found details =
     \<lparr>build = (\<lambda>w. (None, w)),
      search_list_execute = (\<lambda>req w. (Inr (map_of found (q req)), w)),
      videos_list_execute = (\<lambda>req w. (Inr (Some details), w))\<rparr>"

definition found_item :: "string \<Rightarrow> string \<Rightarrow> string \<Rightarrow> search_item" where
  "found_item vid published name =
     \<lparr>id_videoId = Some (Str vid),
      search_snippet =
        \<lparr>channelId = Some (Str ''UC1''), channelTitle = Some (Str ''Channel''),
         publishedAt = Some (Str published), title = Some (Str name),
         description = Some (Str ''short'')\<rparr>\<rparr>"

definition detail_item :: "string \<Rightarrow> string \<Rightarrow> video_item" where
  "detail_item vid name =
     \<lparr>item_id = Some (Str vid),
      item_statistics =
        \<lparr>viewCount = Some (Digits 120), likeCount = None, commentCount = Some (Digits 3)\<rparr>,
      item_snippet =
        \<lparr>channelId = None, channelTitle = None, publishedAt = None,
         title = Some (Str name), description = Some (Str ''the full description'')\<rparr>\<rparr>"

text \<open>
  Scenario B of the specification: the rows two queries return, both holding the video
  \<^verbatim>\<open>abc123\<close>. And a table without any selected row.
\<close>

definition scenario_b_rows :: "cell list list list" where
  "scenario_b_rows =
     [[[Str ''abc123'', Str ''UC1'', Str ''Channel'', Str ''2025-09-14T10:00:00Z'', Str ''One'',
        Str ''short'', Str ''AI tools for content creation'']],
      [[Str ''abc123'', Str ''UC1'', Str ''Channel'', Str ''2025-09-14T10:00:00Z'', Str ''One'',
        Str ''short'', Str ''AI tools for content creators''],
       [Str ''pqr'', NaN, NaN, Str ''2025-10'', Str ''Three'', Str [],
        Str ''AI tools for content creators'']]]"


text \<open>
  A run of the sampler: the first two queries both find \<^verbatim>\<open>abc123\<close>, the second also
  \<^verbatim>\<open>pqr\<close>, whose publish timestamp is malformed; the details request returns \<^verbatim>\<open>abc123\<close>
  only. And a pair of tables for the join: the details of \<^verbatim>\<open>abc123\<close> have a full title
  and a null description.
\<close>

definition scenario_youtube :: "unit youtube_api" where
  "scenario_youtube =
     scripted_youtube
       [(''AI tools for content creation'',
           [found_item ''abc123'' ''2025-09-14T10:00:00Z'' ''One'']),
        (''AI tools for content creators'',
           [found_item ''abc123'' ''2025-09-14T10:00:00Z'' ''One'',
            found_item ''pqr'' ''n/a'' ''Three''])]
       [detail_item ''abc123'' ''One, in full'']"

definition scenario_candidates :: frame where
  "scenario_candidates =
     \<lparr>columns = candidate_columns,
      rows = [[Str ''abc123'', Str ''UC1'', Str ''Channel'', Str ''2025-09-14T10:00:00Z'',
               Str ''One'', Str ''short'', Str ''AI tools for content creation''],
              [Str ''pqr'', NaN, NaN, Str ''2025-10'', Str ''Three'', Str [],
               Str ''AI tools for content creators'']]\<rparr>"

definition scenario_details :: frame where
  "scenario_details =
     \<lparr>columns = detail_columns,
      rows = [[Str ''abc123'', Num 120, Num 0, Num 3, Str ''One, in full'', NaN,
               Str ''2025-09-14T10:00:05Z'']]\<rparr>"

section \<open>Properties of the string primitives\<close>

lemma join_Cons: "join sep (x # xs) = x @ concat (map (\<lambda>y. sep @ y) xs)"
  by (induction xs arbitrary: x) simp_all

lemma strip_decompose:
  "\<exists>l r. s = l @ strip s @ r \<and> (\<forall>c \<in> set l. is_space c) \<and> (\<forall>c \<in> set r. is_space c)"
proof -
  let ?l = "takeWhile is_space s"
  let ?m = "dropWhile is_space s"
  let ?r = "rev (takeWhile is_space (rev ?m))"
  have "rev ?m = takeWhile is_space (rev ?m) @ dropWhile is_space (rev ?m)"
    by simp
  then have "?m = rev (dropWhile is_space (rev ?m)) @ ?r"
    by (metis rev_append rev_rev_ident)
  then have m: "?m = strip s @ ?r"
    by (simp add: strip_def)
  have "s = ?l @ ?m"
    by simp
  with m have "s = ?l @ strip s @ ?r"
    by simp
  moreover have "\<forall>c \<in> set ?l. is_space c"
    by (auto dest: set_takeWhileD)
  moreover have "\<forall>c \<in> set ?r. is_space c"
    by (auto dest: set_takeWhileD)
  ultimately show ?thesis
    by blast
qed

lemma strip_no_leading_space: "strip s \<noteq> [] \<Longrightarrow> \<not> is_space (hd (strip s))"
proof -
  assume ne: "strip s \<noteq> []"
  let ?m = "dropWhile is_space s"
  have m_ne: "?m \<noteq> []"
  proof
    assume e: "?m = []"
    have "strip s = []"
      unfolding strip_def e by simp
    with ne show False
      by simp
  qed
  have hd_m: "\<not> is_space (hd ?m)"
    using m_ne hd_dropWhile by blast
  have "\<exists>r. ?m = strip s @ r"
    by (metis strip_def takeWhile_dropWhile_id rev_append rev_rev_ident)
  then obtain r where "?m = strip s @ r" ..
  then have "hd ?m = hd (strip s)"
    using ne by (metis hd_append2)
  with hd_m show ?thesis
    by simp
qed

lemma strip_no_trailing_space: "strip s \<noteq> [] \<Longrightarrow> \<not> is_space (last (strip s))"
proof -
  assume ne: "strip s \<noteq> []"
  let ?d = "dropWhile is_space (rev (dropWhile is_space s))"
  have d_ne: "?d \<noteq> []"
    using ne by (simp add: strip_def)
  then have "\<not> is_space (hd ?d)"
    using hd_dropWhile by blast
  moreover have "last (strip s) = hd ?d"
    using d_ne by (simp add: strip_def last_rev)
  ultimately show ?thesis
    by simp
qed

section \<open>Properties of the transcript resolver\<close>

lemma join_text_fragments: "join_text (fragments xs) = Inr (strip (join '' '' xs))"
  by (simp add: join_text_def str_join_def fragments_def getattr_text_def list_all_iff comp_def)

lemma join_text_error: "join_text fetched = Inl e \<Longrightarrow> e = TypeError"
  by (auto simp: join_text_def str_join_def split: if_splits sum.splits)

lemma primary_tier_error:
  "returned (primary_tier api vid w) = Inl e \<Longrightarrow>
     (\<exists>w'. fetch api vid LANGS w = (Inl e, w')) \<or> e = TypeError"
  by (auto simp: primary_tier_def split: prod.splits sum.splits dest: join_text_error)

lemma calls_primary_tier: "calls (primary_tier api vid w) = [CallFetch vid LANGS]"
  by (simp add: primary_tier_def split: prod.splits sum.splits)

lemma hd_calls_fallback_tier: "CallList vid \<in> set (calls (fallback_tier api vid w))"
  by (simp add: fallback_tier_def split: prod.splits sum.splits)

text \<open>
  Claim C1, as amended. Once the client constructor has returned, \<^verbatim>\<open>get_transcript\<close>
  returns a string whatever the two tiers do, and the string is empty whenever both tiers
  fail. An exception of the constructor itself is raised to the caller: the call stands
  before the \<^verbatim>\<open>try\<close>.
\<close>

theorem get_transcript_string_once_constructed:
  "(construct api w0 = (None, w1) \<longrightarrow>
      (\<exists>s. returned (get_transcript api vid w0) = Inr s) \<and>
      ((\<exists>e. returned (primary_tier api vid w1) = Inl e) \<and>
       (\<exists>e'. returned (fallback_tier api vid (world (primary_tier api vid w1))) = Inl e')
         \<longrightarrow> returned (get_transcript api vid w0) = Inr [])) \<and>
   (construct api w0 = (Some e0, w1) \<longrightarrow> returned (get_transcript api vid w0) = Inl e0)"
  by (auto simp: get_transcript_def Let_def split: sum.splits)

text \<open>
  Claim C1 as stated fails when the constructor raises: the exception reaches the caller.
\<close>

theorem get_transcript_constructor_raises:
  "returned (get_transcript
      (scripted_api (Some (OtherException ''boom'')) (Inr (fragments [''Hello''])) (Inr []))
      (Str ''abc123'') ()) = Inl (OtherException ''boom'')"
  by (simp add: get_transcript_def scripted_api_def)

text \<open>
  Claim C1, a run: the primary tier reports that no transcript was found, the fallback
  tier fails with another exception, and the result is the empty string.
\<close>

theorem get_transcript_string_once_constructed_witness:
  "construct (scripted_api None (Inl NoTranscriptFound) (Inl (OtherException ''blocked''))) ()
     = (None, ()) \<and>
   returned (primary_tier
      (scripted_api None (Inl NoTranscriptFound) (Inl (OtherException ''blocked'')))
      (Str ''abc123'') ()) = Inl NoTranscriptFound \<and>
   returned (fallback_tier
      (scripted_api None (Inl NoTranscriptFound) (Inl (OtherException ''blocked'')))
      (Str ''abc123'') ()) = Inl (OtherException ''blocked'') \<and>
   returned (get_transcript
      (scripted_api None (Inl NoTranscriptFound) (Inl (OtherException ''blocked'')))
      (Str ''abc123'') ()) = Inr []"
proof -
  let ?api = "scripted_api None (Inl NoTranscriptFound) (Inl (OtherException ''blocked''))"
  have c: "construct ?api () = (None, ())"
    by (simp add: scripted_api_def)
  have p: "returned (primary_tier ?api (Str ''abc123'') ()) = Inl NoTranscriptFound"
    by (simp add: primary_tier_def scripted_api_def)
  have f: "returned (fallback_tier ?api (Str ''abc123'') ()) = Inl (OtherException ''blocked'')"
    by (simp add: fallback_tier_def scripted_api_def)
  have "returned (get_transcript ?api (Str ''abc123'') ()) = Inr []"
    using get_transcript_string_once_constructed [of ?api "()" "()" "Str ''abc123''"] c p f
    by (metis (full_types) old.unit.exhaust)
  with c p f show ?thesis
    by blast
qed

lemma expected_absence_iff:
  "expected_absence e \<longleftrightarrow> e \<in> {TranscriptsDisabled, NoTranscriptFound, VideoUnavailable}"
  by (cases e) simp_all

lemma join_text_not_expected: "join_text fetched = Inl e \<Longrightarrow> \<not> expected_absence e"
  by (auto dest: join_text_error)

lemma fallback_call_iff:
  assumes c: "construct api w0 = (None, w1)"
  shows "(CallList vid \<in> set (calls (get_transcript api vid w0)) \<longleftrightarrow>
            (\<exists>e w2. fetch api vid LANGS w1 = (Inl e, w2) \<and>
                    e \<in> {TranscriptsDisabled, NoTranscriptFound, VideoUnavailable})) \<and>
         (\<forall>e. returned (primary_tier api vid w1) = Inl e \<and>
              e \<notin> {TranscriptsDisabled, NoTranscriptFound, VideoUnavailable} \<longrightarrow>
              returned (get_transcript api vid w0) = Inr [] \<and>
              calls (get_transcript api vid w0) = [CallConstruct, CallFetch vid LANGS])"
proof -
  obtain r w2 where f: "fetch api vid LANGS w1 = (r, w2)"
    by (cases "fetch api vid LANGS w1")
  show ?thesis
  proof (cases r)
    case (Inl e)
    with f have p: "primary_tier api vid w1 =
        \<lparr>returned = Inl e, calls = [CallFetch vid LANGS], world = w2\<rparr>"
      by (simp add: primary_tier_def)
    show ?thesis
    proof (cases "expected_absence e")
      case True
      then have "CallList vid \<in> set (calls (get_transcript api vid w0))"
        using c p hd_calls_fallback_tier [of vid api w2]
        by (simp add: get_transcript_def Let_def split: sum.splits)
      with True f Inl p show ?thesis
        by (auto simp: expected_absence_iff)
    next
      case False
      then have "returned (get_transcript api vid w0) = Inr []"
        and "calls (get_transcript api vid w0) = [CallConstruct, CallFetch vid LANGS]"
        using c p by (simp_all add: get_transcript_def)
      with False f Inl p show ?thesis
        by (auto simp: expected_absence_iff)
    qed
  next
    case (Inr fetched)
    with f have p: "primary_tier api vid w1 =
        \<lparr>returned = join_text fetched, calls = [CallFetch vid LANGS], world = w2\<rparr>"
      by (simp add: primary_tier_def)
    have k: "calls (get_transcript api vid w0) = [CallConstruct, CallFetch vid LANGS]"
    proof (cases "join_text fetched")
      case (Inl e)
      then have "\<not> expected_absence e"
        by (rule join_text_not_expected)
      with c p Inl show ?thesis
        by (simp add: get_transcript_def Let_def)
    next
      case (Inr s)
      with c p show ?thesis
        by (simp add: get_transcript_def Let_def)
    qed
    have "\<And>e. join_text fetched = Inl e \<Longrightarrow> returned (get_transcript api vid w0) = Inr []"
    proof -
      fix e
      assume j: "join_text fetched = Inl e"
      then have "\<not> expected_absence e"
        by (rule join_text_not_expected)
      with c p j show "returned (get_transcript api vid w0) = Inr []"
        by (simp add: get_transcript_def Let_def)
    qed
    with k f Inr p show ?thesis
      by auto
  qed
qed

lemma get_transcript_fallback:
  assumes c: "construct api w0 = (None, w1)"
    and f: "fetch api vid LANGS w1 = (Inl e, w2)"
    and e: "e \<in> {TranscriptsDisabled, NoTranscriptFound, VideoUnavailable}"
  shows "returned (get_transcript api vid w0) =
           (case returned (fallback_tier api vid w2) of Inl e' \<Rightarrow> Inr [] | Inr s \<Rightarrow> Inr s)"
    and "world (get_transcript api vid w0) = world (fallback_tier api vid w2)"
    and "calls (get_transcript api vid w0) =
           [CallConstruct, CallFetch vid LANGS] @ calls (fallback_tier api vid w2)"
proof -
  from f have p: "primary_tier api vid w1 =
      \<lparr>returned = Inl e, calls = [CallFetch vid LANGS], world = w2\<rparr>"
    by (simp add: primary_tier_def)
  from e have x: "expected_absence e"
    by (simp add: expected_absence_iff)
  show "returned (get_transcript api vid w0) =
           (case returned (fallback_tier api vid w2) of Inl e' \<Rightarrow> Inr [] | Inr s \<Rightarrow> Inr s)"
    and "world (get_transcript api vid w0) = world (fallback_tier api vid w2)"
    and "calls (get_transcript api vid w0) =
           [CallConstruct, CallFetch vid LANGS] @ calls (fallback_tier api vid w2)"
    using c p x
    by (cases "returned (fallback_tier api vid w2)"; simp add: get_transcript_def Let_def)+
qed

lemma get_transcript_no_fallback:
  assumes c: "construct api w0 = (None, w1)"
    and f: "fetch api vid LANGS w1 = (r, w2)"
    and n: "\<forall>e'. r = Inl e' \<longrightarrow> e' \<notin> {TranscriptsDisabled, NoTranscriptFound, VideoUnavailable}"
  shows "world (get_transcript api vid w0) = w2"
    and "calls (get_transcript api vid w0) = [CallConstruct, CallFetch vid LANGS]"
proof -
  have "world (get_transcript api vid w0) = w2 \<and>
      calls (get_transcript api vid w0) = [CallConstruct, CallFetch vid LANGS]"
  proof (cases r)
    case (Inl e')
    with n have "\<not> expected_absence e'"
      by (simp add: expected_absence_iff)
    moreover from f Inl have "primary_tier api vid w1 =
        \<lparr>returned = Inl e', calls = [CallFetch vid LANGS], world = w2\<rparr>"
      by (simp add: primary_tier_def)
    ultimately show ?thesis
      using c by (simp add: get_transcript_def Let_def)
  next
    case (Inr fetched)
    with f have p: "primary_tier api vid w1 =
        \<lparr>returned = join_text fetched, calls = [CallFetch vid LANGS], world = w2\<rparr>"
      by (simp add: primary_tier_def)
    show ?thesis
    proof (cases "join_text fetched")
      case (Inl e')
      then have "\<not> expected_absence e'"
        by (rule join_text_not_expected)
      with c p Inl show ?thesis
        by (simp add: get_transcript_def Let_def)
    next
      case (Inr s)
      with c p show ?thesis
        by (simp add: get_transcript_def Let_def)
    qed
  qed
  then show "world (get_transcript api vid w0) = w2"
    and "calls (get_transcript api vid w0) = [CallConstruct, CallFetch vid LANGS]"
    by simp_all
qed

text \<open>
  Claim C2. After the constructor, the fallback tier is attempted exactly when the primary
  fetch raises one of the three expected-absence exceptions. In that case the result, the
  world the API is left in and the calls made are those of the fallback tier run from the
  world after the primary fetch: listing, finding and fetching the generated transcript
  are really invoked, each from the world its predecessor left, the fetched text is the
  result, and a failure of any of the three gives the empty string. After any other
  outcome of the primary tier the world is the one the primary fetch left and the only
  calls are the constructor and that fetch; another exception gives the empty string.
\<close>

theorem fallback_iff_expected_absence:
  assumes c: "construct api w0 = (None, w1)"
  shows "(CallList vid \<in> set (calls (get_transcript api vid w0)) \<longleftrightarrow>
            (\<exists>e w2. fetch api vid LANGS w1 = (Inl e, w2) \<and>
                    e \<in> {TranscriptsDisabled, NoTranscriptFound, VideoUnavailable})) \<and>
         (\<forall>e. returned (primary_tier api vid w1) = Inl e \<and>
              e \<notin> {TranscriptsDisabled, NoTranscriptFound, VideoUnavailable} \<longrightarrow>
              returned (get_transcript api vid w0) = Inr [] \<and>
              calls (get_transcript api vid w0) = [CallConstruct, CallFetch vid LANGS]) \<and>
         (fetch api vid LANGS w1 = (Inl e, w2) \<and>
          e \<in> {TranscriptsDisabled, NoTranscriptFound, VideoUnavailable} \<longrightarrow>
            returned (get_transcript api vid w0) =
              (case returned (fallback_tier api vid w2) of Inl e' \<Rightarrow> Inr [] | Inr s \<Rightarrow> Inr s) \<and>
            world (get_transcript api vid w0) = world (fallback_tier api vid w2) \<and>
            calls (get_transcript api vid w0) =
              [CallConstruct, CallFetch vid LANGS] @ calls (fallback_tier api vid w2)) \<and>
         (fetch api vid LANGS w1 = (Inl e, w2) \<and>
          e \<in> {TranscriptsDisabled, NoTranscriptFound, VideoUnavailable} \<and>
          list_api api vid w2 = (Inl e1, w3) \<longrightarrow>
            returned (get_transcript api vid w0) = Inr [] \<and>
            world (get_transcript api vid w0) = w3 \<and>
            calls (get_transcript api vid w0) =
              [CallConstruct, CallFetch vid LANGS, CallList vid]) \<and>
         (fetch api vid LANGS w1 = (Inl e, w2) \<and>
          e \<in> {TranscriptsDisabled, NoTranscriptFound, VideoUnavailable} \<and>
          list_api api vid w2 = (Inr ts, w3) \<and>
          find_generated_transcript api ts LANGS w3 = (Inl e2, w4) \<longrightarrow>
            returned (get_transcript api vid w0) = Inr [] \<and>
            world (get_transcript api vid w0) = w4 \<and>
            calls (get_transcript api vid w0) =
              [CallConstruct, CallFetch vid LANGS, CallList vid, CallFindGenerated LANGS]) \<and>
         (fetch api vid LANGS w1 = (Inl e, w2) \<and>
          e \<in> {TranscriptsDisabled, NoTranscriptFound, VideoUnavailable} \<and>
          list_api api vid w2 = (Inr ts, w3) \<and>
          find_generated_transcript api ts LANGS w3 = (Inr g, w4) \<and>
          gen_fetch api g w4 = (Inl e3, w5) \<longrightarrow>
            returned (get_transcript api vid w0) = Inr [] \<and>
            world (get_transcript api vid w0) = w5 \<and>
            calls (get_transcript api vid w0) =
              [CallConstruct, CallFetch vid LANGS, CallList vid, CallFindGenerated LANGS,
               CallGenFetch]) \<and>
         (fetch api vid LANGS w1 = (Inl e, w2) \<and>
          e \<in> {TranscriptsDisabled, NoTranscriptFound, VideoUnavailable} \<and>
          list_api api vid w2 = (Inr ts, w3) \<and>
          find_generated_transcript api ts LANGS w3 = (Inr g, w4) \<and>
          gen_fetch api g w4 = (Inr fetched, w5) \<longrightarrow>
            returned (get_transcript api vid w0) =
              (case join_text fetched of Inl e' \<Rightarrow> Inr [] | Inr s \<Rightarrow> Inr s) \<and>
            world (get_transcript api vid w0) = w5 \<and>
            calls (get_transcript api vid w0) =
              [CallConstruct, CallFetch vid LANGS, CallList vid, CallFindGenerated LANGS,
               CallGenFetch]) \<and>
         (fetch api vid LANGS w1 = (r, w2) \<and>
          (\<forall>e'. r = Inl e' \<longrightarrow>
             e' \<notin> {TranscriptsDisabled, NoTranscriptFound, VideoUnavailable}) \<longrightarrow>
            world (get_transcript api vid w0) = w2 \<and>
            calls (get_transcript api vid w0) = [CallConstruct, CallFetch vid LANGS])"
proof (intro conjI impI)
  show "CallList vid \<in> set (calls (get_transcript api vid w0)) \<longleftrightarrow>
            (\<exists>e w2. fetch api vid LANGS w1 = (Inl e, w2) \<and>
                    e \<in> {TranscriptsDisabled, NoTranscriptFound, VideoUnavailable})"
    using fallback_call_iff [OF c, of vid] by (rule conjunct1)
  show "\<forall>e. returned (primary_tier api vid w1) = Inl e \<and>
              e \<notin> {TranscriptsDisabled, NoTranscriptFound, VideoUnavailable} \<longrightarrow>
              returned (get_transcript api vid w0) = Inr [] \<and>
              calls (get_transcript api vid w0) = [CallConstruct, CallFetch vid LANGS]"
    using fallback_call_iff [OF c, of vid] by (rule conjunct2)
next
  assume a: "fetch api vid LANGS w1 = (Inl e, w2) \<and>
          e \<in> {TranscriptsDisabled, NoTranscriptFound, VideoUnavailable}"
  then show "returned (get_transcript api vid w0) =
              (case returned (fallback_tier api vid w2) of Inl e' \<Rightarrow> Inr [] | Inr s \<Rightarrow> Inr s)"
    and "world (get_transcript api vid w0) = world (fallback_tier api vid w2)"
    and "calls (get_transcript api vid w0) =
              [CallConstruct, CallFetch vid LANGS] @ calls (fallback_tier api vid w2)"
    using get_transcript_fallback [OF c, of vid e w2] by simp_all
next
  assume a: "fetch api vid LANGS w1 = (Inl e, w2) \<and>
          e \<in> {TranscriptsDisabled, NoTranscriptFound, VideoUnavailable} \<and>
          list_api api vid w2 = (Inl e1, w3)"
  then have t: "fallback_tier api vid w2 =
      \<lparr>returned = Inl e1, calls = [CallList vid], world = w3\<rparr>"
    by (simp add: fallback_tier_def)
  from a show "returned (get_transcript api vid w0) = Inr []"
    and "world (get_transcript api vid w0) = w3"
    and "calls (get_transcript api vid w0) = [CallConstruct, CallFetch vid LANGS, CallList vid]"
    using get_transcript_fallback [OF c, of vid e w2] by (simp_all add: t)
next
  assume a: "fetch api vid LANGS w1 = (Inl e, w2) \<and>
          e \<in> {TranscriptsDisabled, NoTranscriptFound, VideoUnavailable} \<and>
          list_api api vid w2 = (Inr ts, w3) \<and>
          find_generated_transcript api ts LANGS w3 = (Inl e2, w4)"
  then have t: "fallback_tier api vid w2 =
      \<lparr>returned = Inl e2, calls = [CallList vid, CallFindGenerated LANGS], world = w4\<rparr>"
    by (simp add: fallback_tier_def)
  from a show "returned (get_transcript api vid w0) = Inr []"
    and "world (get_transcript api vid w0) = w4"
    and "calls (get_transcript api vid w0) =
              [CallConstruct, CallFetch vid LANGS, CallList vid, CallFindGenerated LANGS]"
    using get_transcript_fallback [OF c, of vid e w2] by (simp_all add: t)
next
  assume a: "fetch api vid LANGS w1 = (Inl e, w2) \<and>
          e \<in> {TranscriptsDisabled, NoTranscriptFound, VideoUnavailable} \<and>
          list_api api vid w2 = (Inr ts, w3) \<and>
          find_generated_transcript api ts LANGS w3 = (Inr g, w4) \<and>
          gen_fetch api g w4 = (Inl e3, w5)"
  then have t: "fallback_tier api vid w2 =
      \<lparr>returned = Inl e3, calls = [CallList vid, CallFindGenerated LANGS, CallGenFetch],
       world = w5\<rparr>"
    by (simp add: fallback_tier_def)
  from a show "returned (get_transcript api vid w0) = Inr []"
    and "world (get_transcript api vid w0) = w5"
    and "calls (get_transcript api vid w0) =
              [CallConstruct, CallFetch vid LANGS, CallList vid, CallFindGenerated LANGS,
               CallGenFetch]"
    using get_transcript_fallback [OF c, of vid e w2] by (simp_all add: t)
next
  assume a: "fetch api vid LANGS w1 = (Inl e, w2) \<and>
          e \<in> {TranscriptsDisabled, NoTranscriptFound, VideoUnavailable} \<and>
          list_api api vid w2 = (Inr ts, w3) \<and>
          find_generated_transcript api ts LANGS w3 = (Inr g, w4) \<and>
          gen_fetch api g w4 = (Inr fetched, w5)"
  then have t: "fallback_tier api vid w2 =
      \<lparr>returned = join_text fetched,
       calls = [CallList vid, CallFindGenerated LANGS, CallGenFetch], world = w5\<rparr>"
    by (simp add: fallback_tier_def)
  from a show "returned (get_transcript api vid w0) =
              (case join_text fetched of Inl e' \<Rightarrow> Inr [] | Inr s \<Rightarrow> Inr s)"
    and "world (get_transcript api vid w0) = w5"
    and "calls (get_transcript api vid w0) =
              [CallConstruct, CallFetch vid LANGS, CallList vid, CallFindGenerated LANGS,
               CallGenFetch]"
    using get_transcript_fallback [OF c, of vid e w2] by (simp_all add: t)
next
  assume a: "fetch api vid LANGS w1 = (r, w2) \<and>
          (\<forall>e'. r = Inl e' \<longrightarrow>
             e' \<notin> {TranscriptsDisabled, NoTranscriptFound, VideoUnavailable})"
  then show "world (get_transcript api vid w0) = w2"
    and "calls (get_transcript api vid w0) = [CallConstruct, CallFetch vid LANGS]"
    using get_transcript_no_fallback [OF c, of vid r w2] by blast+
qed

text \<open>
  Claim C2, three runs on an API that records the operations invoked on it: an unavailable
  video reaches the fallback tier, which invokes the three operations and returns the
  generated text; another exception invokes the constructor and the primary fetch only; a
  fallback tier whose last operation fails gives the empty string.
\<close>

theorem fallback_iff_expected_absence_witness:
  "construct (recording_api (Inl VideoUnavailable) (Inr (fragments [''Auto'', ''text''])))
      [] = (None, [''YouTubeTranscriptApi'']) \<and>
   fetch (recording_api (Inl VideoUnavailable) (Inr (fragments [''Auto'', ''text''])))
      (Str ''abc123'') LANGS [''YouTubeTranscriptApi'']
      = (Inl VideoUnavailable, [''YouTubeTranscriptApi'', ''fetch'']) \<and>
   CallList (Str ''abc123'') \<in> set (calls (get_transcript
      (recording_api (Inl VideoUnavailable) (Inr (fragments [''Auto'', ''text''])))
      (Str ''abc123'') [])) \<and>
   returned (get_transcript
      (recording_api (Inl VideoUnavailable) (Inr (fragments [''Auto'', ''text''])))
      (Str ''abc123'') []) = Inr ''Auto text'' \<and>
   world (get_transcript
      (recording_api (Inl VideoUnavailable) (Inr (fragments [''Auto'', ''text''])))
      (Str ''abc123'') [])
      = [''YouTubeTranscriptApi'', ''fetch'', ''list'', ''find_generated_transcript'',
         ''generated.fetch''] \<and>
   construct (recording_api (Inl (OtherException ''blocked''))
      (Inr (fragments [''Auto'', ''text'']))) [] = (None, [''YouTubeTranscriptApi'']) \<and>
   returned (primary_tier (recording_api (Inl (OtherException ''blocked''))
      (Inr (fragments [''Auto'', ''text'']))) (Str ''abc123'') [''YouTubeTranscriptApi''])
      = Inl (OtherException ''blocked'') \<and>
   returned (get_transcript (recording_api (Inl (OtherException ''blocked''))
      (Inr (fragments [''Auto'', ''text'']))) (Str ''abc123'') []) = Inr [] \<and>
   calls (get_transcript (recording_api (Inl (OtherException ''blocked''))
      (Inr (fragments [''Auto'', ''text'']))) (Str ''abc123'') [])
      = [CallConstruct, CallFetch (Str ''abc123'') LANGS] \<and>
   world (get_transcript (recording_api (Inl (OtherException ''blocked''))
      (Inr (fragments [''Auto'', ''text'']))) (Str ''abc123'') [])
      = [''YouTubeTranscriptApi'', ''fetch''] \<and>
   returned (get_transcript (recording_api (Inl NoTranscriptFound)
      (Inl (OtherException ''blocked''))) (Str ''abc123'') []) = Inr [] \<and>
   world (get_transcript (recording_api (Inl NoTranscriptFound)
      (Inl (OtherException ''blocked''))) (Str ''abc123'') [])
      = [''YouTubeTranscriptApi'', ''fetch'', ''list'', ''find_generated_transcript'',
         ''generated.fetch'']"
proof -
  let ?a = "recording_api (Inl VideoUnavailable) (Inr (fragments [''Auto'', ''text'']))"
  let ?b = "recording_api (Inl (OtherException ''blocked''))
      (Inr (fragments [''Auto'', ''text'']))"
  let ?d = "recording_api (Inl NoTranscriptFound) (Inl (OtherException ''blocked''))"
  let ?v = "Str ''abc123''"
  let ?w1 = "[''YouTubeTranscriptApi'']"
  let ?w2 = "[''YouTubeTranscriptApi'', ''fetch'']"
  let ?w3 = "[''YouTubeTranscriptApi'', ''fetch'', ''list'']"
  let ?w4 = "[''YouTubeTranscriptApi'', ''fetch'', ''list'', ''find_generated_transcript'']"
  let ?w5 = "[''YouTubeTranscriptApi'', ''fetch'', ''list'', ''find_generated_transcript'',
         ''generated.fetch'']"
  have ca: "construct ?a [] = (None, ?w1)" and cb: "construct ?b [] = (None, ?w1)"
    and cd: "construct ?d [] = (None, ?w1)"
    by (simp_all add: recording_api_def)
  have fa: "fetch ?a ?v LANGS ?w1 = (Inl VideoUnavailable, ?w2)"
    and la: "list_api ?a ?v ?w2 = (Inr (), ?w3)"
    and ga: "find_generated_transcript ?a () LANGS ?w3 = (Inr (), ?w4)"
    and ha: "gen_fetch ?a () ?w4 = (Inr (fragments [''Auto'', ''text'']), ?w5)"
    by (simp_all add: recording_api_def)
  have fd: "fetch ?d ?v LANGS ?w1 = (Inl NoTranscriptFound, ?w2)"
    and ld: "list_api ?d ?v ?w2 = (Inr (), ?w3)"
    and gd: "find_generated_transcript ?d () LANGS ?w3 = (Inr (), ?w4)"
    and hd: "gen_fetch ?d () ?w4 = (Inl (OtherException ''blocked''), ?w5)"
    by (simp_all add: recording_api_def)
  have fb: "fetch ?b ?v LANGS ?w1 = (Inl (OtherException ''blocked''), ?w2)"
    by (simp add: recording_api_def)
  have pb: "returned (primary_tier ?b ?v ?w1) = Inl (OtherException ''blocked'')"
    by (simp add: primary_tier_def recording_api_def)
  have in3: "VideoUnavailable \<in> {TranscriptsDisabled, NoTranscriptFound, VideoUnavailable}"
    "NoTranscriptFound \<in> {TranscriptsDisabled, NoTranscriptFound, VideoUnavailable}"
    by simp_all
  have ne: "OtherException ''blocked'' \<notin> {TranscriptsDisabled, NoTranscriptFound, VideoUnavailable}"
    by simp
  have nb: "\<forall>e'. (Inl (OtherException ''blocked'') :: exn + entry list) = Inl e' \<longrightarrow>
      e' \<notin> {TranscriptsDisabled, NoTranscriptFound, VideoUnavailable}"
    by simp
  have jt: "(case join_text (fragments [''Auto'', ''text'']) of
      Inl e' \<Rightarrow> Inr [] | Inr s \<Rightarrow> Inr s) = (Inr ''Auto text'' :: exn + string)"
    by (simp add: join_text_fragments strip_def is_space_def)
  note ta = fallback_iff_expected_absence
    [OF ca, where vid = ?v and e = VideoUnavailable and ?w2.0 = ?w2 and ts = "()"
       and ?w3.0 = ?w3 and g = "()" and ?w4.0 = ?w4
       and fetched = "fragments [''Auto'', ''text'']" and ?w5.0 = ?w5
       and ?e1.0 = TypeError and ?e2.0 = TypeError and ?e3.0 = TypeError
       and r = "Inl VideoUnavailable"]
  note tb = fallback_iff_expected_absence
    [OF cb, where vid = ?v and e = VideoUnavailable and ?w2.0 = ?w2 and ts = "()"
       and ?w3.0 = ?w3 and g = "()" and ?w4.0 = ?w4
       and fetched = "fragments [''Auto'', ''text'']" and ?w5.0 = ?w5
       and ?e1.0 = TypeError and ?e2.0 = TypeError and ?e3.0 = TypeError
       and r = "Inl (OtherException ''blocked'')"]
  note td = fallback_iff_expected_absence
    [OF cd, where vid = ?v and e = NoTranscriptFound and ?w2.0 = ?w2 and ts = "()"
       and ?w3.0 = ?w3 and g = "()" and ?w4.0 = ?w4
       and fetched = "[]" and ?w5.0 = ?w5
       and ?e1.0 = TypeError and ?e2.0 = TypeError and ?e3.0 = "OtherException ''blocked''"
       and r = "Inl NoTranscriptFound"]
  have a1: "CallList ?v \<in> set (calls (get_transcript ?a ?v []))"
    using ta [THEN conjunct1] fa in3 by blast
  have a2: "returned (get_transcript ?a ?v []) =
        (case join_text (fragments [''Auto'', ''text'']) of Inl e' \<Rightarrow> Inr [] | Inr s \<Rightarrow> Inr s)
      \<and> world (get_transcript ?a ?v []) = ?w5"
    using ta [THEN conjunct2, THEN conjunct2, THEN conjunct2, THEN conjunct2, THEN conjunct2,
        THEN conjunct2, THEN conjunct1] fa la ga ha in3
    by blast
  have b1: "returned (get_transcript ?b ?v []) = Inr [] \<and>
      calls (get_transcript ?b ?v []) = [CallConstruct, CallFetch ?v LANGS]"
    using tb [THEN conjunct2, THEN conjunct1] pb ne by blast
  have b2: "world (get_transcript ?b ?v []) = ?w2"
    using tb [THEN conjunct2, THEN conjunct2, THEN conjunct2, THEN conjunct2, THEN conjunct2,
        THEN conjunct2, THEN conjunct2] fb nb
    by blast
  have d1: "returned (get_transcript ?d ?v []) = Inr [] \<and> world (get_transcript ?d ?v []) = ?w5"
    using td [THEN conjunct2, THEN conjunct2, THEN conjunct2, THEN conjunct2, THEN conjunct2,
        THEN conjunct1] fd ld gd hd in3
    by blast
  from ca fa a1 a2 [unfolded jt] cb pb b1 b2 d1 show ?thesis
    by blast
qed

lemma join_text_stripped: "join_text fetched = Inr s \<Longrightarrow> \<exists>t. s = strip t"
  by (auto simp: join_text_def split: sum.splits)

lemma primary_tier_stripped: "returned (primary_tier api vid w) = Inr s \<Longrightarrow> \<exists>t. s = strip t"
  by (auto simp: primary_tier_def split: prod.splits sum.splits dest: join_text_stripped)

lemma fallback_tier_stripped: "returned (fallback_tier api vid w) = Inr s \<Longrightarrow> \<exists>t. s = strip t"
  by (auto simp: fallback_tier_def split: prod.splits sum.splits dest: join_text_stripped)

lemma get_transcript_stripped:
  "returned (get_transcript api vid w) = Inr s \<Longrightarrow> s = [] \<or> (\<exists>t. s = strip t)"
  unfolding get_transcript_def Let_def
  by (auto split: prod.splits option.splits sum.splits if_splits
      dest: primary_tier_stripped fallback_tier_stripped)

text \<open>
  Claim C3. Whichever tier succeeds, the result is the fragments joined in order with one
  space between them and stripped of leading and trailing whitespace: for the primary
  tier, for the fallback tier after an expected absence, and for the two examples of the
  specification; a non-empty result neither starts nor ends with whitespace.
\<close>

theorem get_transcript_joins_fragments:
  assumes c: "construct api w0 = (None, w1)"
  shows "(fetch api vid LANGS w1 = (Inr (fragments xs), w2) \<longrightarrow>
            returned (get_transcript api vid w0) = Inr (strip (join '' '' xs))) \<and>
         (fetch api vid LANGS w1 = (Inl e, w2) \<and>
          e \<in> {TranscriptsDisabled, NoTranscriptFound, VideoUnavailable} \<and>
          list_api api vid w2 = (Inr ts, w3) \<and>
          find_generated_transcript api ts LANGS w3 = (Inr g, w4) \<and>
          gen_fetch api g w4 = (Inr (fragments ys), w5) \<longrightarrow>
            returned (get_transcript api vid w0) = Inr (strip (join '' '' ys))) \<and>
         (fetch api vid LANGS w1 = (Inr (fragments [''Hello'', ''world'']), w2) \<longrightarrow>
            returned (get_transcript api vid w0) = Inr ''Hello world'') \<and>
         (fetch api vid LANGS w1 = (Inl TranscriptsDisabled, w2) \<and>
          list_api api vid w2 = (Inr ts, w3) \<and>
          find_generated_transcript api ts LANGS w3 = (Inr g, w4) \<and>
          gen_fetch api g w4 = (Inr (fragments [''Auto'', ''text'']), w5) \<longrightarrow>
            returned (get_transcript api vid w0) = Inr ''Auto text'') \<and>
         (\<forall>s. returned (get_transcript api vid w0) = Inr s \<and> s \<noteq> [] \<longrightarrow>
            \<not> is_space (hd s) \<and> \<not> is_space (last s))"
proof -
  have strip_ends: "\<And>t. strip t \<noteq> [] \<Longrightarrow> \<not> is_space (hd (strip t)) \<and> \<not> is_space (last (strip t))"
    by (simp add: strip_no_leading_space strip_no_trailing_space)
  have prim: "\<And>zs. fetch api vid LANGS w1 = (Inr (fragments zs), w2) \<Longrightarrow>
      returned (get_transcript api vid w0) = Inr (strip (join '' '' zs))"
    using c by (simp add: get_transcript_def primary_tier_def join_text_fragments)
  have fall: "\<And>zs e. fetch api vid LANGS w1 = (Inl e, w2) \<Longrightarrow> expected_absence e \<Longrightarrow>
      list_api api vid w2 = (Inr ts, w3) \<Longrightarrow>
      find_generated_transcript api ts LANGS w3 = (Inr g, w4) \<Longrightarrow>
      gen_fetch api g w4 = (Inr (fragments zs), w5) \<Longrightarrow>
      returned (get_transcript api vid w0) = Inr (strip (join '' '' zs))"
    using c
    by (simp add: get_transcript_def primary_tier_def fallback_tier_def join_text_fragments)
  have hello: "strip (join '' '' [''Hello'', ''world'']) = ''Hello world''"
    by (simp add: strip_def is_space_def)
  have auto_text: "strip (join '' '' [''Auto'', ''text'']) = ''Auto text''"
    by (simp add: strip_def is_space_def)
  have ends: "\<not> is_space (hd s) \<and> \<not> is_space (last s)"
    if r: "returned (get_transcript api vid w0) = Inr s" and ne: "s \<noteq> []" for s
  proof -
    from get_transcript_stripped [OF r] ne obtain t where t: "s = strip t"
      by auto
    from ne show ?thesis
      unfolding t by (rule strip_ends)
  qed
  show ?thesis
  proof (intro conjI impI allI)
    assume "fetch api vid LANGS w1 = (Inr (fragments xs), w2)"
    then show "returned (get_transcript api vid w0) = Inr (strip (join '' '' xs))"
      by (rule prim)
  next
    assume a: "fetch api vid LANGS w1 = (Inl e, w2) \<and>
      e \<in> {TranscriptsDisabled, NoTranscriptFound, VideoUnavailable} \<and>
      list_api api vid w2 = (Inr ts, w3) \<and>
      find_generated_transcript api ts LANGS w3 = (Inr g, w4) \<and>
      gen_fetch api g w4 = (Inr (fragments ys), w5)"
    then have "expected_absence e"
      by (simp add: expected_absence_iff)
    with a show "returned (get_transcript api vid w0) = Inr (strip (join '' '' ys))"
      by (intro fall [of e]) simp_all
  next
    assume "fetch api vid LANGS w1 = (Inr (fragments [''Hello'', ''world'']), w2)"
    then have "returned (get_transcript api vid w0) = Inr (strip (join '' '' [''Hello'', ''world'']))"
      by (rule prim)
    then show "returned (get_transcript api vid w0) = Inr ''Hello world''"
      by (simp only: hello)
  next
    assume a: "fetch api vid LANGS w1 = (Inl TranscriptsDisabled, w2) \<and>
      list_api api vid w2 = (Inr ts, w3) \<and>
      find_generated_transcript api ts LANGS w3 = (Inr g, w4) \<and>
      gen_fetch api g w4 = (Inr (fragments [''Auto'', ''text'']), w5)"
    then have "returned (get_transcript api vid w0) = Inr (strip (join '' '' [''Auto'', ''text'']))"
      by (intro fall [of TranscriptsDisabled]) simp_all
    then show "returned (get_transcript api vid w0) = Inr ''Auto text''"
      by (simp only: auto_text)
  next
    fix s
    assume "returned (get_transcript api vid w0) = Inr s \<and> s \<noteq> []"
    then show "\<not> is_space (hd s)" and "\<not> is_space (last s)"
      using ends by blast+
  qed
qed

text \<open>Claim C3, the two examples run on scripted APIs.\<close>

theorem get_transcript_joins_fragments_witness:
  "construct (scripted_api None (Inr (fragments [''Hello'', ''world''])) (Inr [])) ()
     = (None, ()) \<and>
   fetch (scripted_api None (Inr (fragments [''Hello'', ''world''])) (Inr []))
     (Str ''abc123'') LANGS () = (Inr (fragments [''Hello'', ''world'']), ()) \<and>
   returned (get_transcript (scripted_api None (Inr (fragments [''Hello'', ''world''])) (Inr []))
     (Str ''abc123'') ()) = Inr ''Hello world'' \<and>
   construct (scripted_api None (Inl TranscriptsDisabled) (Inr (fragments [''Auto'', ''text'']))) ()
     = (None, ()) \<and>
   fetch (scripted_api None (Inl TranscriptsDisabled) (Inr (fragments [''Auto'', ''text''])))
     (Str ''abc123'') LANGS () = (Inl TranscriptsDisabled, ()) \<and>
   gen_fetch (scripted_api None (Inl TranscriptsDisabled) (Inr (fragments [''Auto'', ''text''])))
     () () = (Inr (fragments [''Auto'', ''text'']), ()) \<and>
   returned (get_transcript
     (scripted_api None (Inl TranscriptsDisabled) (Inr (fragments [''Auto'', ''text''])))
     (Str ''abc123'') ()) = Inr ''Auto text''"
proof -
  let ?a = "scripted_api None (Inr (fragments [''Hello'', ''world''])) (Inr [])"
  let ?b = "scripted_api None (Inl TranscriptsDisabled) (Inr (fragments [''Auto'', ''text'']))"
  let ?v = "Str ''abc123''"
  have ca: "construct ?a () = (None, ())" and cb: "construct ?b () = (None, ())"
    by (simp_all add: scripted_api_def)
  have fa: "fetch ?a ?v LANGS () = (Inr (fragments [''Hello'', ''world'']), ())"
    by (simp add: scripted_api_def)
  have fb: "fetch ?b ?v LANGS () = (Inl TranscriptsDisabled, ())"
    and lb: "list_api ?b ?v () = (Inr (), ())"
    and gb: "find_generated_transcript ?b () LANGS () = (Inr (), ())"
    and hb: "gen_fetch ?b () () = (Inr (fragments [''Auto'', ''text'']), ())"
    by (simp_all add: scripted_api_def)
  have "returned (get_transcript ?a ?v ()) = Inr ''Hello world''"
    using get_transcript_joins_fragments [OF ca, of ?v] fa by blast
  moreover have "returned (get_transcript ?b ?v ()) = Inr ''Auto text''"
    using get_transcript_joins_fragments [OF cb, of ?v] fb lb gb hb by blast
  ultimately show ?thesis
    using ca cb fa fb hb by blast
qed

section \<open>Properties of the transcript fetcher\<close>

lemma cell_at_update_other:
  "c' \<noteq> c \<Longrightarrow> cell_at cols (r[index_of c cols := v]) c' = cell_at cols r c'"
proof (induction cols arbitrary: r)
  case Nil
  then show ?case by (simp add: cell_at_def)
next
  case (Cons x cols)
  show ?case
  proof (cases r)
    case Nil
    then show ?thesis by (simp add: cell_at_def)
  next
    case (Cons y ys)
    with Cons.prems Cons.IH [of ys] show ?thesis
      by (auto simp: cell_at_def)
  qed
qed

lemma cell_at_update_same:
  "c \<in> set cols \<Longrightarrow> length r = length cols \<Longrightarrow> cell_at cols (r[index_of c cols := v]) c = v"
proof (induction cols arbitrary: r)
  case Nil
  then show ?case by simp
next
  case (Cons x cols)
  then obtain y ys where r: "r = y # ys" and l: "length ys = length cols"
    by (cases r) auto
  with Cons show ?case
    by (auto simp: cell_at_def)
qed

lemma cell_at_append_old:
  "c' \<in> set cols \<Longrightarrow> length r = length cols \<Longrightarrow> cell_at (cols @ [c]) (r @ [v]) c' = cell_at cols r c'"
proof -
  assume a: "c' \<in> set cols" and l: "length r = length cols"
  then have "c' \<in> dom (map_of (zip cols r))"
    by simp
  then obtain u where "map_of (zip cols r) c' = Some u"
    by blast
  with l show ?thesis
    by (simp add: cell_at_def map_add_Some_iff)
qed

lemma cell_at_append_new:
  "c \<notin> set cols \<Longrightarrow> length r = length cols \<Longrightarrow> cell_at (cols @ [c]) (r @ [v]) c = v"
proof -
  assume a: "c \<notin> set cols" and l: "length r = length cols"
  then have n: "map_of (zip cols r) c = None"
    by (auto simp: map_of_eq_None_iff dest: set_zip_leftD)
  have z: "zip (cols @ [c]) (r @ [v]) = zip cols r @ [(c, v)]"
    using l by simp
  show ?thesis
    unfolding cell_at_def z map_of_append map_add_def n by simp
qed

lemma fetch_transcripts_length:
  "fetch_transcripts api vids w = (Inr ts, w') \<Longrightarrow> length ts = length vids"
proof (induction vids arbitrary: w ts)
  case Nil
  then show ?case by simp
next
  case (Cons v vids)
  then show ?case
    by (auto simp: Let_def split: sum.splits prod.splits)
qed

lemma core_rows_length:
  "wf_frame df \<Longrightarrow> r \<in> set (core_rows df) \<Longrightarrow> length r = length (columns df)"
  by (auto simp: wf_frame_def core_rows_def list_all_iff)

lemma cell_at_pair:
  "cell_at [''video_id'', ''transcript''] [a, b] ''video_id'' = a"
  "cell_at [''video_id'', ''transcript''] [a, b] ''transcript'' = b"
  by (simp_all add: cell_at_def)

lemma transcript_table:
  assumes wf: "wf_frame df" and vid: "''video_id'' \<in> set (columns df)"
    and len: "length ts = length (core_rows df)"
    and sc: "set_column \<lparr>columns = columns df, rows = core_rows df\<rparr> ''transcript'' (map Str ts)
               = Inr core'"
  shows "select core' [''video_id'', ''transcript''] =
           \<lparr>columns = [''video_id'', ''transcript''],
            rows = map (\<lambda>(r, t). [video_id_of df r, Str t]) (zip (core_rows df) ts)\<rparr>"
proof -
  have z: "zip (core_rows df) (map Str ts) = map (\<lambda>(r, t). (r, Str t)) (zip (core_rows df) ts)"
    by (simp add: zip_map2)
  show ?thesis
  proof (cases "''transcript'' \<in> set (columns df)")
    case True
    with sc len have c': "core' = \<lparr>columns = columns df,
        rows = map2 (\<lambda>r v. r[index_of ''transcript'' (columns df) := v]) (core_rows df) (map Str ts)\<rparr>"
      by (simp add: set_column_def)
    have "\<And>r t. (r, t) \<in> set (zip (core_rows df) ts) \<Longrightarrow>
        map (cell_at (columns df) (r[index_of ''transcript'' (columns df) := Str t]))
          [''video_id'', ''transcript''] = [video_id_of df r, Str t]"
      using True wf
      by (auto simp: video_id_of_def cell_at_update_other cell_at_update_same
          dest!: set_zip_leftD core_rows_length)
    then show ?thesis
      unfolding c' select_def z by (auto simp: comp_def case_prod_unfold)
  next
    case False
    with sc len have c': "core' = \<lparr>columns = columns df @ [''transcript''],
        rows = map2 (\<lambda>r v. r @ [v]) (core_rows df) (map Str ts)\<rparr>"
      by (simp add: set_column_def)
    have "\<And>r t. (r, t) \<in> set (zip (core_rows df) ts) \<Longrightarrow>
        map (cell_at (columns df @ [''transcript'']) (r @ [Str t]))
          [''video_id'', ''transcript''] = [video_id_of df r, Str t]"
      using False wf vid
      by (auto simp: video_id_of_def cell_at_append_old cell_at_append_new
          dest!: set_zip_leftD core_rows_length)
    then show ?thesis
      unfolding c' select_def z by (auto simp: comp_def case_prod_unfold)
  qed
qed

lemma merge_transcript_table:
  assumes m: "merge_left df
      \<lparr>columns = [''video_id'', ''transcript''],
       rows = map (\<lambda>(r, t). [video_id_of df r, Str t]) (zip (core_rows df) ts)\<rparr> ''video_id''
      = Inr merged"
  shows "rows merged = concat (map (expand df ts) (rows df))"
    and "columns merged =
       map (\<lambda>c. if c = ''transcript'' then ''transcript_x'' else c) (columns df) @
       [if ''transcript'' \<in> set (columns df) then ''transcript_y'' else ''transcript'']"
proof -
  let ?right = "map (\<lambda>(r, t). [video_id_of df r, Str t]) (zip (core_rows df) ts)"
  have f: "\<And>l. filter (\<lambda>r. cell_at [''video_id'', ''transcript''] r ''video_id''
                        = cell_at (columns df) l ''video_id'') ?right
      = map (\<lambda>(r, t). [video_id_of df r, Str t])
          (filter (\<lambda>(r, t). video_id_of df r = video_id_of df l) (zip (core_rows df) ts))"
    by (simp add: filter_map comp_def case_prod_unfold cell_at_pair video_id_of_def)
  have e: "\<And>l. join_rows (columns df) [''video_id'', ''transcript''] ?right ''video_id''
             [''transcript''] l = expand df ts l"
    unfolding join_rows_def f expand_def transcripts_for_def
    by (simp add: list.case_eq_if comp_def case_prod_unfold cell_at_pair)
  have e': "join_rows (columns df) [''video_id'', ''transcript''] ?right ''video_id''
             [''transcript''] = expand df ts"
    by (rule ext) (rule e)
  from m show "rows merged = concat (map (expand df ts) (rows df))"
    by (auto simp: merge_left_def Let_def e' split: if_splits)
  from m show "columns merged =
       map (\<lambda>c. if c = ''transcript'' then ''transcript_x'' else c) (columns df) @
       [if ''transcript'' \<in> set (columns df) then ''transcript_y'' else ''transcript'']"
    by (auto simp: merge_left_def Let_def split: if_splits)
qed

lemma column_core:
  "column \<lparr>columns = columns df, rows = core_rows df\<rparr> ''video_id'' = core_ids df"
  by (simp add: column_def core_ids_def video_id_of_def)

lemma main_written:
  assumes wf: "wf_frame df"
    and wr: "written (fetch_core_transcripts_main api a df w) = Some (path, out)"
  shows "\<exists>ts w'. fetch_transcripts api (core_ids df) w = (Inr ts, w') \<and>
           length ts = length (core_rows df) \<and> core_rows df \<noteq> [] \<and>
           rows out = concat (map (expand df ts) (rows df)) \<and>
           columns out =
             map (\<lambda>c. if c = ''transcript'' then ''transcript_x'' else c) (columns df) @
             [if ''transcript'' \<in> set (columns df) then ''transcript_y'' else ''transcript''] \<and>
           path = output_path a"
proof -
  let ?core = "\<lparr>columns = columns df, rows = core_rows df\<rparr>"
  from wr have cv: "''Core_video'' \<in> set (columns df)" and vid: "''video_id'' \<in> set (columns df)"
    and ne: "core_rows df \<noteq> []"
    by (auto simp: fetch_core_transcripts_main_def Let_def split: if_splits)
  obtain res w' where ft: "fetch_transcripts api (core_ids df) w = (res, w')"
    by (cases "fetch_transcripts api (core_ids df) w")
  from wr cv vid ne ft obtain ts where res: "res = Inr ts"
    by (cases res) (auto simp: fetch_core_transcripts_main_def Let_def column_core)
  from ft res have len: "length ts = length (core_rows df)"
    by (auto dest: fetch_transcripts_length simp: core_ids_def)
  obtain sc where sc: "set_column ?core ''transcript'' (map Str ts) = sc"
    by simp
  from len obtain core' where core': "sc = Inr core'"
    using sc by (auto simp: set_column_def split: if_splits)
  have sel: "select core' [''video_id'', ''transcript''] =
           \<lparr>columns = [''video_id'', ''transcript''],
            rows = map (\<lambda>(r, t). [video_id_of df r, Str t]) (zip (core_rows df) ts)\<rparr>"
    using wf vid len sc [unfolded core'] by (rule transcript_table)
  from wr cv vid ne ft res sc core' sel have
    m: "merge_left df \<lparr>columns = [''video_id'', ''transcript''],
            rows = map (\<lambda>(r, t). [video_id_of df r, Str t]) (zip (core_rows df) ts)\<rparr>
          ''video_id'' = Inr out" and p: "path = output_path a"
    by (auto simp: fetch_core_transcripts_main_def Let_def column_core split: sum.splits)
  from ft res len ne p merge_transcript_table [OF m] show ?thesis
    by simp
qed

lemma length_filter_zip_count:
  "length ys = length xs \<Longrightarrow>
     length (filter (\<lambda>(r, t). f r = v) (zip xs ys)) = count_list (map f xs) v"
  by (induction xs ys rule: list_induct2') auto

lemma length_transcripts_for:
  "length ts = length (core_rows df) \<Longrightarrow>
     length (transcripts_for df ts v) = count_list (core_ids df) v"
  by (simp add: transcripts_for_def core_ids_def length_filter_zip_count)

lemma transcripts_for_Nil_iff:
  "length ts = length (core_rows df) \<Longrightarrow>
     transcripts_for df ts v = [] \<longleftrightarrow> v \<notin> set (core_ids df)"
  using length_transcripts_for [of ts df v] by (simp add: count_list_0_iff del: length_0_conv flip: length_0_conv)

lemma length_expand:
  assumes "length ts = length (core_rows df)"
  shows "length (expand df ts l) = max 1 (count_list (core_ids df) (video_id_of df l))"
proof (cases "transcripts_for df ts (video_id_of df l) = []")
  case True
  with length_transcripts_for [OF assms, of "video_id_of df l"] show ?thesis
    by (simp add: expand_def)
next
  case False
  then have "0 < length (transcripts_for df ts (video_id_of df l))"
    by simp
  with False length_transcripts_for [OF assms, of "video_id_of df l"] show ?thesis
    by (simp add: expand_def)
qed

lemma butlast_expand: "o' \<in> set (expand df ts l) \<Longrightarrow> butlast o' = l"
  by (auto simp: expand_def split: if_splits)

lemma expand_cases:
  "o' \<in> set (expand df ts l) \<Longrightarrow>
     (o' = l @ [NaN] \<and> transcripts_for df ts (video_id_of df l) = []) \<or>
     (\<exists>t \<in> set (transcripts_for df ts (video_id_of df l)). o' = l @ [Str t])"
  by (auto simp: expand_def split: if_splits)

lemma distinct_count_le_1: "distinct xs \<Longrightarrow> count_list xs v \<le> 1"
  by (induction xs) (auto simp: count_list_0_iff)

lemma expand_single:
  assumes "length ts = length (core_rows df)" and "distinct (core_ids df)"
  shows "\<exists>x. expand df ts l = [l @ [x]]"
proof -
  have "length (transcripts_for df ts (video_id_of df l)) \<le> 1"
    using assms distinct_count_le_1 [of "core_ids df" "video_id_of df l"]
    by (simp add: length_transcripts_for)
  then show ?thesis
    by (cases "transcripts_for df ts (video_id_of df l)") (auto simp: expand_def)
qed

lemma butlast_concat_expand:
  assumes "length ts = length (core_rows df)" and "distinct (core_ids df)"
  shows "map butlast (concat (map (expand df ts) rs)) = rs"
proof (induction rs)
  case Nil
  show ?case by simp
next
  case (Cons l rs)
  from expand_single [OF assms, of l] obtain x where "expand df ts l = [l @ [x]]" ..
  with Cons show ?case by simp
qed

text \<open>
  Claim C10. In the table handed to \<^verbatim>\<open>to_csv\<close>, every row is an input row with one cell
  appended. When the selected rows have pairwise distinct identifiers, the output has
  exactly one row per input row, in the input order. When two selected rows share an
  identifier, every input row that carries it occurs at least twice in the output.
\<close>

theorem merged_rows_per_input_row:
  assumes wf: "wf_frame df"
    and wr: "written (fetch_core_transcripts_main api a df w) = Some (path, out)"
  shows "(distinct (core_ids df) \<longrightarrow>
            length (rows out) = length (rows df) \<and> map butlast (rows out) = rows df) \<and>
         (\<forall>r \<in> set (rows df). 2 \<le> count_list (core_ids df) (video_id_of df r) \<longrightarrow>
            2 \<le> length (filter (\<lambda>o'. butlast o' = r) (rows out)))"
proof -
  from main_written [OF wf wr] obtain ts w' where len: "length ts = length (core_rows df)"
    and out: "rows out = concat (map (expand df ts) (rows df))"
    by blast
  have one: "map butlast (rows out) = rows df" if "distinct (core_ids df)"
    unfolding out using len that by (rule butlast_concat_expand)
  have two: "2 \<le> length (filter (\<lambda>o'. butlast o' = r) (rows out))"
    if r: "r \<in> set (rows df)" and c: "2 \<le> count_list (core_ids df) (video_id_of df r)" for r
  proof -
    from r obtain xs ys where "rows df = xs @ r # ys"
      by (auto dest: split_list)
    then have "length (filter (\<lambda>o'. butlast o' = r) (expand df ts r))
        \<le> length (filter (\<lambda>o'. butlast o' = r) (rows out))"
      by (simp add: out)
    moreover have "filter (\<lambda>o'. butlast o' = r) (expand df ts r) = expand df ts r"
      by (auto simp: filter_id_conv dest: butlast_expand)
    moreover have "2 \<le> length (expand df ts r)"
      using c by (simp add: length_expand [OF len])
    ultimately show ?thesis
      by simp
  qed
  from one two show ?thesis
    by (metis length_map)
qed

text \<open>
  Claim C10, two runs: scenario A (distinct identifiers, three rows in and out), and two
  selected rows with one identifier (two rows in, four out).
\<close>

theorem merged_rows_per_input_row_witness:
  "wf_frame scenario_table \<and>
   written (fetch_core_transcripts_main (lookup_api [(Str ''a'', [''X''])]) cli scenario_table ())
     = Some (''youtube_core_transcripts.csv'',
         \<lparr>columns = [''video_id'', ''Core_video'', ''note'', ''transcript''],
          rows = [[Str ''a'', Str ''1'', Str ''first'', Str ''X''],
                  [Str ''b'', Str ''0'', NaN, NaN],
                  [Str ''c'', Str ''1'', Str ''third'', Str []]]\<rparr>) \<and>
   distinct (core_ids scenario_table) \<and>
   map butlast [[Str ''a'', Str ''1'', Str ''first'', Str ''X''],
                [Str ''b'', Str ''0'', NaN, NaN],
                [Str ''c'', Str ''1'', Str ''third'', Str []]] = rows scenario_table \<and>
   wf_frame shared_id_table \<and>
   written (fetch_core_transcripts_main (lookup_api [(Str ''a'', [''X''])]) cli shared_id_table ())
     = Some (''youtube_core_transcripts.csv'',
         \<lparr>columns = [''video_id'', ''Core_video'', ''transcript''],
          rows = [[Str ''a'', Str ''1'', Str ''X''], [Str ''a'', Str ''1'', Str ''X''],
                  [Str ''a'', Str ''1'', Str ''X''], [Str ''a'', Str ''1'', Str ''X'']]\<rparr>) \<and>
   [Str ''a'', Str ''1''] \<in> set (rows shared_id_table) \<and>
   2 \<le> count_list (core_ids shared_id_table) (video_id_of shared_id_table [Str ''a'', Str ''1'']) \<and>
   2 \<le> length (filter (\<lambda>o'. butlast o' = [Str ''a'', Str ''1''])
          [[Str ''a'', Str ''1'', Str ''X''], [Str ''a'', Str ''1'', Str ''X''],
           [Str ''a'', Str ''1'', Str ''X''], [Str ''a'', Str ''1'', Str ''X'']])"
proof -
  let ?api = "lookup_api [(Str ''a'', [''X''])]"
  let ?o1 = "\<lparr>columns = [''video_id'', ''Core_video'', ''note'', ''transcript''],
          rows = [[Str ''a'', Str ''1'', Str ''first'', Str ''X''],
                  [Str ''b'', Str ''0'', NaN, NaN],
                  [Str ''c'', Str ''1'', Str ''third'', Str []]]\<rparr>"
  let ?o2 = "\<lparr>columns = [''video_id'', ''Core_video'', ''transcript''],
          rows = [[Str ''a'', Str ''1'', Str ''X''], [Str ''a'', Str ''1'', Str ''X''],
                  [Str ''a'', Str ''1'', Str ''X''], [Str ''a'', Str ''1'', Str ''X'']]\<rparr>"
  have wf1: "wf_frame scenario_table" and wf2: "wf_frame shared_id_table"
    by code_simp+
  have wr1: "written (fetch_core_transcripts_main ?api cli scenario_table ())
      = Some (''youtube_core_transcripts.csv'', ?o1)"
    by code_simp
  have wr2: "written (fetch_core_transcripts_main ?api cli shared_id_table ())
      = Some (''youtube_core_transcripts.csv'', ?o2)"
    by code_simp
  have d: "distinct (core_ids scenario_table)"
    by code_simp
  have r: "[Str ''a'', Str ''1''] \<in> set (rows shared_id_table)"
    by (simp add: shared_id_table_def)
  have c: "2 \<le> count_list (core_ids shared_id_table)
      (video_id_of shared_id_table [Str ''a'', Str ''1''])"
    by code_simp
  have "map butlast (rows ?o1) = rows scenario_table"
    using merged_rows_per_input_row [OF wf1 wr1] d by blast
  moreover have "2 \<le> length (filter (\<lambda>o'. butlast o' = [Str ''a'', Str ''1'']) (rows ?o2))"
    using merged_rows_per_input_row [OF wf2 wr2] r c by blast
  ultimately show ?thesis
    using wf1 wf2 wr1 wr2 d r c by simp
qed

lemma concat_expand_appended:
  assumes "length ts = length (core_rows df)" and "distinct (core_ids df)"
  shows "list_all2 (\<lambda>o' l. \<exists>x. o' = l @ [x]) (concat (map (expand df ts) rs)) rs"
proof (induction rs)
  case Nil
  show ?case by simp
next
  case (Cons l rs)
  from expand_single [OF assms, of l] obtain x where "expand df ts l = [l @ [x]]" ..
  with Cons show ?case by simp
qed

text \<open>
  Claim C9, as amended. When the input table has no column named \<^verbatim>\<open>transcript\<close> yet and
  its selected rows have pairwise distinct identifiers, the output has the input's labels
  followed by \<^verbatim>\<open>transcript\<close>, its rows are the input rows in order with one cell appended,
  and every input label gives the same cell in the output row as in the input row.
\<close>

theorem input_table_plus_transcript_column:
  assumes wf: "wf_frame df"
    and wr: "written (fetch_core_transcripts_main api a df w) = Some (path, out)"
    and nt: "''transcript'' \<notin> set (columns df)"
    and d: "distinct (core_ids df)"
  shows "columns out = columns df @ [''transcript''] \<and>
         map butlast (rows out) = rows df \<and>
         list_all (\<lambda>o'. length o' = length (columns out)) (rows out) \<and>
         list_all2 (\<lambda>o' r. \<forall>c \<in> set (columns df).
                      cell_at (columns out) o' c = cell_at (columns df) r c)
           (rows out) (rows df)"
proof -
  from main_written [OF wf wr] obtain ts w' where len: "length ts = length (core_rows df)"
    and out: "rows out = concat (map (expand df ts) (rows df))"
    and cols: "columns out =
             map (\<lambda>c. if c = ''transcript'' then ''transcript_x'' else c) (columns df) @
             [if ''transcript'' \<in> set (columns df) then ''transcript_y'' else ''transcript'']"
    by blast
  have "map (\<lambda>c. if c = ''transcript'' then ''transcript_x'' else c) (columns df) = columns df"
    using nt by (intro map_idI) auto
  with cols nt have c: "columns out = columns df @ [''transcript'']"
    by simp
  have b: "map butlast (rows out) = rows df"
    unfolding out using len d by (rule butlast_concat_expand)
  have app: "list_all2 (\<lambda>o' l. \<exists>x. o' = l @ [x]) (rows out) (rows df)"
    unfolding out using len d by (rule concat_expand_appended)
  have rl: "\<And>r. r \<in> set (rows df) \<Longrightarrow> length r = length (columns df)"
    using wf by (simp add: wf_frame_def list_all_iff)
  have la: "list_all (\<lambda>o'. length o' = length (columns out)) (rows out)"
    unfolding list_all_iff
  proof
    fix o' assume "o' \<in> set (rows out)"
    then obtain i where i: "i < length (rows out)" and o': "o' = rows out ! i"
      by (auto simp: in_set_conv_nth)
    from app i have "\<exists>x. rows out ! i = rows df ! i @ [x]" and "i < length (rows df)"
      by (auto simp: list_all2_conv_all_nth)
    with rl [of "rows df ! i"] c o' show "length o' = length (columns out)"
      by auto
  qed
  from app have same: "list_all2 (\<lambda>o' r. \<forall>c \<in> set (columns df).
                      cell_at (columns out) o' c = cell_at (columns df) r c)
           (rows out) (rows df)"
  proof (rule list.rel_mono_strong)
    fix o' r
    assume "r \<in> set (rows df)" and "\<exists>x. o' = r @ [x]"
    with rl [of r] show "\<forall>c \<in> set (columns df).
        cell_at (columns out) o' c = cell_at (columns df) r c"
      unfolding c by (auto simp: cell_at_append_old)
  qed
  from c b la same show ?thesis
    by simp
qed

text \<open>
  Claim C9 as stated fails on two inputs: a table that already has a \<^verbatim>\<open>transcript\<close>
  column comes out with that column renamed \<^verbatim>\<open>transcript_x\<close> beside \<^verbatim>\<open>transcript_y\<close>, and
  a table whose two selected rows share an identifier comes out with four rows.
\<close>

theorem transcript_column_renamed_and_rows_repeated:
  "written (fetch_core_transcripts_main (lookup_api [(Str ''a'', [''X''])]) cli rerun_table ())
     = Some (''youtube_core_transcripts.csv'',
         \<lparr>columns = [''video_id'', ''Core_video'', ''transcript_x'', ''transcript_y''],
          rows = [[Str ''a'', Str ''1'', Str ''old'', Str ''X''],
                  [Str ''b'', Str ''0'', NaN, NaN]]\<rparr>) \<and>
   written (fetch_core_transcripts_main (lookup_api [(Str ''a'', [''X''])]) cli shared_id_table ())
     = Some (''youtube_core_transcripts.csv'',
         \<lparr>columns = [''video_id'', ''Core_video'', ''transcript''],
          rows = [[Str ''a'', Str ''1'', Str ''X''], [Str ''a'', Str ''1'', Str ''X''],
                  [Str ''a'', Str ''1'', Str ''X''], [Str ''a'', Str ''1'', Str ''X'']]\<rparr>)"
  by code_simp

text \<open>Claim C9, scenario A run.\<close>

theorem input_table_plus_transcript_column_witness:
  "wf_frame scenario_table \<and>
   written (fetch_core_transcripts_main (lookup_api [(Str ''a'', [''X''])]) cli scenario_table ())
     = Some (''youtube_core_transcripts.csv'',
         \<lparr>columns = [''video_id'', ''Core_video'', ''note'', ''transcript''],
          rows = [[Str ''a'', Str ''1'', Str ''first'', Str ''X''],
                  [Str ''b'', Str ''0'', NaN, NaN],
                  [Str ''c'', Str ''1'', Str ''third'', Str []]]\<rparr>) \<and>
   ''transcript'' \<notin> set (columns scenario_table) \<and>
   distinct (core_ids scenario_table) \<and>
   [''video_id'', ''Core_video'', ''note'', ''transcript'']
     = columns scenario_table @ [''transcript''] \<and>
   map butlast [[Str ''a'', Str ''1'', Str ''first'', Str ''X''],
                [Str ''b'', Str ''0'', NaN, NaN],
                [Str ''c'', Str ''1'', Str ''third'', Str []]] = rows scenario_table"
proof -
  let ?api = "lookup_api [(Str ''a'', [''X''])]"
  let ?o1 = "\<lparr>columns = [''video_id'', ''Core_video'', ''note'', ''transcript''],
          rows = [[Str ''a'', Str ''1'', Str ''first'', Str ''X''],
                  [Str ''b'', Str ''0'', NaN, NaN],
                  [Str ''c'', Str ''1'', Str ''third'', Str []]]\<rparr>"
  have wf1: "wf_frame scenario_table"
    by code_simp
  have wr1: "written (fetch_core_transcripts_main ?api cli scenario_table ())
      = Some (''youtube_core_transcripts.csv'', ?o1)"
    by code_simp
  have nt: "''transcript'' \<notin> set (columns scenario_table)"
    by (simp add: scenario_table_def)
  have d: "distinct (core_ids scenario_table)"
    by code_simp
  have "columns ?o1 = columns scenario_table @ [''transcript''] \<and>
      map butlast (rows ?o1) = rows scenario_table"
    using input_table_plus_transcript_column [OF wf1 wr1 nt d] by blast
  then show ?thesis
    using wf1 wr1 nt d by simp
qed

lemma expand_member:
  assumes "o' \<in> set (concat (map (expand df ts) rs))"
  obtains l where "l \<in> set rs" and "o' \<in> set (expand df ts l)"
  using assms by auto

lemma in_transcripts_for:
  assumes "t \<in> set (transcripts_for df ts v)"
  shows "\<exists>k < length (core_rows df). k < length ts \<and>
           video_id_of df (core_rows df ! k) = v \<and> ts ! k = t"
proof -
  from assms obtain r where m: "(r, t) \<in> set (zip (core_rows df) ts)"
    and v: "video_id_of df r = v"
    by (auto simp: transcripts_for_def)
  from m obtain k where "k < length (core_rows df)" "k < length ts"
    and "core_rows df ! k = r" "ts ! k = t"
    by (auto simp: set_zip)
  with v show ?thesis
    by blast
qed

lemma transcripts_for_member:
  assumes "k < length (core_rows df)" and "length ts = length (core_rows df)"
    and "video_id_of df (core_rows df ! k) = v"
  shows "ts ! k \<in> set (transcripts_for df ts v)"
proof -
  from assms have "(core_rows df ! k, ts ! k) \<in> set (zip (core_rows df) ts)"
    by (auto simp: set_zip)
  with assms(3) show ?thesis
    by (force simp: transcripts_for_def)
qed

text \<open>
  Claim C5, as amended. A row whose identifier is the identifier of no selected row comes
  out with a null transcript and with no other; every selected row comes out with the
  string resolved for it (so with the empty string when that is what was resolved); an
  output row has a null transcript exactly when its identifier is that of no selected
  row; and every row, selected or not, that shares its identifier with a selected row
  comes out with the string resolved for that selected row. The output holds nothing
  else: each of its rows is an input row followed by a null or by the string resolved for
  a selected row of the same identifier.
\<close>

theorem null_iff_identifier_not_selected:
  assumes wf: "wf_frame df"
    and wr: "written (fetch_core_transcripts_main api a df w) = Some (path, out)"
  shows "\<exists>ts w'. fetch_transcripts api (core_ids df) w = (Inr ts, w') \<and>
           (\<forall>r \<in> set (rows df). video_id_of df r \<notin> set (core_ids df) \<longrightarrow>
              r @ [NaN] \<in> set (rows out) \<and> (\<forall>t. r @ [Str t] \<notin> set (rows out))) \<and>
           (\<forall>k < length (core_rows df). core_rows df ! k @ [Str (ts ! k)] \<in> set (rows out)) \<and>
           (\<forall>o' \<in> set (rows out).
              last o' = NaN \<longleftrightarrow> video_id_of df (butlast o') \<notin> set (core_ids df)) \<and>
           length ts = length (core_rows df) \<and>
           (\<forall>r \<in> set (rows df). \<forall>k < length (core_rows df).
              video_id_of df r = video_id_of df (core_rows df ! k) \<longrightarrow>
              r @ [Str (ts ! k)] \<in> set (rows out)) \<and>
           (\<forall>o' \<in> set (rows out).
              o' \<noteq> [] \<and> butlast o' \<in> set (rows df) \<and>
              (last o' = NaN \<or>
               (\<exists>k < length (core_rows df).
                  video_id_of df (core_rows df ! k) = video_id_of df (butlast o') \<and>
                  last o' = Str (ts ! k)))) \<and>
           rows out = concat (map (expand df ts) (rows df))"
proof -
  from main_written [OF wf wr] obtain ts w'
    where ft: "fetch_transcripts api (core_ids df) w = (Inr ts, w')"
    and len: "length ts = length (core_rows df)"
    and out: "rows out = concat (map (expand df ts) (rows df))"
    by blast
  note nil = transcripts_for_Nil_iff [OF len]
  have a: "r @ [NaN] \<in> set (rows out) \<and> (\<forall>t. r @ [Str t] \<notin> set (rows out))"
    if r: "r \<in> set (rows df)" and n: "video_id_of df r \<notin> set (core_ids df)" for r
  proof
    from n have e: "expand df ts r = [r @ [NaN]]"
      by (simp add: expand_def nil)
    with r show "r @ [NaN] \<in> set (rows out)"
      unfolding out by force
    show "\<forall>t. r @ [Str t] \<notin> set (rows out)"
    proof (intro allI notI)
      fix t assume "r @ [Str t] \<in> set (rows out)"
      then obtain l where "l \<in> set (rows df)" and m: "r @ [Str t] \<in> set (expand df ts l)"
        unfolding out by (rule expand_member)
      from butlast_expand [OF m] have "l = r"
        by simp
      with m e show False
        by simp
    qed
  qed
  have d: "r @ [Str (ts ! k)] \<in> set (rows out)"
    if r: "r \<in> set (rows df)" and k: "k < length (core_rows df)"
      and v: "video_id_of df r = video_id_of df (core_rows df ! k)" for r k
  proof -
    from transcripts_for_member [OF k len v [symmetric]]
    have "ts ! k \<in> set (transcripts_for df ts (video_id_of df r))" .
    then have "r @ [Str (ts ! k)] \<in> set (expand df ts r)"
      by (auto simp: expand_def)
    with r show ?thesis
      unfolding out by auto
  qed
  have b: "core_rows df ! k @ [Str (ts ! k)] \<in> set (rows out)" if k: "k < length (core_rows df)" for k
  proof -
    from k have "core_rows df ! k \<in> set (core_rows df)"
      by simp
    then have "core_rows df ! k \<in> set (rows df)"
      by (simp add: core_rows_def)
    from d [OF this k refl] show ?thesis .
  qed
  have c: "last o' = NaN \<longleftrightarrow> video_id_of df (butlast o') \<notin> set (core_ids df)"
    and e: "o' \<noteq> [] \<and> butlast o' \<in> set (rows df) \<and>
              (last o' = NaN \<or>
               (\<exists>k < length (core_rows df).
                  video_id_of df (core_rows df ! k) = video_id_of df (butlast o') \<and>
                  last o' = Str (ts ! k)))"
    if "o' \<in> set (rows out)" for o'
  proof -
    from that obtain l where l: "l \<in> set (rows df)" and m: "o' \<in> set (expand df ts l)"
      unfolding out by (rule expand_member)
    from butlast_expand [OF m] have bl: "butlast o' = l" .
    from expand_cases [OF m]
    have "(last o' = NaN \<longleftrightarrow> video_id_of df (butlast o') \<notin> set (core_ids df)) \<and>
        (o' \<noteq> [] \<and> butlast o' \<in> set (rows df) \<and>
              (last o' = NaN \<or>
               (\<exists>k < length (core_rows df).
                  video_id_of df (core_rows df ! k) = video_id_of df (butlast o') \<and>
                  last o' = Str (ts ! k))))"
    proof
      assume "o' = l @ [NaN] \<and> transcripts_for df ts (video_id_of df l) = []"
      with l show ?thesis
        unfolding bl by (simp add: nil)
    next
      assume "\<exists>t \<in> set (transcripts_for df ts (video_id_of df l)). o' = l @ [Str t]"
      then obtain t where t: "t \<in> set (transcripts_for df ts (video_id_of df l))"
        and o': "o' = l @ [Str t]"
        by blast
      from t have "transcripts_for df ts (video_id_of df l) \<noteq> []"
        by auto
      then have i: "video_id_of df l \<in> set (core_ids df)"
        by (simp add: nil)
      from in_transcripts_for [OF t] obtain k where "k < length (core_rows df)"
        and "video_id_of df (core_rows df ! k) = video_id_of df l" and "ts ! k = t"
        by blast
      with o' have "\<exists>k < length (core_rows df).
                  video_id_of df (core_rows df ! k) = video_id_of df l \<and>
                  last o' = Str (ts ! k)"
        by auto
      with o' i l show ?thesis
        unfolding bl by simp
    qed
    then show "last o' = NaN \<longleftrightarrow> video_id_of df (butlast o') \<notin> set (core_ids df)"
      and "o' \<noteq> [] \<and> butlast o' \<in> set (rows df) \<and>
              (last o' = NaN \<or>
               (\<exists>k < length (core_rows df).
                  video_id_of df (core_rows df ! k) = video_id_of df (butlast o') \<and>
                  last o' = Str (ts ! k)))"
      by blast+
  qed
  from ft a b c len d e out show ?thesis
    by blast
qed

text \<open>
  Claim C5 as stated fails when a row that is not selected shares its identifier with a
  selected row: the join is on the identifier, and the row receives that transcript.
\<close>

theorem unselected_row_gets_transcript:
  "written (fetch_core_transcripts_main (lookup_api [(Str ''a'', [''X''])]) cli twin_table ())
     = Some (''youtube_core_transcripts.csv'',
         \<lparr>columns = [''video_id'', ''Core_video'', ''transcript''],
          rows = [[Str ''a'', Str ''1'', Str ''X''], [Str ''a'', Str ''0'', Str ''X'']]\<rparr>)"
  by code_simp

text \<open>
  Claim C5, two runs. Scenario A: the resolver gives \<^verbatim>\<open>X\<close> and the empty string, the row
  that is not selected keeps a null and the second selected row carries the empty string.
  The twin table: the row that is not selected carries the transcript of the selected row
  with its identifier.
\<close>

theorem null_iff_identifier_not_selected_witness:
  "wf_frame scenario_table \<and>
   written (fetch_core_transcripts_main (lookup_api [(Str ''a'', [''X''])]) cli scenario_table ())
     = Some (''youtube_core_transcripts.csv'',
         \<lparr>columns = [''video_id'', ''Core_video'', ''note'', ''transcript''],
          rows = [[Str ''a'', Str ''1'', Str ''first'', Str ''X''],
                  [Str ''b'', Str ''0'', NaN, NaN],
                  [Str ''c'', Str ''1'', Str ''third'', Str []]]\<rparr>) \<and>
   fetch_transcripts (lookup_api [(Str ''a'', [''X''])]) (core_ids scenario_table) ()
     = (Inr [''X'', []], ()) \<and>
   [Str ''b'', Str ''0'', NaN] \<in> set (rows scenario_table) \<and>
   video_id_of scenario_table [Str ''b'', Str ''0'', NaN] \<notin> set (core_ids scenario_table) \<and>
   [Str ''b'', Str ''0'', NaN, NaN]
     \<in> set [[Str ''a'', Str ''1'', Str ''first'', Str ''X''],
            [Str ''b'', Str ''0'', NaN, NaN],
            [Str ''c'', Str ''1'', Str ''third'', Str []]] \<and>
   core_rows scenario_table ! 1 = [Str ''c'', Str ''1'', Str ''third''] \<and>
   [Str ''c'', Str ''1'', Str ''third'', Str []]
     \<in> set [[Str ''a'', Str ''1'', Str ''first'', Str ''X''],
            [Str ''b'', Str ''0'', NaN, NaN],
            [Str ''c'', Str ''1'', Str ''third'', Str []]] \<and>
   wf_frame twin_table \<and>
   written (fetch_core_transcripts_main (lookup_api [(Str ''a'', [''X''])]) cli twin_table ())
     = Some (''youtube_core_transcripts.csv'',
         \<lparr>columns = [''video_id'', ''Core_video'', ''transcript''],
          rows = [[Str ''a'', Str ''1'', Str ''X''], [Str ''a'', Str ''0'', Str ''X'']]\<rparr>) \<and>
   fetch_transcripts (lookup_api [(Str ''a'', [''X''])]) (core_ids twin_table) ()
     = (Inr [''X''], ()) \<and>
   [Str ''a'', Str ''0''] \<in> set (rows twin_table) \<and>
   0 < length (core_rows twin_table) \<and>
   video_id_of twin_table [Str ''a'', Str ''0'']
     = video_id_of twin_table (core_rows twin_table ! 0) \<and>
   [Str ''a'', Str ''0'', Str ''X'']
     \<in> set [[Str ''a'', Str ''1'', Str ''X''], [Str ''a'', Str ''0'', Str ''X'']]"
proof -
  let ?api = "lookup_api [(Str ''a'', [''X''])]"
  let ?o1 = "\<lparr>columns = [''video_id'', ''Core_video'', ''note'', ''transcript''],
          rows = [[Str ''a'', Str ''1'', Str ''first'', Str ''X''],
                  [Str ''b'', Str ''0'', NaN, NaN],
                  [Str ''c'', Str ''1'', Str ''third'', Str []]]\<rparr>"
  let ?o2 = "\<lparr>columns = [''video_id'', ''Core_video'', ''transcript''],
          rows = [[Str ''a'', Str ''1'', Str ''X''], [Str ''a'', Str ''0'', Str ''X'']]\<rparr>"
  have wf1: "wf_frame scenario_table" and wf2: "wf_frame twin_table"
    by code_simp+
  have wr1: "written (fetch_core_transcripts_main ?api cli scenario_table ())
      = Some (''youtube_core_transcripts.csv'', ?o1)"
    by code_simp
  have wr2: "written (fetch_core_transcripts_main ?api cli twin_table ())
      = Some (''youtube_core_transcripts.csv'', ?o2)"
    by code_simp
  have ft1: "fetch_transcripts ?api (core_ids scenario_table) () = (Inr [''X'', []], ())"
    by code_simp
  have ft2: "fetch_transcripts ?api (core_ids twin_table) () = (Inr [''X''], ())"
    by code_simp
  have r: "[Str ''b'', Str ''0'', NaN] \<in> set (rows scenario_table)"
    by (simp add: scenario_table_def)
  have n: "video_id_of scenario_table [Str ''b'', Str ''0'', NaN] \<notin> set (core_ids scenario_table)"
    by code_simp
  have k: "1 < length (core_rows scenario_table)"
    and c: "core_rows scenario_table ! 1 = [Str ''c'', Str ''1'', Str ''third'']"
    by code_simp+
  have r2: "[Str ''a'', Str ''0''] \<in> set (rows twin_table)"
    by (simp add: twin_table_def)
  have k2: "0 < length (core_rows twin_table)"
    and v2: "video_id_of twin_table [Str ''a'', Str ''0'']
       = video_id_of twin_table (core_rows twin_table ! 0)"
    by code_simp+
  from null_iff_identifier_not_selected [OF wf1 wr1] obtain ts1 w1
    where f1: "fetch_transcripts ?api (core_ids scenario_table) () = (Inr ts1, w1)"
    and 1: "\<forall>r \<in> set (rows scenario_table).
        video_id_of scenario_table r \<notin> set (core_ids scenario_table) \<longrightarrow>
        r @ [NaN] \<in> set (rows ?o1) \<and> (\<forall>t. r @ [Str t] \<notin> set (rows ?o1))"
    and 2: "\<forall>k < length (core_rows scenario_table).
        core_rows scenario_table ! k @ [Str (ts1 ! k)] \<in> set (rows ?o1)"
    by (elim exE conjE) blast
  from null_iff_identifier_not_selected [OF wf2 wr2] obtain ts2 w2
    where f2: "fetch_transcripts ?api (core_ids twin_table) () = (Inr ts2, w2)"
    and 3: "\<forall>r \<in> set (rows twin_table). \<forall>k < length (core_rows twin_table).
        video_id_of twin_table r = video_id_of twin_table (core_rows twin_table ! k) \<longrightarrow>
        r @ [Str (ts2 ! k)] \<in> set (rows ?o2)"
    by (elim exE conjE) blast
  from f1 ft1 have t1: "ts1 = [''X'', []]"
    by simp
  from f2 ft2 have t2: "ts2 = [''X'']"
    by simp
  from 1 r n have "[Str ''b'', Str ''0'', NaN] @ [NaN] \<in> set (rows ?o1)"
    by blast
  then have m1: "[Str ''b'', Str ''0'', NaN, NaN]
     \<in> set [[Str ''a'', Str ''1'', Str ''first'', Str ''X''],
            [Str ''b'', Str ''0'', NaN, NaN],
            [Str ''c'', Str ''1'', Str ''third'', Str []]]"
    by simp
  from 2 k have "core_rows scenario_table ! 1 @ [Str (ts1 ! 1)] \<in> set (rows ?o1)"
    by blast
  then have m2: "[Str ''c'', Str ''1'', Str ''third'', Str []]
     \<in> set [[Str ''a'', Str ''1'', Str ''first'', Str ''X''],
            [Str ''b'', Str ''0'', NaN, NaN],
            [Str ''c'', Str ''1'', Str ''third'', Str []]]"
    unfolding c t1 by simp
  from 3 r2 k2 v2 have "[Str ''a'', Str ''0''] @ [Str (ts2 ! 0)] \<in> set (rows ?o2)"
    by blast
  then have m3: "[Str ''a'', Str ''0'', Str ''X'']
     \<in> set [[Str ''a'', Str ''1'', Str ''X''], [Str ''a'', Str ''0'', Str ''X'']]"
    unfolding t2 by simp
  show ?thesis
    by (intro conjI) (fact wf1 wr1 ft1 r n m1 c m2 wf2 wr2 ft2 r2 k2 v2 m3)+
qed

section \<open>Properties of the candidate sampler\<close>

lemma keep_first_keys:
  "set (map (\<lambda>r. cell_at cols r c) (keep_first seen cols c rs))
     = set (map (\<lambda>r. cell_at cols r c) rs) - set seen"
  by (induction rs arbitrary: seen) auto

lemma keep_first_distinct:
  "distinct (map (\<lambda>r. cell_at cols r c) (keep_first seen cols c rs))"
proof (induction rs arbitrary: seen)
  case Nil
  show ?case by simp
next
  case (Cons r rs)
  have "cell_at cols r c \<notin> set (map (\<lambda>r. cell_at cols r c) (keep_first (cell_at cols r c # seen) cols c rs))"
    unfolding keep_first_keys by simp
  with Cons show ?case
    by simp
qed

lemma keep_first_subseq: "subseq (keep_first seen cols c rs) rs"
  by (induction rs arbitrary: seen) auto

lemma keep_first_not_seen:
  "r \<in> set (keep_first seen cols c rs) \<Longrightarrow> cell_at cols r c \<notin> set seen"
  using keep_first_keys [of cols c seen rs] by auto

lemma keep_first_find:
  "r \<in> set (keep_first seen cols c rs) \<Longrightarrow>
     find (\<lambda>x. cell_at cols x c = cell_at cols r c) rs = Some r"
proof (induction rs arbitrary: seen)
  case Nil
  then show ?case by simp
next
  case (Cons x rs)
  show ?case
  proof (cases "cell_at cols x c \<in> set seen")
    case True
    with Cons.prems have m: "r \<in> set (keep_first seen cols c rs)"
      by simp
    from keep_first_not_seen [OF m] True have "cell_at cols x c \<noteq> cell_at cols r c"
      by auto
    with Cons.IH [OF m] show ?thesis
      by simp
  next
    case False
    with Cons.prems have "r = x \<or> r \<in> set (keep_first (cell_at cols x c # seen) cols c rs)"
      by simp
    then show ?thesis
    proof
      assume "r = x"
      then show ?thesis by simp
    next
      assume m: "r \<in> set (keep_first (cell_at cols x c # seen) cols c rs)"
      from keep_first_not_seen [OF m] have "cell_at cols x c \<noteq> cell_at cols r c"
        by auto
      with Cons.IH [OF m] show ?thesis
        by simp
    qed
  qed
qed

lemma find_append_cases:
  "find P (xs @ ys) = (case find P xs of None \<Rightarrow> find P ys | Some x \<Rightarrow> Some x)"
  by (induction xs) auto

lemma find_concat_first:
  "find P (concat xss) = Some r \<Longrightarrow>
     \<exists>i < length xss. r \<in> set (xss ! i) \<and> (\<forall>j < i. \<forall>x \<in> set (xss ! j). \<not> P x)"
proof (induction xss)
  case Nil
  then show ?case by simp
next
  case (Cons xs xss)
  show ?case
  proof (cases "find P xs")
    case None
    with Cons.prems have "find P (concat xss) = Some r"
      by (simp add: find_append_cases)
    from Cons.IH [OF this] obtain i where i: "i < length xss" and r: "r \<in> set (xss ! i)"
      and f: "\<forall>j < i. \<forall>x \<in> set (xss ! j). \<not> P x"
      by blast
    from None have n: "\<forall>x \<in> set xs. \<not> P x"
      by (simp add: find_None_iff)
    have "\<forall>j < Suc i. \<forall>x \<in> set ((xs # xss) ! j). \<not> P x"
    proof (intro allI impI)
      fix j assume "j < Suc i"
      with n f show "\<forall>x \<in> set ((xs # xss) ! j). \<not> P x"
        by (cases j) auto
    qed
    with i r show ?thesis
      by (intro exI [of _ "Suc i"]) simp
  next
    case (Some y)
    with Cons.prems have "y = r"
      by (simp add: find_append_cases)
    with Some have "r \<in> set xs"
      by (auto simp: find_Some_iff)
    then show ?thesis
      by (intro exI [of _ 0]) simp
  qed
qed

text \<open>
  Deduplication of a concatenation of row lists, as \<^verbatim>\<open>drop_duplicates\<close> computes it: it
  succeeds, keeps one row per identifier, each the first of the input with its identifier
  (so a row of the first list that holds the identifier), in the input order.
\<close>

lemma drop_duplicates_concat:
  "\<exists>out. drop_duplicates (DataFrame candidate_columns (concat rss)) ''video_id'' = Inr out \<and>
     distinct (map (\<lambda>r. cell_at candidate_columns r ''video_id'') (rows out)) \<and>
     set (map (\<lambda>r. cell_at candidate_columns r ''video_id'') (rows out))
       = set (map (\<lambda>r. cell_at candidate_columns r ''video_id'') (concat rss)) \<and>
     (\<forall>r \<in> set (rows out).
        find (\<lambda>x. cell_at candidate_columns x ''video_id''
                     = cell_at candidate_columns r ''video_id'') (concat rss) = Some r \<and>
        (\<exists>i < length rss. r \<in> set (rss ! i) \<and>
           (\<forall>j < i. \<forall>x \<in> set (rss ! j).
              cell_at candidate_columns x ''video_id''
                \<noteq> cell_at candidate_columns r ''video_id''))) \<and>
     subseq (rows out) (concat rss)"
proof -
  define all_rows where "all_rows = concat rss"
  have v: "''video_id'' \<in> set candidate_columns" and ne: "candidate_columns \<noteq> []"
    by (simp_all add: candidate_columns_def)
  have "\<exists>out. drop_duplicates (DataFrame candidate_columns all_rows) ''video_id'' = Inr out \<and>
      rows out = keep_first [] candidate_columns ''video_id'' all_rows"
  proof (cases "all_rows = []")
    case True
    then show ?thesis
      by (simp add: drop_duplicates_def DataFrame_def empty_frame_def)
  next
    case False
    with v ne show ?thesis
      by (simp add: drop_duplicates_def DataFrame_def empty_frame_def)
  qed
  then obtain out
    where dd: "drop_duplicates (DataFrame candidate_columns all_rows) ''video_id'' = Inr out"
      and out: "rows out = keep_first [] candidate_columns ''video_id'' all_rows"
    by blast
  note dd
  moreover have "distinct (map (\<lambda>r. cell_at candidate_columns r ''video_id'') (rows out))"
    by (simp add: out keep_first_distinct)
  moreover have "set (map (\<lambda>r. cell_at candidate_columns r ''video_id'') (rows out))
       = set (map (\<lambda>r. cell_at candidate_columns r ''video_id'') all_rows)"
    using keep_first_keys [of candidate_columns "''video_id''" "[]" all_rows] by (simp add: out)
  moreover have "\<forall>r \<in> set (rows out).
        find (\<lambda>x. cell_at candidate_columns x ''video_id''
                     = cell_at candidate_columns r ''video_id'') all_rows = Some r \<and>
        (\<exists>i < length rss. r \<in> set (rss ! i) \<and>
           (\<forall>j < i. \<forall>x \<in> set (rss ! j).
              cell_at candidate_columns x ''video_id''
                \<noteq> cell_at candidate_columns r ''video_id''))"
  proof
    fix r assume "r \<in> set (rows out)"
    then have f: "find (\<lambda>x. cell_at candidate_columns x ''video_id''
                     = cell_at candidate_columns r ''video_id'') all_rows = Some r"
      by (auto simp: out dest: keep_first_find)
    from find_concat_first [OF f [unfolded all_rows_def]] f
    show "find (\<lambda>x. cell_at candidate_columns x ''video_id''
                     = cell_at candidate_columns r ''video_id'') all_rows = Some r \<and>
        (\<exists>i < length rss. r \<in> set (rss ! i) \<and>
           (\<forall>j < i. \<forall>x \<in> set (rss ! j).
              cell_at candidate_columns x ''video_id''
                \<noteq> cell_at candidate_columns r ''video_id''))"
      by blast
  qed
  moreover have "subseq (rows out) all_rows"
    by (simp add: out keep_first_subseq)
  ultimately show ?thesis
    unfolding all_rows_def by blast
qed




lemma py_slice_prefix: "py_slice 0 n s = take n s"
  by (simp add: py_slice_def)

lemma map2_same: "map2 f xs (map g xs) = map (\<lambda>x. f x (g x)) xs"
  by (induction xs) simp_all

lemma add_month_bucket_rows:
  assumes "''publish_date'' \<in> set (columns df)" and "''month_bucket'' \<notin> set (columns df)"
  shows "add_month_bucket df =
     Inr \<lparr>columns = columns df @ [''month_bucket''],
          rows = map (\<lambda>r. r @ [str_slice 0 7 (cell_at (columns df) r ''publish_date'')]) (rows df)\<rparr>"
  using assms
  by (simp add: add_month_bucket_def get_column_def set_column_def column_def map2_same comp_def)

lemma length_eq_7:
  "length l = 7 \<Longrightarrow> \<exists>a1 a2 a3 a4 a5 a6 a7. l = [a1, a2, a3, a4, a5, a6, a7]"
  by (auto simp: numeral_eq_Suc length_Suc_conv)

lemma search_rows_length:
  "search_rows query items = Inr rs \<Longrightarrow> r \<in> set rs \<Longrightarrow> length r = 7"
proof (induction items arbitrary: rs)
  case Nil
  then show ?case by simp
next
  case (Cons item items)
  then show ?case
    by (auto split: option.splits sum.splits)
qed

lemma search_queries_length:
  "search_queries api qs w = (ps, Inr rs, w') \<Longrightarrow> r \<in> set rs \<Longrightarrow> length r = 7"
proof (induction qs arbitrary: w ps rs)
  case Nil
  then show ?case by simp
next
  case (Cons query qs)
  then show ?case
    by (auto simp: search_videos_for_query_def split: prod.splits sum.splits
        dest: search_rows_length)
qed

lemma detail_rows_of_length:
  "detail_rows_of items = Inr rs \<Longrightarrow> r \<in> set rs \<Longrightarrow> length r = 7"
proof (induction items arbitrary: rs)
  case Nil
  then show ?case by simp
next
  case (Cons item items)
  then show ?case
    by (auto split: sum.splits)
qed

lemma fetch_batches_length:
  "fetch_batches api bs w = (Inr rs, w') \<Longrightarrow> r \<in> set rs \<Longrightarrow> length r = 7"
proof (induction bs arbitrary: w rs)
  case Nil
  then show ?case by simp
next
  case (Cons b bs)
  then show ?case
    by (auto split: prod.splits sum.splits dest: detail_rows_of_length)
qed

lemma keep_first_subset: "set (keep_first seen cols c rs) \<subseteq> set rs"
  by (induction rs arbitrary: seen) auto

lemma merged_labels:
  "''video_id'' \<in> set candidate_columns"
  "''video_id'' \<in> set detail_columns"
  "filter (\<lambda>c. c \<noteq> ''video_id'') detail_columns = tl detail_columns"
  "map (\<lambda>c. if c \<in> set (tl detail_columns) then c @ ''_x'' else c) candidate_columns
     = candidate_columns"
  "map (\<lambda>c. if c \<in> set candidate_columns then c @ ''_y'' else c) (tl detail_columns)
     = tl detail_columns"
  "\<not> suffix_dups candidate_columns candidate_columns"
  "\<not> suffix_dups (tl detail_columns) (tl detail_columns)"
  by code_simp+

lemma merge_candidates_details:
  assumes "columns cand = candidate_columns" and "columns det = detail_columns"
  shows "merge_left cand det ''video_id'' =
     Inr \<lparr>columns = candidate_columns @ tl detail_columns,
          rows = concat (map (join_rows candidate_columns detail_columns (rows det) ''video_id''
                               (tl detail_columns)) (rows cand))\<rparr>"
  unfolding merge_left_def Let_def assms
  by (simp only: merged_labels simp_thms if_False if_True)

lemma coalesce_column_rows:
  assumes "target \<in> set (columns df)" and "source \<in> set (columns df)"
  shows "coalesce_column df target source =
     Inr \<lparr>columns = columns df,
          rows = map (\<lambda>r. r[index_of target (columns df) :=
                    coalesce (cell_at (columns df) r source) (cell_at (columns df) r target)])
                   (rows df)\<rparr>"
proof -
  have g: "\<And>i f g rs. map2 (\<lambda>r v. r[i := v]) rs (map2 coalesce (map f rs) (map g rs))
      = map (\<lambda>r. r[i := coalesce (f r) (g r)]) (rs :: cell list list)"
  proof -
    fix i f g and rs :: "cell list list"
    show "map2 (\<lambda>r v. r[i := v]) rs (map2 coalesce (map f rs) (map g rs))
      = map (\<lambda>r. r[i := coalesce (f r) (g r)]) rs"
      by (induction rs) simp_all
  qed
  from assms show ?thesis
    by (simp add: coalesce_column_def get_column_def set_column_def fillna_def column_def g)
qed

lemma joined_labels:
  "candidate_columns @ tl detail_columns =
     [''video_id'', ''channel_id'', ''channel_title'', ''publish_date'', ''title'',
      ''description'', ''query'', ''view_count'', ''like_count'', ''comment_count'',
      ''full_title'', ''full_description'', ''publish_date_full'']"
  by (simp add: candidate_columns_def detail_columns_def)

lemma reconcile_row:
  fixes m1 :: cell
  shows "[m1, m2, m3, m4, m5, m6, m7, m8, m9, m10, m11, m12, m13]
           [index_of ''description'' (candidate_columns @ tl detail_columns) :=
             coalesce (cell_at (candidate_columns @ tl detail_columns)
                         [m1, m2, m3, m4, m5, m6, m7, m8, m9, m10, m11, m12, m13]
                         ''full_description'')
               (cell_at (candidate_columns @ tl detail_columns)
                  [m1, m2, m3, m4, m5, m6, m7, m8, m9, m10, m11, m12, m13] ''description'')]
           = [m1, m2, m3, m4, m5, coalesce m12 m6, m7, m8, m9, m10, m11, m12, m13]"
    and "[m1, m2, m3, m4, m5, x6, m7, m8, m9, m10, m11, m12, m13]
           [index_of ''title'' (candidate_columns @ tl detail_columns) :=
             coalesce (cell_at (candidate_columns @ tl detail_columns)
                         [m1, m2, m3, m4, m5, x6, m7, m8, m9, m10, m11, m12, m13]
                         ''full_title'')
               (cell_at (candidate_columns @ tl detail_columns)
                  [m1, m2, m3, m4, m5, x6, m7, m8, m9, m10, m11, m12, m13] ''title'')]
           = [m1, m2, m3, m4, coalesce m11 m5, x6, m7, m8, m9, m10, m11, m12, m13]"
    and "[m1, m2, m3, m4, x5, x6, m7, m8, m9, m10, m11, m12, m13]
           [index_of ''publish_date'' (candidate_columns @ tl detail_columns) :=
             coalesce (cell_at (candidate_columns @ tl detail_columns)
                         [m1, m2, m3, m4, x5, x6, m7, m8, m9, m10, m11, m12, m13]
                         ''publish_date_full'')
               (cell_at (candidate_columns @ tl detail_columns)
                  [m1, m2, m3, m4, x5, x6, m7, m8, m9, m10, m11, m12, m13]
                  ''publish_date'')]
           = [m1, m2, m3, coalesce m13 m4, x5, x6, m7, m8, m9, m10, m11, m12, m13]"
    and "map snd (filter (\<lambda>(c, v). c \<notin> set [''full_description'', ''full_title'',
                                                ''publish_date_full''])
                   (zip (candidate_columns @ tl detail_columns)
                      [m1, m2, m3, x4, x5, x6, m7, m8, m9, m10, m11, m12, m13]))
           = [m1, m2, m3, x4, x5, x6, m7, m8, m9, m10]"
  unfolding joined_labels by (simp_all add: cell_at_def)

lemma length_eq_13:
  "length m = 13 \<Longrightarrow>
     \<exists>m1 m2 m3 m4 m5 m6 m7 m8 m9 m10 m11 m12 m13.
       m = [m1, m2, m3, m4, m5, m6, m7, m8, m9, m10, m11, m12, m13]"
  by (auto simp: numeral_eq_Suc length_Suc_conv)

lemma joined_members:
  "''description'' \<in> set (candidate_columns @ tl detail_columns)"
  "''full_description'' \<in> set (candidate_columns @ tl detail_columns)"
  "''title'' \<in> set (candidate_columns @ tl detail_columns)"
  "''full_title'' \<in> set (candidate_columns @ tl detail_columns)"
  "''publish_date'' \<in> set (candidate_columns @ tl detail_columns)"
  "''publish_date_full'' \<in> set (candidate_columns @ tl detail_columns)"
  "filter (\<lambda>c. c \<notin> set [''full_description'', ''full_title'', ''publish_date_full''])
     (candidate_columns @ tl detail_columns)
     = candidate_columns @ [''view_count'', ''like_count'', ''comment_count'']"
  by code_simp+

lemma join_rows_length:
  "length l = 7 \<Longrightarrow>
     m \<in> set (join_rows candidate_columns detail_columns drows ''video_id'' (tl detail_columns) l)
     \<Longrightarrow> length m = 13"
  by (auto simp: join_rows_def detail_columns_def split: list.splits)

lemma reconcile_rows:
  assumes c: "columns cand = candidate_columns" and d: "columns det = detail_columns"
    and len: "\<forall>l \<in> set (rows cand). length l = 7"
  shows "reconcile cand det =
     Inr \<lparr>columns = candidate_columns @ [''view_count'', ''like_count'', ''comment_count''],
          rows = map reconciled_row
                   (concat (map (join_rows candidate_columns detail_columns (rows det)
                                   ''video_id'' (tl detail_columns)) (rows cand)))\<rparr>"
proof -
  let ?M = "concat (map (join_rows candidate_columns detail_columns (rows det)
                           ''video_id'' (tl detail_columns)) (rows cand))"
  let ?cols = "candidate_columns @ tl detail_columns"
  let ?c1 = "\<lambda>r. r[index_of ''description'' ?cols :=
      coalesce (cell_at ?cols r ''full_description'') (cell_at ?cols r ''description'')]"
  let ?c2 = "\<lambda>r. r[index_of ''title'' ?cols :=
      coalesce (cell_at ?cols r ''full_title'') (cell_at ?cols r ''title'')]"
  let ?c3 = "\<lambda>r. r[index_of ''publish_date'' ?cols :=
      coalesce (cell_at ?cols r ''publish_date_full'') (cell_at ?cols r ''publish_date'')]"
  let ?dr = "\<lambda>r. map snd (filter (\<lambda>(c, v). c \<notin> set [''full_description'', ''full_title'',
      ''publish_date_full'']) (zip ?cols r))"
  have row: "?dr (?c3 (?c2 (?c1 m))) = reconciled_row m" if "m \<in> set ?M" for m
  proof -
    from that len have "length m = 13"
      by (auto dest: join_rows_length)
    from length_eq_13 [OF this] obtain m1 m2 m3 m4 m5 m6 m7 m8 m9 m10 m11 m12 m13
      where m: "m = [m1, m2, m3, m4, m5, m6, m7, m8, m9, m10, m11, m12, m13]"
      by blast
    show ?thesis
      unfolding m by (simp only: reconcile_row) (simp add: reconciled_row_def)
  qed
  have s1: "coalesce_column \<lparr>columns = ?cols, rows = ?M\<rparr> ''description'' ''full_description''
      = Inr \<lparr>columns = ?cols, rows = map ?c1 ?M\<rparr>"
    using coalesce_column_rows
      [of "''description''" "\<lparr>columns = ?cols, rows = ?M\<rparr>" "''full_description''"]
    by (simp only: frame.select_convs joined_members simp_thms)
  have s2: "coalesce_column \<lparr>columns = ?cols, rows = map ?c1 ?M\<rparr> ''title'' ''full_title''
      = Inr \<lparr>columns = ?cols, rows = map ?c2 (map ?c1 ?M)\<rparr>"
    using coalesce_column_rows
      [of "''title''" "\<lparr>columns = ?cols, rows = map ?c1 ?M\<rparr>" "''full_title''"]
    by (simp only: frame.select_convs joined_members simp_thms)
  have s3: "coalesce_column \<lparr>columns = ?cols, rows = map ?c2 (map ?c1 ?M)\<rparr>
        ''publish_date'' ''publish_date_full''
      = Inr \<lparr>columns = ?cols, rows = map ?c3 (map ?c2 (map ?c1 ?M))\<rparr>"
    using coalesce_column_rows
      [of "''publish_date''" "\<lparr>columns = ?cols, rows = map ?c2 (map ?c1 ?M)\<rparr>"
          "''publish_date_full''"]
    by (simp only: frame.select_convs joined_members simp_thms)
  have dc: "drop_columns \<lparr>columns = ?cols, rows = map ?c3 (map ?c2 (map ?c1 ?M))\<rparr>
        [''full_description'', ''full_title'', ''publish_date_full'']
      = \<lparr>columns = candidate_columns @ [''view_count'', ''like_count'', ''comment_count''],
         rows = map ?dr (map ?c3 (map ?c2 (map ?c1 ?M)))\<rparr>"
    unfolding drop_columns_def by (simp only: frame.select_convs joined_members)
  have "reconcile cand det =
      Inr \<lparr>columns = candidate_columns @ [''view_count'', ''like_count'', ''comment_count''],
           rows = map ?dr (map ?c3 (map ?c2 (map ?c1 ?M)))\<rparr>"
    unfolding reconcile_def
    by (simp only: merge_candidates_details [OF c d] s1 s2 s3 dc sum.case)
  moreover have "map ?dr (map ?c3 (map ?c2 (map ?c1 ?M))) = map reconciled_row ?M"
    using row by (simp add: comp_def)
  ultimately show ?thesis
    by simp
qed

lemma join_rows_if:
  "join_rows lcols rcols_all rrows on rcols l =
     (if filter (\<lambda>r. cell_at rcols_all r on = cell_at lcols l on) rrows = []
      then [l @ replicate (length rcols) NaN]
      else map (\<lambda>r. l @ map (cell_at rcols_all r) rcols)
             (filter (\<lambda>r. cell_at rcols_all r on = cell_at lcols l on) rrows))"
  by (cases "filter (\<lambda>r. cell_at rcols_all r on = cell_at lcols l on) rrows")
    (simp_all add: join_rows_def)

lemma join_rows_cases:
  assumes "m \<in> set (join_rows candidate_columns detail_columns drows ''video_id''
                       (tl detail_columns) l)"
  shows "(m = l @ [NaN, NaN, NaN, NaN, NaN, NaN] \<and>
          (\<forall>d \<in> set drows. cell_at detail_columns d ''video_id''
                               \<noteq> cell_at candidate_columns l ''video_id'')) \<or>
         (\<exists>d \<in> set drows. cell_at detail_columns d ''video_id''
                               = cell_at candidate_columns l ''video_id'' \<and>
            m = l @ [cell_at detail_columns d ''view_count'',
                     cell_at detail_columns d ''like_count'',
                     cell_at detail_columns d ''comment_count'',
                     cell_at detail_columns d ''full_title'',
                     cell_at detail_columns d ''full_description'',
                     cell_at detail_columns d ''publish_date_full''])"
proof -
  let ?ms = "filter (\<lambda>r. cell_at detail_columns r ''video_id''
                          = cell_at candidate_columns l ''video_id'') drows"
  have t: "tl detail_columns = [''view_count'', ''like_count'', ''comment_count'',
      ''full_title'', ''full_description'', ''publish_date_full'']"
    by (simp add: detail_columns_def)
  show ?thesis
  proof (cases "?ms = []")
    case True
    with assms have "m = l @ [NaN, NaN, NaN, NaN, NaN, NaN]"
      by (simp add: join_rows_if t numeral_eq_Suc)
    moreover from True have "\<forall>d \<in> set drows. cell_at detail_columns d ''video_id''
                               \<noteq> cell_at candidate_columns l ''video_id''"
      by (simp add: filter_empty_conv)
    ultimately show ?thesis
      by blast
  next
    case False
    with assms have "m \<in> (\<lambda>r. l @ map (cell_at detail_columns r) (tl detail_columns)) ` set ?ms"
      by (simp only: join_rows_if if_False set_map)
    then obtain d where d: "d \<in> set ?ms"
      and m: "m = l @ map (cell_at detail_columns d) (tl detail_columns)"
      by blast
    from d have "d \<in> set drows" and "cell_at detail_columns d ''video_id''
                               = cell_at candidate_columns l ''video_id''"
      by simp_all
    with m show ?thesis
      unfolding t by auto
  qed
qed

lemma cell_at_candidate:
  "cell_at candidate_columns [a1, a2, a3, a4, a5, a6, a7] ''publish_date'' = a4"
  "cell_at candidate_columns [a1, a2, a3, a4, a5, a6, a7] ''title'' = a5"
  "cell_at candidate_columns [a1, a2, a3, a4, a5, a6, a7] ''description'' = a6"
  by (simp_all add: candidate_columns_def cell_at_def)

lemma cell_at_reconciled:
  "cell_at (candidate_columns @ [''view_count'', ''like_count'', ''comment_count''])
     [x1, x2, x3, x4, x5, x6, x7, x8, x9, x10] ''publish_date'' = x4"
  "cell_at (candidate_columns @ [''view_count'', ''like_count'', ''comment_count''])
     [x1, x2, x3, x4, x5, x6, x7, x8, x9, x10] ''title'' = x5"
  "cell_at (candidate_columns @ [''view_count'', ''like_count'', ''comment_count''])
     [x1, x2, x3, x4, x5, x6, x7, x8, x9, x10] ''description'' = x6"
  by (simp_all add: candidate_columns_def cell_at_def)

lemma reconcile_needs_details:
  "columns det = [] \<Longrightarrow> reconcile cand det = Inl (KeyError ''video_id'')"
  by (simp add: reconcile_def merge_left_def)

lemma sampler_written:
  assumes wr: "written (youtube_aigc_sampler_main api w0) = Some (path, final)"
  shows "\<exists>cand det recon.
           columns cand = candidate_columns \<and> (\<forall>l \<in> set (rows cand). length l = 7) \<and>
           columns det = detail_columns \<and>
           reconcile cand det = Inr recon \<and> add_month_bucket recon = Inr final"
proof -
  obtain b w1 where b: "build api w0 = (b, w1)"
    by (cases "build api w0")
  with wr have bn: "b = None"
    by (cases b) (simp_all add: youtube_aigc_sampler_main_def)
  obtain ps res w2 where sq: "search_queries api QUERIES w1 = (ps, res, w2)"
    by (cases "search_queries api QUERIES w1")
  with wr b bn obtain all_rows where res: "res = Inr all_rows"
    by (cases res) (simp_all add: youtube_aigc_sampler_main_def)
  let ?df = "DataFrame candidate_columns all_rows"
  obtain dd where dd: "drop_duplicates ?df ''video_id'' = dd"
    by simp
  with wr b bn sq res obtain cand where cand: "dd = Inr cand"
    by (cases dd) (simp_all add: youtube_aigc_sampler_main_def Let_def)
  from wr b bn sq res dd cand have ne: "\<not> empty_frame cand"
    by (auto simp: youtube_aigc_sampler_main_def Let_def split: if_splits)
  have nonempty: "all_rows \<noteq> []"
  proof
    assume "all_rows = []"
    with dd cand have "empty_frame cand"
      by (auto simp: drop_duplicates_def DataFrame_def empty_frame_def)
    with ne show False ..
  qed
  have v: "''video_id'' \<in> set candidate_columns" and cne: "candidate_columns \<noteq> []"
    by (simp_all add: candidate_columns_def)
  from dd cand nonempty v cne have c: "cand = \<lparr>columns = candidate_columns,
      rows = keep_first [] candidate_columns ''video_id'' all_rows\<rparr>"
    by (simp add: drop_duplicates_def DataFrame_def empty_frame_def)
  have len: "\<forall>l \<in> set (rows cand). length l = 7"
    using keep_first_subset [of "[]" candidate_columns "''video_id''" all_rows]
      search_queries_length [OF sq [unfolded res]]
    by (auto simp: c)
  obtain fd w3 where fd: "fetch_video_details api (column cand ''video_id'') w2 = (fd, w3)"
    by (cases "fetch_video_details api (column cand ''video_id'') w2")
  with wr b bn sq res dd cand ne obtain det where det: "fd = Inr det"
    by (cases fd) (simp_all add: youtube_aigc_sampler_main_def Let_def)
  obtain rc where rc: "reconcile cand det = rc"
    by simp
  with wr b bn sq res dd cand ne fd det obtain recon where recon: "rc = Inr recon"
    by (cases rc) (simp_all add: youtube_aigc_sampler_main_def Let_def)
  from wr b bn sq res dd cand ne fd det rc recon have amb: "add_month_bucket recon = Inr final"
    by (cases "add_month_bucket recon") (simp_all add: youtube_aigc_sampler_main_def Let_def)
  obtain fb w3' where fb: "fetch_batches api (batches 50 (column cand ''video_id'')) w2 = (fb, w3')"
    by (cases "fetch_batches api (batches 50 (column cand ''video_id'')) w2")
  from fd det fb obtain drows where "det = DataFrame detail_columns drows"
    by (cases fb) (auto simp: fetch_video_details_def)
  then have alt: "columns det = detail_columns \<or> columns det = []"
    by (simp add: DataFrame_def)
  have dc: "columns det = detail_columns"
  proof (rule ccontr)
    assume "columns det \<noteq> detail_columns"
    with alt have "columns det = []"
      by simp
    then have "reconcile cand det = Inl (KeyError ''video_id'')"
      by (rule reconcile_needs_details)
    with rc recon show False
      by simp
  qed
  have cc: "columns cand = candidate_columns"
    by (simp add: c)
  from rc recon have "reconcile cand det = Inr recon"
    by simp
  with cc len dc amb show ?thesis
    by blast
qed

text \<open>
  Claim C7. For candidate rows and detail rows as the script builds them, the join and the
  three \<^verbatim>\<open>fillna\<close> assignments succeed, the detail-only columns are gone, and every output
  row stems from a candidate row: when no detail row has its identifier, description,
  title and publish timestamp are the candidate's; otherwise they are, field by field, the
  matched detail row's value when that is not null and the candidate's value when it is.
  A run of \<^verbatim>\<open>main\<close> that reaches \<^verbatim>\<open>to_csv\<close> applies exactly this to tables of that form.
\<close>

theorem reconcile_prefers_detail_fields:
  "(columns cand = candidate_columns \<and> columns det = detail_columns \<and>
    (\<forall>l \<in> set (rows cand). length l = 7) \<longrightarrow>
      (\<exists>out. reconcile cand det = Inr out \<and>
         columns out = candidate_columns @ [''view_count'', ''like_count'', ''comment_count''] \<and>
         (\<forall>o' \<in> set (rows out). \<exists>l \<in> set (rows cand).
            ((\<forall>d \<in> set (rows det). cell_at detail_columns d ''video_id''
                                       \<noteq> cell_at candidate_columns l ''video_id'') \<and>
             cell_at (columns out) o' ''description'' = cell_at candidate_columns l ''description'' \<and>
             cell_at (columns out) o' ''title'' = cell_at candidate_columns l ''title'' \<and>
             cell_at (columns out) o' ''publish_date'' = cell_at candidate_columns l ''publish_date'')
            \<or>
            (\<exists>d \<in> set (rows det).
               cell_at detail_columns d ''video_id'' = cell_at candidate_columns l ''video_id'' \<and>
               cell_at (columns out) o' ''description'' =
                 (if cell_at detail_columns d ''full_description'' = NaN
                  then cell_at candidate_columns l ''description''
                  else cell_at detail_columns d ''full_description'') \<and>
               cell_at (columns out) o' ''title'' =
                 (if cell_at detail_columns d ''full_title'' = NaN
                  then cell_at candidate_columns l ''title''
                  else cell_at detail_columns d ''full_title'') \<and>
               cell_at (columns out) o' ''publish_date'' =
                 (if cell_at detail_columns d ''publish_date_full'' = NaN
                  then cell_at candidate_columns l ''publish_date''
                  else cell_at detail_columns d ''publish_date_full''))))) \<and>
   (written (youtube_aigc_sampler_main api w0) = Some (path, final) \<longrightarrow>
      (\<exists>cand' det' recon.
         columns cand' = candidate_columns \<and> columns det' = detail_columns \<and>
         (\<forall>l \<in> set (rows cand'). length l = 7) \<and>
         reconcile cand' det' = Inr recon \<and> add_month_bucket recon = Inr final))"
proof (intro conjI impI)
  assume "written (youtube_aigc_sampler_main api w0) = Some (path, final)"
  from sampler_written [OF this]
  show "\<exists>cand' det' recon.
         columns cand' = candidate_columns \<and> columns det' = detail_columns \<and>
         (\<forall>l \<in> set (rows cand'). length l = 7) \<and>
         reconcile cand' det' = Inr recon \<and> add_month_bucket recon = Inr final"
    by blast
next
  assume h: "columns cand = candidate_columns \<and> columns det = detail_columns \<and>
    (\<forall>l \<in> set (rows cand). length l = 7)"
  let ?O = "candidate_columns @ [''view_count'', ''like_count'', ''comment_count'']"
  let ?M = "concat (map (join_rows candidate_columns detail_columns (rows det)
                           ''video_id'' (tl detail_columns)) (rows cand))"
  let ?out = "\<lparr>columns = ?O, rows = map reconciled_row ?M\<rparr>"
  from h have r: "reconcile cand det = Inr ?out"
    by (intro reconcile_rows) simp_all
  have each: "\<exists>l \<in> set (rows cand).
            ((\<forall>d \<in> set (rows det). cell_at detail_columns d ''video_id''
                                       \<noteq> cell_at candidate_columns l ''video_id'') \<and>
             cell_at ?O o' ''description'' = cell_at candidate_columns l ''description'' \<and>
             cell_at ?O o' ''title'' = cell_at candidate_columns l ''title'' \<and>
             cell_at ?O o' ''publish_date'' = cell_at candidate_columns l ''publish_date'')
            \<or>
            (\<exists>d \<in> set (rows det).
               cell_at detail_columns d ''video_id'' = cell_at candidate_columns l ''video_id'' \<and>
               cell_at ?O o' ''description'' =
                 (if cell_at detail_columns d ''full_description'' = NaN
                  then cell_at candidate_columns l ''description''
                  else cell_at detail_columns d ''full_description'') \<and>
               cell_at ?O o' ''title'' =
                 (if cell_at detail_columns d ''full_title'' = NaN
                  then cell_at candidate_columns l ''title''
                  else cell_at detail_columns d ''full_title'') \<and>
               cell_at ?O o' ''publish_date'' =
                 (if cell_at detail_columns d ''publish_date_full'' = NaN
                  then cell_at candidate_columns l ''publish_date''
                  else cell_at detail_columns d ''publish_date_full''))"
    if o': "o' \<in> set (map reconciled_row ?M)" for o'
  proof -
    from o' obtain l m where l: "l \<in> set (rows cand)"
      and m: "m \<in> set (join_rows candidate_columns detail_columns (rows det)
                           ''video_id'' (tl detail_columns) l)"
      and om: "o' = reconciled_row m"
      by auto
    from h l have "length l = 7"
      by simp
    from length_eq_7 [OF this] obtain a1 a2 a3 a4 a5 a6 a7
      where a: "l = [a1, a2, a3, a4, a5, a6, a7]"
      by blast
    from join_rows_cases [OF m] show ?thesis
    proof
      assume c: "m = l @ [NaN, NaN, NaN, NaN, NaN, NaN] \<and>
          (\<forall>d \<in> set (rows det). cell_at detail_columns d ''video_id''
                               \<noteq> cell_at candidate_columns l ''video_id'')"
      then have "o' = [a1, a2, a3, a4, a5, a6, a7, NaN, NaN, NaN]"
        by (simp add: om a reconciled_row_def coalesce_def)
      with c l show ?thesis
        by (intro bexI [of _ l] disjI1) (simp_all add: a cell_at_candidate cell_at_reconciled)
    next
      assume "\<exists>d \<in> set (rows det). cell_at detail_columns d ''video_id''
                               = cell_at candidate_columns l ''video_id'' \<and>
            m = l @ [cell_at detail_columns d ''view_count'',
                     cell_at detail_columns d ''like_count'',
                     cell_at detail_columns d ''comment_count'',
                     cell_at detail_columns d ''full_title'',
                     cell_at detail_columns d ''full_description'',
                     cell_at detail_columns d ''publish_date_full'']"
      then obtain d where d: "d \<in> set (rows det)"
        and k: "cell_at detail_columns d ''video_id'' = cell_at candidate_columns l ''video_id''"
        and md: "m = l @ [cell_at detail_columns d ''view_count'',
                     cell_at detail_columns d ''like_count'',
                     cell_at detail_columns d ''comment_count'',
                     cell_at detail_columns d ''full_title'',
                     cell_at detail_columns d ''full_description'',
                     cell_at detail_columns d ''publish_date_full'']"
        by blast
      have "o' = [a1, a2, a3,
          coalesce (cell_at detail_columns d ''publish_date_full'') a4,
          coalesce (cell_at detail_columns d ''full_title'') a5,
          coalesce (cell_at detail_columns d ''full_description'') a6, a7,
          cell_at detail_columns d ''view_count'', cell_at detail_columns d ''like_count'',
          cell_at detail_columns d ''comment_count'']"
        by (simp add: om md a reconciled_row_def)
      with d k l show ?thesis
        by (intro bexI [of _ l] disjI2 bexI [of _ d])
          (simp_all add: a cell_at_candidate cell_at_reconciled coalesce_def)
    qed
  qed
  from r each show "\<exists>out. reconcile cand det = Inr out \<and>
         columns out = candidate_columns @ [''view_count'', ''like_count'', ''comment_count''] \<and>
         (\<forall>o' \<in> set (rows out). \<exists>l \<in> set (rows cand).
            ((\<forall>d \<in> set (rows det). cell_at detail_columns d ''video_id''
                                       \<noteq> cell_at candidate_columns l ''video_id'') \<and>
             cell_at (columns out) o' ''description'' = cell_at candidate_columns l ''description'' \<and>
             cell_at (columns out) o' ''title'' = cell_at candidate_columns l ''title'' \<and>
             cell_at (columns out) o' ''publish_date'' = cell_at candidate_columns l ''publish_date'')
            \<or>
            (\<exists>d \<in> set (rows det).
               cell_at detail_columns d ''video_id'' = cell_at candidate_columns l ''video_id'' \<and>
               cell_at (columns out) o' ''description'' =
                 (if cell_at detail_columns d ''full_description'' = NaN
                  then cell_at candidate_columns l ''description''
                  else cell_at detail_columns d ''full_description'') \<and>
               cell_at (columns out) o' ''title'' =
                 (if cell_at detail_columns d ''full_title'' = NaN
                  then cell_at candidate_columns l ''title''
                  else cell_at detail_columns d ''full_title'') \<and>
               cell_at (columns out) o' ''publish_date'' =
                 (if cell_at detail_columns d ''publish_date_full'' = NaN
                  then cell_at candidate_columns l ''publish_date''
                  else cell_at detail_columns d ''publish_date_full'')))"
  proof (intro exI [of _ ?out] conjI ballI)
    show "reconcile cand det = Inr ?out"
      by (rule r)
    show "columns ?out = candidate_columns @ [''view_count'', ''like_count'', ''comment_count'']"
      by simp
  next
    fix o' assume "o' \<in> set (rows ?out)"
    then have "o' \<in> set (map reconciled_row ?M)"
      by simp
    from each [OF this] show "\<exists>l \<in> set (rows cand).
            ((\<forall>d \<in> set (rows det). cell_at detail_columns d ''video_id''
                                       \<noteq> cell_at candidate_columns l ''video_id'') \<and>
             cell_at (columns ?out) o' ''description'' = cell_at candidate_columns l ''description'' \<and>
             cell_at (columns ?out) o' ''title'' = cell_at candidate_columns l ''title'' \<and>
             cell_at (columns ?out) o' ''publish_date'' = cell_at candidate_columns l ''publish_date'')
            \<or>
            (\<exists>d \<in> set (rows det).
               cell_at detail_columns d ''video_id'' = cell_at candidate_columns l ''video_id'' \<and>
               cell_at (columns ?out) o' ''description'' =
                 (if cell_at detail_columns d ''full_description'' = NaN
                  then cell_at candidate_columns l ''description''
                  else cell_at detail_columns d ''full_description'') \<and>
               cell_at (columns ?out) o' ''title'' =
                 (if cell_at detail_columns d ''full_title'' = NaN
                  then cell_at candidate_columns l ''title''
                  else cell_at detail_columns d ''full_title'') \<and>
               cell_at (columns ?out) o' ''publish_date'' =
                 (if cell_at detail_columns d ''publish_date_full'' = NaN
                  then cell_at candidate_columns l ''publish_date''
                  else cell_at detail_columns d ''publish_date_full''))"
      unfolding frame.select_convs .
  qed
qed

text \<open>
  Claim C7, a run: the detail row of \<^verbatim>\<open>abc123\<close> has a full title and a null description,
  so the output keeps the candidate's description and takes the detail's title; and a run
  of \<^verbatim>\<open>main\<close> on the scripted client.
\<close>

theorem reconcile_prefers_detail_fields_witness:
  "columns scenario_candidates = candidate_columns \<and>
   columns scenario_details = detail_columns \<and>
   list_all (\<lambda>l. length l = 7) (rows scenario_candidates) \<and>
   reconcile scenario_candidates scenario_details =
     Inr \<lparr>columns = candidate_columns @ [''view_count'', ''like_count'', ''comment_count''],
          rows = [[Str ''abc123'', Str ''UC1'', Str ''Channel'', Str ''2025-09-14T10:00:05Z'',
                   Str ''One, in full'', Str ''short'', Str ''AI tools for content creation'',
                   Num 120, Num 0, Num 3],
                  [Str ''pqr'', NaN, NaN, Str ''2025-10'', Str ''Three'', Str [],
                   Str ''AI tools for content creators'', NaN, NaN, NaN]]\<rparr> \<and>
   cell_at detail_columns (hd (rows scenario_details)) ''full_description'' = NaN \<and>
   cell_at (candidate_columns @ [''view_count'', ''like_count'', ''comment_count''])
     [Str ''abc123'', Str ''UC1'', Str ''Channel'', Str ''2025-09-14T10:00:05Z'',
      Str ''One, in full'', Str ''short'', Str ''AI tools for content creation'',
      Num 120, Num 0, Num 3] ''description'' = Str ''short'' \<and>
   (\<exists>l \<in> set (rows scenario_candidates). \<exists>d \<in> set (rows scenario_details).
      cell_at detail_columns d ''video_id'' = cell_at candidate_columns l ''video_id'' \<and>
      Str ''short'' =
        (if cell_at detail_columns d ''full_description'' = NaN
         then cell_at candidate_columns l ''description''
         else cell_at detail_columns d ''full_description'') \<and>
      Str ''One, in full'' =
        (if cell_at detail_columns d ''full_title'' = NaN
         then cell_at candidate_columns l ''title''
         else cell_at detail_columns d ''full_title'')) \<and>
   written (youtube_aigc_sampler_main scenario_youtube ()) =
     Some (''youtube_candidates_basic.csv'',
       \<lparr>columns = candidate_columns @
                    [''view_count'', ''like_count'', ''comment_count'', ''month_bucket''],
        rows = [[Str ''abc123'', Str ''UC1'', Str ''Channel'', Str [], Str ''One, in full'',
                 Str ''the full description'', Str ''AI tools for content creation'',
                 Num 120, Num 0, Num 3, Str []],
                [Str ''pqr'', Str ''UC1'', Str ''Channel'', Str ''n/a'', Str ''Three'',
                 Str ''short'', Str ''AI tools for content creators'', NaN, NaN, NaN,
                 Str ''n/a'']]\<rparr>) \<and>
   (\<exists>cand' det' recon.
      columns cand' = candidate_columns \<and> columns det' = detail_columns \<and>
      reconcile cand' det' = Inr recon \<and>
      add_month_bucket recon =
        Inr \<lparr>columns = candidate_columns @
                    [''view_count'', ''like_count'', ''comment_count'', ''month_bucket''],
        rows = [[Str ''abc123'', Str ''UC1'', Str ''Channel'', Str [], Str ''One, in full'',
                 Str ''the full description'', Str ''AI tools for content creation'',
                 Num 120, Num 0, Num 3, Str []],
                [Str ''pqr'', Str ''UC1'', Str ''Channel'', Str ''n/a'', Str ''Three'',
                 Str ''short'', Str ''AI tools for content creators'', NaN, NaN, NaN,
                 Str ''n/a'']]\<rparr>)"
proof -
  let ?o1 = "[Str ''abc123'', Str ''UC1'', Str ''Channel'', Str ''2025-09-14T10:00:05Z'',
                   Str ''One, in full'', Str ''short'', Str ''AI tools for content creation'',
                   Num 120, Num 0, Num 3]"
  let ?X = "\<lparr>columns = candidate_columns @ [''view_count'', ''like_count'', ''comment_count''],
          rows = [?o1,
                  [Str ''pqr'', NaN, NaN, Str ''2025-10'', Str ''Three'', Str [],
                   Str ''AI tools for content creators'', NaN, NaN, NaN]]\<rparr>"
  let ?F = "\<lparr>columns = candidate_columns @
                    [''view_count'', ''like_count'', ''comment_count'', ''month_bucket''],
        rows = [[Str ''abc123'', Str ''UC1'', Str ''Channel'', Str [], Str ''One, in full'',
                 Str ''the full description'', Str ''AI tools for content creation'',
                 Num 120, Num 0, Num 3, Str []],
                [Str ''pqr'', Str ''UC1'', Str ''Channel'', Str ''n/a'', Str ''Three'',
                 Str ''short'', Str ''AI tools for content creators'', NaN, NaN, NaN,
                 Str ''n/a'']]\<rparr>"
  note inst = reconcile_prefers_detail_fields
    [where cand = scenario_candidates and det = scenario_details and api = scenario_youtube
       and ?w0.0 = "()" and path = "''youtube_candidates_basic.csv''" and final = ?F]
  have c: "columns scenario_candidates = candidate_columns"
    and d: "columns scenario_details = detail_columns"
    by (simp_all add: scenario_candidates_def scenario_details_def)
  have la: "list_all (\<lambda>l. length l = 7) (rows scenario_candidates)"
    by (simp add: scenario_candidates_def)
  then have len: "\<forall>l \<in> set (rows scenario_candidates). length l = 7"
    by (simp add: list_all_iff)
  have ev: "reconcile scenario_candidates scenario_details = Inr ?X"
    by code_simp
  have fd: "cell_at detail_columns (hd (rows scenario_details)) ''full_description'' = NaN"
    and od: "cell_at (columns ?X) ?o1 ''description'' = Str ''short''"
    and ot: "cell_at (columns ?X) ?o1 ''title'' = Str ''One, in full''"
    by code_simp+
  have nomiss: "\<And>l. l \<in> set (rows scenario_candidates) \<Longrightarrow>
      cell_at (columns ?X) ?o1 ''title'' \<noteq> cell_at candidate_columns l ''title''"
    unfolding ot by (auto simp: scenario_candidates_def candidate_columns_def cell_at_def)
  have wr: "written (youtube_aigc_sampler_main scenario_youtube ()) =
     Some (''youtube_candidates_basic.csv'', ?F)"
    by code_simp
  from conjunct1 [OF inst] c d len obtain out where o: "reconcile scenario_candidates scenario_details = Inr out"
    and each: "\<forall>o' \<in> set (rows out). \<exists>l \<in> set (rows scenario_candidates).
            ((\<forall>d \<in> set (rows scenario_details). cell_at detail_columns d ''video_id''
                                       \<noteq> cell_at candidate_columns l ''video_id'') \<and>
             cell_at (columns out) o' ''description'' = cell_at candidate_columns l ''description'' \<and>
             cell_at (columns out) o' ''title'' = cell_at candidate_columns l ''title'' \<and>
             cell_at (columns out) o' ''publish_date'' = cell_at candidate_columns l ''publish_date'')
            \<or>
            (\<exists>d \<in> set (rows scenario_details).
               cell_at detail_columns d ''video_id'' = cell_at candidate_columns l ''video_id'' \<and>
               cell_at (columns out) o' ''description'' =
                 (if cell_at detail_columns d ''full_description'' = NaN
                  then cell_at candidate_columns l ''description''
                  else cell_at detail_columns d ''full_description'') \<and>
               cell_at (columns out) o' ''title'' =
                 (if cell_at detail_columns d ''full_title'' = NaN
                  then cell_at candidate_columns l ''title''
                  else cell_at detail_columns d ''full_title'') \<and>
               cell_at (columns out) o' ''publish_date'' =
                 (if cell_at detail_columns d ''publish_date_full'' = NaN
                  then cell_at candidate_columns l ''publish_date''
                  else cell_at detail_columns d ''publish_date_full''))"
    by blast
  from o ev have out: "out = ?X"
    by simp
  have "?o1 \<in> set (rows ?X)"
    by simp
  with each [unfolded out] nomiss
  have m: "\<exists>l \<in> set (rows scenario_candidates). \<exists>d \<in> set (rows scenario_details).
      cell_at detail_columns d ''video_id'' = cell_at candidate_columns l ''video_id'' \<and>
      cell_at (columns ?X) ?o1 ''description'' =
        (if cell_at detail_columns d ''full_description'' = NaN
         then cell_at candidate_columns l ''description''
         else cell_at detail_columns d ''full_description'') \<and>
      cell_at (columns ?X) ?o1 ''title'' =
        (if cell_at detail_columns d ''full_title'' = NaN
         then cell_at candidate_columns l ''title''
         else cell_at detail_columns d ''full_title'')"
    by blast
  from conjunct2 [OF inst] wr have e: "\<exists>cand' det' recon.
      columns cand' = candidate_columns \<and> columns det' = detail_columns \<and>
      reconcile cand' det' = Inr recon \<and> add_month_bucket recon = Inr ?F"
    by blast
  from c d la ev fd od m [unfolded od ot] wr e show ?thesis
    by (simp only: frame.select_convs simp_thms)
qed

lemma length_reconciled_row: "length (reconciled_row m) = 10"
  by (simp add: reconciled_row_def)

lemma reconciled_labels:
  "''publish_date'' \<in> set (candidate_columns @ [''view_count'', ''like_count'', ''comment_count''])"
  "''month_bucket'' \<notin> set (candidate_columns @ [''view_count'', ''like_count'', ''comment_count''])"
  "length (candidate_columns @ [''view_count'', ''like_count'', ''comment_count'']) = 10"
  by code_simp+

text \<open>
  Claim C8. The month bucket of a publish timestamp is its first seven characters when it
  has at least seven, and the whole string when it is shorter; it is a prefix of the
  timestamp whatever the string is, and nothing is checked. \<^verbatim>\<open>add_month_bucket\<close> appends
  that bucket to every row, and in every table \<^verbatim>\<open>main\<close> hands to \<^verbatim>\<open>to_csv\<close> the cell
  under \<^verbatim>\<open>month_bucket\<close> is that slice of the cell under \<^verbatim>\<open>publish_date\<close>.
\<close>

theorem month_bucket_is_first_seven_characters:
  "(7 \<le> length s \<longrightarrow> str_slice 0 7 (Str s) = Str (take 7 s) \<and> length (take 7 s) = 7) \<and>
   (length s < 7 \<longrightarrow> str_slice 0 7 (Str s) = Str s) \<and>
   (\<exists>rest. str_slice 0 7 (Str s) = Str (take 7 s) \<and> s = take 7 s @ rest) \<and>
   (''publish_date'' \<in> set (columns df) \<and> ''month_bucket'' \<notin> set (columns df) \<longrightarrow>
      add_month_bucket df =
        Inr \<lparr>columns = columns df @ [''month_bucket''],
             rows = map (\<lambda>r. r @ [str_slice 0 7 (cell_at (columns df) r ''publish_date'')])
                      (rows df)\<rparr>) \<and>
   (written (youtube_aigc_sampler_main api w0) = Some (path, final) \<longrightarrow>
      (\<forall>o' \<in> set (rows final).
         cell_at (columns final) o' ''month_bucket''
           = str_slice 0 7 (cell_at (columns final) o' ''publish_date'')))"
proof (intro conjI impI)
  show "\<exists>rest. str_slice 0 7 (Str s) = Str (take 7 s) \<and> s = take 7 s @ rest"
    by (intro exI [of _ "drop 7 s"]) (simp add: py_slice_def)
next
  assume "7 \<le> length s"
  then show "str_slice 0 7 (Str s) = Str (take 7 s)" and "length (take 7 s) = 7"
    by (simp_all add: py_slice_def)
next
  assume "length s < 7"
  then show "str_slice 0 7 (Str s) = Str s"
    by (simp add: py_slice_def)
next
  assume "''publish_date'' \<in> set (columns df) \<and> ''month_bucket'' \<notin> set (columns df)"
  then show "add_month_bucket df =
        Inr \<lparr>columns = columns df @ [''month_bucket''],
             rows = map (\<lambda>r. r @ [str_slice 0 7 (cell_at (columns df) r ''publish_date'')])
                      (rows df)\<rparr>"
    by (intro add_month_bucket_rows) simp_all
next
  assume "written (youtube_aigc_sampler_main api w0) = Some (path, final)"
  from sampler_written [OF this] obtain cand det recon
    where c: "columns cand = candidate_columns" and len: "\<forall>l \<in> set (rows cand). length l = 7"
      and d: "columns det = detail_columns"
      and r: "reconcile cand det = Inr recon" and a: "add_month_bucket recon = Inr final"
    by blast
  let ?R = "candidate_columns @ [''view_count'', ''like_count'', ''comment_count'']"
  from r reconcile_rows [OF c d len] obtain M where recon: "recon = \<lparr>columns = ?R, rows = map reconciled_row M\<rparr>"
    by auto
  have "add_month_bucket recon =
      Inr \<lparr>columns = columns recon @ [''month_bucket''],
           rows = map (\<lambda>r. r @ [str_slice 0 7 (cell_at (columns recon) r ''publish_date'')])
                    (rows recon)\<rparr>"
    by (intro add_month_bucket_rows) (simp_all only: recon frame.select_convs reconciled_labels simp_thms)
  with a have final: "final = \<lparr>columns = ?R @ [''month_bucket''],
           rows = map (\<lambda>r. r @ [str_slice 0 7 (cell_at ?R r ''publish_date'')])
                    (map reconciled_row M)\<rparr>"
    by (simp add: recon)
  show "\<forall>o' \<in> set (rows final).
         cell_at (columns final) o' ''month_bucket''
           = str_slice 0 7 (cell_at (columns final) o' ''publish_date'')"
  proof
    fix o' assume "o' \<in> set (rows final)"
    then obtain m where o': "o' = reconciled_row m
        @ [str_slice 0 7 (cell_at ?R (reconciled_row m) ''publish_date'')]"
      unfolding final by auto
    have l: "length (reconciled_row m) = length ?R"
      by (simp only: length_reconciled_row reconciled_labels)
    have 1: "cell_at (?R @ [''month_bucket'']) o' ''month_bucket''
        = str_slice 0 7 (cell_at ?R (reconciled_row m) ''publish_date'')"
      unfolding o' using reconciled_labels(2) l by (rule cell_at_append_new)
    have 2: "cell_at (?R @ [''month_bucket'']) o' ''publish_date''
        = cell_at ?R (reconciled_row m) ''publish_date''"
      unfolding o' using reconciled_labels(1) l by (rule cell_at_append_old)
    from 1 2 show "cell_at (columns final) o' ''month_bucket''
           = str_slice 0 7 (cell_at (columns final) o' ''publish_date'')"
      by (simp only: final frame.select_convs)
  qed
qed

text \<open>
  Claim C8, runs: a well-formed timestamp, a short one, and the malformed timestamp
  \<^verbatim>\<open>n/a\<close>, which comes out of \<^verbatim>\<open>main\<close> as the bucket \<^verbatim>\<open>n/a\<close>.
\<close>

theorem month_bucket_is_first_seven_characters_witness:
  "7 \<le> length ''2025-09-14T10:00:00Z'' \<and>
   str_slice 0 7 (Str ''2025-09-14T10:00:00Z'') = Str ''2025-09'' \<and>
   length ''2025'' < 7 \<and>
   str_slice 0 7 (Str ''2025'') = Str ''2025'' \<and>
   ''publish_date'' \<in> set (columns scenario_candidates) \<and>
   ''month_bucket'' \<notin> set (columns scenario_candidates) \<and>
   add_month_bucket scenario_candidates =
     Inr \<lparr>columns = columns scenario_candidates @ [''month_bucket''],
          rows = [[Str ''abc123'', Str ''UC1'', Str ''Channel'', Str ''2025-09-14T10:00:00Z'',
                   Str ''One'', Str ''short'', Str ''AI tools for content creation'',
                   Str ''2025-09''],
                  [Str ''pqr'', NaN, NaN, Str ''2025-10'', Str ''Three'', Str [],
                   Str ''AI tools for content creators'', Str ''2025-10'']]\<rparr> \<and>
   written (youtube_aigc_sampler_main scenario_youtube ()) =
     Some (''youtube_candidates_basic.csv'',
       \<lparr>columns = candidate_columns @
                    [''view_count'', ''like_count'', ''comment_count'', ''month_bucket''],
        rows = [[Str ''abc123'', Str ''UC1'', Str ''Channel'', Str [], Str ''One, in full'',
                 Str ''the full description'', Str ''AI tools for content creation'',
                 Num 120, Num 0, Num 3, Str []],
                [Str ''pqr'', Str ''UC1'', Str ''Channel'', Str ''n/a'', Str ''Three'',
                 Str ''short'', Str ''AI tools for content creators'', NaN, NaN, NaN,
                 Str ''n/a'']]\<rparr>) \<and>
   cell_at (candidate_columns @
              [''view_count'', ''like_count'', ''comment_count'', ''month_bucket''])
     [Str ''pqr'', Str ''UC1'', Str ''Channel'', Str ''n/a'', Str ''Three'',
      Str ''short'', Str ''AI tools for content creators'', NaN, NaN, NaN, Str ''n/a'']
     ''month_bucket''
     = str_slice 0 7
         (cell_at (candidate_columns @
                     [''view_count'', ''like_count'', ''comment_count'', ''month_bucket''])
            [Str ''pqr'', Str ''UC1'', Str ''Channel'', Str ''n/a'', Str ''Three'',
             Str ''short'', Str ''AI tools for content creators'', NaN, NaN, NaN, Str ''n/a'']
            ''publish_date'')"
proof -
  let ?p = "[Str ''pqr'', Str ''UC1'', Str ''Channel'', Str ''n/a'', Str ''Three'',
      Str ''short'', Str ''AI tools for content creators'', NaN, NaN, NaN, Str ''n/a'']"
  let ?F = "\<lparr>columns = candidate_columns @
                    [''view_count'', ''like_count'', ''comment_count'', ''month_bucket''],
        rows = [[Str ''abc123'', Str ''UC1'', Str ''Channel'', Str [], Str ''One, in full'',
                 Str ''the full description'', Str ''AI tools for content creation'',
                 Num 120, Num 0, Num 3, Str []], ?p]\<rparr>"
  note long = month_bucket_is_first_seven_characters
    [where s = "''2025-09-14T10:00:00Z''" and df = scenario_candidates
       and api = scenario_youtube and ?w0.0 = "()"
       and path = "''youtube_candidates_basic.csv''" and final = ?F]
  note short = month_bucket_is_first_seven_characters
    [where s = "''2025''" and df = scenario_candidates
       and api = scenario_youtube and ?w0.0 = "()"
       and path = "''youtube_candidates_basic.csv''" and final = ?F]
  have l1: "7 \<le> length ''2025-09-14T10:00:00Z''" and l2: "length ''2025'' < 7"
    by simp_all
  have pd: "''publish_date'' \<in> set (columns scenario_candidates)"
    and mb: "''month_bucket'' \<notin> set (columns scenario_candidates)"
    by (simp_all add: scenario_candidates_def candidate_columns_def)
  have wr: "written (youtube_aigc_sampler_main scenario_youtube ()) =
     Some (''youtube_candidates_basic.csv'', ?F)"
    by code_simp
  from long [THEN conjunct1] l1 have "str_slice 0 7 (Str ''2025-09-14T10:00:00Z'')
      = Str (take 7 ''2025-09-14T10:00:00Z'')"
    by blast
  then have s1: "str_slice 0 7 (Str ''2025-09-14T10:00:00Z'') = Str ''2025-09''"
    by simp
  from short [THEN conjunct2, THEN conjunct1] l2
  have s2: "str_slice 0 7 (Str ''2025'') = Str ''2025''"
    by blast
  from long [THEN conjunct2, THEN conjunct2, THEN conjunct2, THEN conjunct1] pd mb
  have "add_month_bucket scenario_candidates =
        Inr \<lparr>columns = columns scenario_candidates @ [''month_bucket''],
             rows = map (\<lambda>r. r @ [str_slice 0 7
                            (cell_at (columns scenario_candidates) r ''publish_date'')])
                      (rows scenario_candidates)\<rparr>"
    by blast
  moreover have "map (\<lambda>r. r @ [str_slice 0 7
                            (cell_at (columns scenario_candidates) r ''publish_date'')])
                      (rows scenario_candidates)
      = [[Str ''abc123'', Str ''UC1'', Str ''Channel'', Str ''2025-09-14T10:00:00Z'',
                   Str ''One'', Str ''short'', Str ''AI tools for content creation'',
                   Str ''2025-09''],
                  [Str ''pqr'', NaN, NaN, Str ''2025-10'', Str ''Three'', Str [],
                   Str ''AI tools for content creators'', Str ''2025-10'']]"
    by code_simp
  ultimately have a: "add_month_bucket scenario_candidates =
     Inr \<lparr>columns = columns scenario_candidates @ [''month_bucket''],
          rows = [[Str ''abc123'', Str ''UC1'', Str ''Channel'', Str ''2025-09-14T10:00:00Z'',
                   Str ''One'', Str ''short'', Str ''AI tools for content creation'',
                   Str ''2025-09''],
                  [Str ''pqr'', NaN, NaN, Str ''2025-10'', Str ''Three'', Str [],
                   Str ''AI tools for content creators'', Str ''2025-10'']]\<rparr>"
    by simp
  from long [THEN conjunct2, THEN conjunct2, THEN conjunct2, THEN conjunct2] wr
  have "\<forall>o' \<in> set (rows ?F).
         cell_at (columns ?F) o' ''month_bucket''
           = str_slice 0 7 (cell_at (columns ?F) o' ''publish_date'')"
    by blast
  then have b: "cell_at (columns ?F) ?p ''month_bucket''
           = str_slice 0 7 (cell_at (columns ?F) ?p ''publish_date'')"
    by simp
  from l1 s1 l2 s2 pd mb a wr b show ?thesis
    by (simp only: frame.select_convs simp_thms)
qed

text \<open>
  The rows a search returns carry the query they were found with, so the concatenation
  the sampler deduplicates splits into one list per query, in query order.
\<close>

lemma search_rows_query:
  "search_rows query items = Inr rs \<Longrightarrow> r \<in> set rs \<Longrightarrow>
     cell_at candidate_columns r ''query'' = Str query"
proof (induction items arbitrary: rs)
  case Nil
  then show ?case by simp
next
  case (Cons item items)
  then show ?case
    by (auto simp: candidate_columns_def cell_at_def split: option.splits sum.splits)
qed

lemma search_queries_concat:
  "search_queries api qs w = (ps, Inr rs, w') \<Longrightarrow>
     \<exists>rss. rs = concat rss \<and> length rss = length qs \<and>
       (\<forall>i < length qs. \<forall>r \<in> set (rss ! i).
          cell_at candidate_columns r ''query'' = Str (qs ! i))"
proof (induction qs arbitrary: w ps rs)
  case Nil
  then show ?case by simp
next
  case (Cons query qs)
  from Cons.prems obtain rows1 w1 ps' rows2
    where s1: "search_videos_for_query api query 40 w = (Inr rows1, w1)"
      and s2: "search_queries api qs w1 = (ps', Inr rows2, w')"
      and rs: "rs = rows1 @ rows2"
    by (auto split: prod.splits sum.splits)
  from s1 have q1: "\<forall>r \<in> set rows1. cell_at candidate_columns r ''query'' = Str query"
    by (auto simp: search_videos_for_query_def split: prod.splits sum.splits
        dest: search_rows_query)
  from Cons.IH [OF s2] obtain rss where r2: "rows2 = concat rss"
    and l: "length rss = length qs"
    and q2: "\<forall>i < length qs. \<forall>r \<in> set (rss ! i).
          cell_at candidate_columns r ''query'' = Str (qs ! i)"
    by blast
  have "\<forall>i < length (query # qs). \<forall>r \<in> set ((rows1 # rss) ! i).
          cell_at candidate_columns r ''query'' = Str ((query # qs) ! i)"
  proof (intro allI impI)
    fix i assume "i < length (query # qs)"
    with q1 q2 show "\<forall>r \<in> set ((rows1 # rss) ! i).
          cell_at candidate_columns r ''query'' = Str ((query # qs) ! i)"
      by (cases i) auto
  qed
  with rs r2 l show ?case
    by (intro exI [of _ "rows1 # rss"]) simp
qed

text \<open>
  The stages of a run of the sampler that writes its file, and the relation of the rows
  written to the deduplicated candidates: the join and the bucket keep the identifier and
  the query of every candidate row, and add no other.
\<close>

lemma sampler_pipeline:
  assumes wr: "written (youtube_aigc_sampler_main api w0) = Some (path, final)"
  shows "\<exists>w1 ps all_rows w2 cand det w3 recon.
           build api w0 = (None, w1) \<and>
           search_queries api QUERIES w1 = (ps, Inr all_rows, w2) \<and>
           drop_duplicates (DataFrame candidate_columns all_rows) ''video_id'' = Inr cand \<and>
           rows cand = keep_first [] candidate_columns ''video_id'' all_rows \<and>
           fetch_video_details api (column cand ''video_id'') w2 = (Inr det, w3) \<and>
           columns cand = candidate_columns \<and> (\<forall>l \<in> set (rows cand). length l = 7) \<and>
           columns det = detail_columns \<and>
           reconcile cand det = Inr recon \<and> add_month_bucket recon = Inr final \<and>
           printed (youtube_aigc_sampler_main api w0) =
             ps @ [''Raw candidates (before dedupe): '' @ str_of_nat (length all_rows),
                   ''After dedupe: '' @ str_of_nat (length (rows cand)),
                   ''Saved to youtube_candidates_basic.csv'']"
proof -
  obtain b w1 where b: "build api w0 = (b, w1)"
    by (cases "build api w0")
  with wr have bn: "b = None"
    by (cases b) (simp_all add: youtube_aigc_sampler_main_def)
  obtain ps res w2 where sq: "search_queries api QUERIES w1 = (ps, res, w2)"
    by (cases "search_queries api QUERIES w1")
  with wr b bn obtain all_rows where res: "res = Inr all_rows"
    by (cases res) (simp_all add: youtube_aigc_sampler_main_def)
  let ?df = "DataFrame candidate_columns all_rows"
  obtain dd where dd: "drop_duplicates ?df ''video_id'' = dd"
    by simp
  with wr b bn sq res obtain cand where cand: "dd = Inr cand"
    by (cases dd) (simp_all add: youtube_aigc_sampler_main_def Let_def)
  from wr b bn sq res dd cand have ne: "\<not> empty_frame cand"
    by (auto simp: youtube_aigc_sampler_main_def Let_def split: if_splits)
  have nonempty: "all_rows \<noteq> []"
  proof
    assume "all_rows = []"
    with dd cand have "empty_frame cand"
      by (auto simp: drop_duplicates_def DataFrame_def empty_frame_def)
    with ne show False ..
  qed
  have v: "''video_id'' \<in> set candidate_columns" and cne: "candidate_columns \<noteq> []"
    by (simp_all add: candidate_columns_def)
  from dd cand nonempty v cne have c: "cand = \<lparr>columns = candidate_columns,
      rows = keep_first [] candidate_columns ''video_id'' all_rows\<rparr>"
    by (simp add: drop_duplicates_def DataFrame_def empty_frame_def)
  have len: "\<forall>l \<in> set (rows cand). length l = 7"
    using keep_first_subset [of "[]" candidate_columns "''video_id''" all_rows]
      search_queries_length [OF sq [unfolded res]]
    by (auto simp: c)
  obtain fd w3 where fd: "fetch_video_details api (column cand ''video_id'') w2 = (fd, w3)"
    by (cases "fetch_video_details api (column cand ''video_id'') w2")
  with wr b bn sq res dd cand ne obtain det where det: "fd = Inr det"
    by (cases fd) (simp_all add: youtube_aigc_sampler_main_def Let_def)
  obtain rc where rc: "reconcile cand det = rc"
    by simp
  with wr b bn sq res dd cand ne fd det obtain recon where recon: "rc = Inr recon"
    by (cases rc) (simp_all add: youtube_aigc_sampler_main_def Let_def)
  from wr b bn sq res dd cand ne fd det rc recon have amb: "add_month_bucket recon = Inr final"
    by (cases "add_month_bucket recon") (simp_all add: youtube_aigc_sampler_main_def Let_def)
  obtain fb w3' where fb: "fetch_batches api (batches 50 (column cand ''video_id'')) w2 = (fb, w3')"
    by (cases "fetch_batches api (batches 50 (column cand ''video_id'')) w2")
  from fd det fb obtain drows where "det = DataFrame detail_columns drows"
    by (cases fb) (auto simp: fetch_video_details_def)
  then have alt: "columns det = detail_columns \<or> columns det = []"
    by (simp add: DataFrame_def)
  have dc: "columns det = detail_columns"
  proof (rule ccontr)
    assume "columns det \<noteq> detail_columns"
    with alt have "columns det = []"
      by simp
    then have "reconcile cand det = Inl (KeyError ''video_id'')"
      by (rule reconcile_needs_details)
    with rc recon show False
      by simp
  qed
  have cc: "columns cand = candidate_columns"
    and rc': "rows cand = keep_first [] candidate_columns ''video_id'' all_rows"
    by (simp_all add: c)
  from rc recon have r: "reconcile cand det = Inr recon"
    by simp
  from nonempty have df: "DataFrame candidate_columns all_rows
      = \<lparr>columns = candidate_columns, rows = all_rows\<rparr>"
    by (simp add: DataFrame_def)
  from b bn sq res dd cand ne fd det r amb
  have pr: "printed (youtube_aigc_sampler_main api w0) =
             ps @ [''Raw candidates (before dedupe): '' @ str_of_nat (length all_rows),
                   ''After dedupe: '' @ str_of_nat (length (rows cand)),
                   ''Saved to youtube_candidates_basic.csv'']"
    by (simp add: youtube_aigc_sampler_main_def Let_def df)
  from b bn have b': "build api w0 = (None, w1)"
    by simp
  from sq res have sq': "search_queries api QUERIES w1 = (ps, Inr all_rows, w2)"
    by simp
  from dd cand have dd': "drop_duplicates (DataFrame candidate_columns all_rows) ''video_id''
      = Inr cand"
    by simp
  from fd det have fd': "fetch_video_details api (column cand ''video_id'') w2 = (Inr det, w3)"
    by simp
  from b' sq' dd' rc' fd' cc len dc r amb pr show ?thesis
    by blast
qed

lemma joined_row_shape:
  assumes m: "m \<in> set (join_rows candidate_columns detail_columns drows ''video_id''
                       (tl detail_columns) l)"
    and l: "length l = 7"
  shows "\<exists>a1 a2 a3 a4 a5 a6 a7 b1 b2 b3 b4 b5 b6.
           l = [a1, a2, a3, a4, a5, a6, a7] \<and>
           m = [a1, a2, a3, a4, a5, a6, a7, b1, b2, b3, b4, b5, b6]"
proof -
  from length_eq_7 [OF l] obtain a1 a2 a3 a4 a5 a6 a7
    where a: "l = [a1, a2, a3, a4, a5, a6, a7]"
    by blast
  from join_rows_cases [OF m] have "\<exists>b1 b2 b3 b4 b5 b6. m = l @ [b1, b2, b3, b4, b5, b6]"
    by blast
  with a show ?thesis
    by auto
qed

lemma join_rows_nonempty: "join_rows lcols rcols_all rrows on rcols l \<noteq> []"
  by (simp add: join_rows_if)

lemma cell_at_final:
  "cell_at (candidate_columns @ [''view_count'', ''like_count'', ''comment_count'',
            ''month_bucket''])
     [x1, x2, x3, x4, x5, x6, x7, x8, x9, x10, x11] ''video_id'' = x1"
  "cell_at (candidate_columns @ [''view_count'', ''like_count'', ''comment_count'',
            ''month_bucket''])
     [x1, x2, x3, x4, x5, x6, x7, x8, x9, x10, x11] ''query'' = x7"
  "cell_at candidate_columns [a1, a2, a3, a4, a5, a6, a7] ''video_id'' = a1"
  "cell_at candidate_columns [a1, a2, a3, a4, a5, a6, a7] ''query'' = a7"
  by (simp_all add: candidate_columns_def cell_at_def)

lemma final_rows_from_candidates:
  assumes c: "columns cand = candidate_columns" and len: "\<forall>l \<in> set (rows cand). length l = 7"
    and d: "columns det = detail_columns"
    and r: "reconcile cand det = Inr recon" and a: "add_month_bucket recon = Inr final"
  shows "(\<forall>o' \<in> set (rows final). \<exists>l \<in> set (rows cand).
            cell_at (columns final) o' ''video_id'' = cell_at candidate_columns l ''video_id'' \<and>
            cell_at (columns final) o' ''query'' = cell_at candidate_columns l ''query'') \<and>
         (\<forall>l \<in> set (rows cand). \<exists>o' \<in> set (rows final).
            cell_at (columns final) o' ''video_id'' = cell_at candidate_columns l ''video_id'' \<and>
            cell_at (columns final) o' ''query'' = cell_at candidate_columns l ''query'')"
proof -
  let ?R = "candidate_columns @ [''view_count'', ''like_count'', ''comment_count'']"
  let ?J = "join_rows candidate_columns detail_columns (rows det) ''video_id''
      (tl detail_columns)"
  let ?f = "\<lambda>m. reconciled_row m @ [str_slice 0 7 (cell_at ?R (reconciled_row m) ''publish_date'')]"
  from r reconcile_rows [OF c d len]
  have recon: "recon = \<lparr>columns = ?R, rows = map reconciled_row (concat (map ?J (rows cand)))\<rparr>"
    by auto
  have "add_month_bucket recon =
      Inr \<lparr>columns = columns recon @ [''month_bucket''],
           rows = map (\<lambda>r. r @ [str_slice 0 7 (cell_at (columns recon) r ''publish_date'')])
                    (rows recon)\<rparr>"
    by (intro add_month_bucket_rows) (simp_all only: recon frame.select_convs reconciled_labels simp_thms)
  with a have final: "final = \<lparr>columns = ?R @ [''month_bucket''],
           rows = map ?f (concat (map ?J (rows cand)))\<rparr>"
    by (simp add: recon comp_def)
  have row: "cell_at (?R @ [''month_bucket'']) (?f m) ''video_id''
        = cell_at candidate_columns l ''video_id'' \<and>
      cell_at (?R @ [''month_bucket'']) (?f m) ''query'' = cell_at candidate_columns l ''query''"
    if l: "l \<in> set (rows cand)" and m: "m \<in> set (?J l)" for l m
  proof -
    from len l have "length l = 7"
      by simp
    from joined_row_shape [OF m this] obtain a1 a2 a3 a4 a5 a6 a7 b1 b2 b3 b4 b5 b6
      where la: "l = [a1, a2, a3, a4, a5, a6, a7]"
        and ma: "m = [a1, a2, a3, a4, a5, a6, a7, b1, b2, b3, b4, b5, b6]"
      by blast
    show ?thesis
      unfolding la ma by (simp add: reconciled_row_def cell_at_final)
  qed
  show ?thesis
  proof (intro conjI ballI)
    fix o' assume "o' \<in> set (rows final)"
    then obtain l m where l: "l \<in> set (rows cand)" and m: "m \<in> set (?J l)" and o': "o' = ?f m"
      unfolding final by auto
    from row [OF l m] l show "\<exists>l \<in> set (rows cand).
            cell_at (columns final) o' ''video_id'' = cell_at candidate_columns l ''video_id'' \<and>
            cell_at (columns final) o' ''query'' = cell_at candidate_columns l ''query''"
      unfolding o' final frame.select_convs by blast
  next
    fix l assume l: "l \<in> set (rows cand)"
    from join_rows_nonempty obtain m where m: "m \<in> set (?J l)"
      by (meson last_in_set)
    from l m have "?f m \<in> set (rows final)"
      unfolding final by auto
    with row [OF l m] show "\<exists>o' \<in> set (rows final).
            cell_at (columns final) o' ''video_id'' = cell_at candidate_columns l ''video_id'' \<and>
            cell_at (columns final) o' ''query'' = cell_at candidate_columns l ''query''"
      unfolding final frame.select_convs by blast
  qed
qed

lemma rows_DataFrame: "rows (DataFrame cols rs) = rs"
  by (simp add: DataFrame_def)

lemma sampler_dedupe_printed:
  assumes b: "build api w0 = (None, w1)"
    and sq: "search_queries api QUERIES w1 = (ps, Inr all_rows, w2)"
  shows "\<exists>cand rest.
           drop_duplicates (DataFrame candidate_columns all_rows) ''video_id'' = Inr cand \<and>
           printed (youtube_aigc_sampler_main api w0) =
             ps @ [''Raw candidates (before dedupe): '' @ str_of_nat (length all_rows),
                   ''After dedupe: '' @ str_of_nat (length (rows cand))] @ rest"
proof -
  from drop_duplicates_concat [of "[all_rows]"] obtain cand
    where dd: "drop_duplicates (DataFrame candidate_columns all_rows) ''video_id'' = Inr cand"
    by auto
  from b sq dd have "\<exists>rest. printed (youtube_aigc_sampler_main api w0) =
             ps @ [''Raw candidates (before dedupe): '' @ str_of_nat (length all_rows),
                   ''After dedupe: '' @ str_of_nat (length (rows cand))] @ rest"
    by (simp add: youtube_aigc_sampler_main_def Let_def rows_DataFrame
        split: prod.splits sum.splits)
  with dd show ?thesis
    by blast
qed

text \<open>
  Claim C6. For the rows of all queries, concatenated in query order, deduplication
  succeeds and keeps exactly one row per distinct identifier; each kept row is the first
  row of the input with its identifier, so it stems from the first query whose rows hold
  that identifier; and the kept rows stand in their input order. The sampler applies this
  deduplication to the rows of its searches: every run whose searches succeed prints the
  number of rows before and the number of rows that \<^verbatim>\<open>drop_duplicates\<close> on \<^verbatim>\<open>video_id\<close>
  keeps; and in every run that writes its file, the rows of the searches are one list per
  query of \<^verbatim>\<open>QUERIES\<close>, each row labelled with its query, the deduplicated table has
  distinct identifiers, every kept row carries the first query that returned its video,
  the details are requested for the kept identifiers, the file is built from the
  deduplicated table, and the identifier-query pairs of the rows written are exactly
  those of the kept rows.
\<close>

theorem drop_duplicates_keeps_first_occurrence:
  "(\<exists>out. drop_duplicates (DataFrame candidate_columns (concat rss)) ''video_id'' = Inr out \<and>
     distinct (map (\<lambda>r. cell_at candidate_columns r ''video_id'') (rows out)) \<and>
     set (map (\<lambda>r. cell_at candidate_columns r ''video_id'') (rows out))
       = set (map (\<lambda>r. cell_at candidate_columns r ''video_id'') (concat rss)) \<and>
     (\<forall>r \<in> set (rows out).
        find (\<lambda>x. cell_at candidate_columns x ''video_id''
                     = cell_at candidate_columns r ''video_id'') (concat rss) = Some r \<and>
        (\<exists>i < length rss. r \<in> set (rss ! i) \<and>
           (\<forall>j < i. \<forall>x \<in> set (rss ! j).
              cell_at candidate_columns x ''video_id''
                \<noteq> cell_at candidate_columns r ''video_id''))) \<and>
     subseq (rows out) (concat rss)) \<and>
   (build api w0 = (None, w1) \<and> search_queries api QUERIES w1 = (ps, Inr all_rows, w2) \<longrightarrow>
      (\<exists>cand rest.
         drop_duplicates (DataFrame candidate_columns all_rows) ''video_id'' = Inr cand \<and>
         printed (youtube_aigc_sampler_main api w0) =
           ps @ [''Raw candidates (before dedupe): '' @ str_of_nat (length all_rows),
                 ''After dedupe: '' @ str_of_nat (length (rows cand))] @ rest)) \<and>
   (written (youtube_aigc_sampler_main api w0) = Some (path, final) \<longrightarrow>
      (\<exists>v1 qs qrows v2 cand det v3 recon.
         build api w0 = (None, v1) \<and>
         search_queries api QUERIES v1 = (qs, Inr (concat qrows), v2) \<and>
         length qrows = length QUERIES \<and>
         (\<forall>i < length QUERIES. \<forall>r \<in> set (qrows ! i).
            cell_at candidate_columns r ''query'' = Str (QUERIES ! i)) \<and>
         drop_duplicates (DataFrame candidate_columns (concat qrows)) ''video_id'' = Inr cand \<and>
         columns cand = candidate_columns \<and>
         distinct (map (\<lambda>r. cell_at candidate_columns r ''video_id'') (rows cand)) \<and>
         set (map (\<lambda>r. cell_at candidate_columns r ''video_id'') (rows cand))
           = set (map (\<lambda>r. cell_at candidate_columns r ''video_id'') (concat qrows)) \<and>
         (\<forall>r \<in> set (rows cand).
            \<exists>i < length QUERIES. r \<in> set (qrows ! i) \<and>
              cell_at candidate_columns r ''query'' = Str (QUERIES ! i) \<and>
              (\<forall>j < i. \<forall>x \<in> set (qrows ! j).
                 cell_at candidate_columns x ''video_id''
                   \<noteq> cell_at candidate_columns r ''video_id'')) \<and>
         subseq (rows cand) (concat qrows) \<and>
         ''After dedupe: '' @ str_of_nat (length (rows cand))
           \<in> set (printed (youtube_aigc_sampler_main api w0)) \<and>
         fetch_video_details api (column cand ''video_id'') v2 = (Inr det, v3) \<and>
         reconcile cand det = Inr recon \<and> add_month_bucket recon = Inr final \<and>
         (\<forall>o' \<in> set (rows final). \<exists>l \<in> set (rows cand).
            cell_at (columns final) o' ''video_id'' = cell_at candidate_columns l ''video_id'' \<and>
            cell_at (columns final) o' ''query'' = cell_at candidate_columns l ''query'') \<and>
         (\<forall>l \<in> set (rows cand). \<exists>o' \<in> set (rows final).
            cell_at (columns final) o' ''video_id'' = cell_at candidate_columns l ''video_id'' \<and>
            cell_at (columns final) o' ''query'' = cell_at candidate_columns l ''query'')))"
proof (intro conjI impI)
  show "\<exists>out. drop_duplicates (DataFrame candidate_columns (concat rss)) ''video_id'' = Inr out \<and>
     distinct (map (\<lambda>r. cell_at candidate_columns r ''video_id'') (rows out)) \<and>
     set (map (\<lambda>r. cell_at candidate_columns r ''video_id'') (rows out))
       = set (map (\<lambda>r. cell_at candidate_columns r ''video_id'') (concat rss)) \<and>
     (\<forall>r \<in> set (rows out).
        find (\<lambda>x. cell_at candidate_columns x ''video_id''
                     = cell_at candidate_columns r ''video_id'') (concat rss) = Some r \<and>
        (\<exists>i < length rss. r \<in> set (rss ! i) \<and>
           (\<forall>j < i. \<forall>x \<in> set (rss ! j).
              cell_at candidate_columns x ''video_id''
                \<noteq> cell_at candidate_columns r ''video_id''))) \<and>
     subseq (rows out) (concat rss)"
    by (rule drop_duplicates_concat)
next
  assume "build api w0 = (None, w1) \<and> search_queries api QUERIES w1 = (ps, Inr all_rows, w2)"
  then show "\<exists>cand rest.
         drop_duplicates (DataFrame candidate_columns all_rows) ''video_id'' = Inr cand \<and>
         printed (youtube_aigc_sampler_main api w0) =
           ps @ [''Raw candidates (before dedupe): '' @ str_of_nat (length all_rows),
                 ''After dedupe: '' @ str_of_nat (length (rows cand))] @ rest"
    by (elim conjE) (rule sampler_dedupe_printed)
next
  let ?vid = "\<lambda>r. cell_at candidate_columns r ''video_id''"
  assume wr: "written (youtube_aigc_sampler_main api w0) = Some (path, final)"
  from sampler_pipeline [OF wr] obtain v1 qs all_rows v2 cand det v3 recon
    where b: "build api w0 = (None, v1)"
      and sq: "search_queries api QUERIES v1 = (qs, Inr all_rows, v2)"
      and dd: "drop_duplicates (DataFrame candidate_columns all_rows) ''video_id'' = Inr cand"
      and fd: "fetch_video_details api (column cand ''video_id'') v2 = (Inr det, v3)"
      and cc: "columns cand = candidate_columns"
      and len: "\<forall>l \<in> set (rows cand). length l = 7"
      and dc: "columns det = detail_columns"
      and rc: "reconcile cand det = Inr recon"
      and amb: "add_month_bucket recon = Inr final"
      and pr: "printed (youtube_aigc_sampler_main api w0) =
             qs @ [''Raw candidates (before dedupe): '' @ str_of_nat (length all_rows),
                   ''After dedupe: '' @ str_of_nat (length (rows cand)),
                   ''Saved to youtube_candidates_basic.csv'']"
    by blast
  from search_queries_concat [OF sq] obtain qrows
    where ar: "all_rows = concat qrows"
      and lq: "length qrows = length QUERIES"
      and qq: "\<forall>i < length QUERIES. \<forall>r \<in> set (qrows ! i).
            cell_at candidate_columns r ''query'' = Str (QUERIES ! i)"
    by blast
  from drop_duplicates_concat [of qrows] dd [unfolded ar]
  have di: "distinct (map ?vid (rows cand))"
    and se: "set (map ?vid (rows cand)) = set (map ?vid (concat qrows))"
    and fi: "\<forall>r \<in> set (rows cand).
        find (\<lambda>x. ?vid x = ?vid r) (concat qrows) = Some r \<and>
        (\<exists>i < length qrows. r \<in> set (qrows ! i) \<and>
           (\<forall>j < i. \<forall>x \<in> set (qrows ! j). ?vid x \<noteq> ?vid r))"
    and su: "subseq (rows cand) (concat qrows)"
    by auto
  have fq: "\<forall>r \<in> set (rows cand).
            \<exists>i < length QUERIES. r \<in> set (qrows ! i) \<and>
              cell_at candidate_columns r ''query'' = Str (QUERIES ! i) \<and>
              (\<forall>j < i. \<forall>x \<in> set (qrows ! j). ?vid x \<noteq> ?vid r)"
  proof
    fix r assume "r \<in> set (rows cand)"
    with fi obtain i where i: "i < length qrows" and r: "r \<in> set (qrows ! i)"
      and f: "\<forall>j < i. \<forall>x \<in> set (qrows ! j). ?vid x \<noteq> ?vid r"
      by blast
    from i lq have i': "i < length QUERIES"
      by simp
    with qq r have "cell_at candidate_columns r ''query'' = Str (QUERIES ! i)"
      by blast
    with i' r f show "\<exists>i < length QUERIES. r \<in> set (qrows ! i) \<and>
              cell_at candidate_columns r ''query'' = Str (QUERIES ! i) \<and>
              (\<forall>j < i. \<forall>x \<in> set (qrows ! j). ?vid x \<noteq> ?vid r)"
      by blast
  qed
  have ad: "''After dedupe: '' @ str_of_nat (length (rows cand))
           \<in> set (printed (youtube_aigc_sampler_main api w0))"
    unfolding pr by simp
  note fr = final_rows_from_candidates [OF cc len dc rc amb]
  from b sq [unfolded ar] lq qq dd [unfolded ar] cc di se fq su ad fd rc amb
    fr [THEN conjunct1] fr [THEN conjunct2]
  show "\<exists>v1 qs qrows v2 cand det v3 recon.
         build api w0 = (None, v1) \<and>
         search_queries api QUERIES v1 = (qs, Inr (concat qrows), v2) \<and>
         length qrows = length QUERIES \<and>
         (\<forall>i < length QUERIES. \<forall>r \<in> set (qrows ! i).
            cell_at candidate_columns r ''query'' = Str (QUERIES ! i)) \<and>
         drop_duplicates (DataFrame candidate_columns (concat qrows)) ''video_id'' = Inr cand \<and>
         columns cand = candidate_columns \<and>
         distinct (map (\<lambda>r. cell_at candidate_columns r ''video_id'') (rows cand)) \<and>
         set (map (\<lambda>r. cell_at candidate_columns r ''video_id'') (rows cand))
           = set (map (\<lambda>r. cell_at candidate_columns r ''video_id'') (concat qrows)) \<and>
         (\<forall>r \<in> set (rows cand).
            \<exists>i < length QUERIES. r \<in> set (qrows ! i) \<and>
              cell_at candidate_columns r ''query'' = Str (QUERIES ! i) \<and>
              (\<forall>j < i. \<forall>x \<in> set (qrows ! j).
                 cell_at candidate_columns x ''video_id''
                   \<noteq> cell_at candidate_columns r ''video_id'')) \<and>
         subseq (rows cand) (concat qrows) \<and>
         ''After dedupe: '' @ str_of_nat (length (rows cand))
           \<in> set (printed (youtube_aigc_sampler_main api w0)) \<and>
         fetch_video_details api (column cand ''video_id'') v2 = (Inr det, v3) \<and>
         reconcile cand det = Inr recon \<and> add_month_bucket recon = Inr final \<and>
         (\<forall>o' \<in> set (rows final). \<exists>l \<in> set (rows cand).
            cell_at (columns final) o' ''video_id'' = cell_at candidate_columns l ''video_id'' \<and>
            cell_at (columns final) o' ''query'' = cell_at candidate_columns l ''query'') \<and>
         (\<forall>l \<in> set (rows cand). \<exists>o' \<in> set (rows final).
            cell_at (columns final) o' ''video_id'' = cell_at candidate_columns l ''video_id'' \<and>
            cell_at (columns final) o' ''query'' = cell_at candidate_columns l ''query'')"
    by (intro exI conjI)
qed

text \<open>
  Claim C6, two runs. Scenario B: two queries return \<^verbatim>\<open>abc123\<close>, and the row that survives
  is the one of the first query. And a run of the sampler whose first two queries both
  find \<^verbatim>\<open>abc123\<close>: three rows are found, two are kept, and the file attributes \<^verbatim>\<open>abc123\<close>
  to the first query.
\<close>

theorem drop_duplicates_keeps_first_occurrence_witness:
  "drop_duplicates (DataFrame candidate_columns (concat scenario_b_rows)) ''video_id'' =
     Inr \<lparr>columns = candidate_columns,
          rows = [[Str ''abc123'', Str ''UC1'', Str ''Channel'', Str ''2025-09-14T10:00:00Z'',
                   Str ''One'', Str ''short'', Str ''AI tools for content creation''],
                  [Str ''pqr'', NaN, NaN, Str ''2025-10'', Str ''Three'', Str [],
                   Str ''AI tools for content creators'']]\<rparr> \<and>
   find (\<lambda>x. cell_at candidate_columns x ''video_id'' = Str ''abc123'') (concat scenario_b_rows)
     = Some [Str ''abc123'', Str ''UC1'', Str ''Channel'', Str ''2025-09-14T10:00:00Z'',
             Str ''One'', Str ''short'', Str ''AI tools for content creation''] \<and>
   cell_at candidate_columns
     [Str ''abc123'', Str ''UC1'', Str ''Channel'', Str ''2025-09-14T10:00:00Z'',
      Str ''One'', Str ''short'', Str ''AI tools for content creation''] ''query''
     = Str ''AI tools for content creation'' \<and>
   build scenario_youtube () = (None, ()) \<and>
   search_queries scenario_youtube QUERIES () =
     (map ((@) ''Searching for query: '') QUERIES,
      Inr [[Str ''abc123'', Str ''UC1'', Str ''Channel'', Str ''2025-09-14T10:00:00Z'',
            Str ''One'', Str ''short'', Str ''AI tools for content creation''],
           [Str ''abc123'', Str ''UC1'', Str ''Channel'', Str ''2025-09-14T10:00:00Z'',
            Str ''One'', Str ''short'', Str ''AI tools for content creators''],
           [Str ''pqr'', Str ''UC1'', Str ''Channel'', Str ''n/a'', Str ''Three'',
            Str ''short'', Str ''AI tools for content creators'']], ()) \<and>
   drop_duplicates
     (DataFrame candidate_columns
        [[Str ''abc123'', Str ''UC1'', Str ''Channel'', Str ''2025-09-14T10:00:00Z'',
          Str ''One'', Str ''short'', Str ''AI tools for content creation''],
         [Str ''abc123'', Str ''UC1'', Str ''Channel'', Str ''2025-09-14T10:00:00Z'',
          Str ''One'', Str ''short'', Str ''AI tools for content creators''],
         [Str ''pqr'', Str ''UC1'', Str ''Channel'', Str ''n/a'', Str ''Three'',
          Str ''short'', Str ''AI tools for content creators'']]) ''video_id'' =
     Inr \<lparr>columns = candidate_columns,
          rows = [[Str ''abc123'', Str ''UC1'', Str ''Channel'', Str ''2025-09-14T10:00:00Z'',
                   Str ''One'', Str ''short'', Str ''AI tools for content creation''],
                  [Str ''pqr'', Str ''UC1'', Str ''Channel'', Str ''n/a'', Str ''Three'',
                   Str ''short'', Str ''AI tools for content creators'']]\<rparr> \<and>
   (\<exists>rest. printed (youtube_aigc_sampler_main scenario_youtube ()) =
      map ((@) ''Searching for query: '') QUERIES @
      [''Raw candidates (before dedupe): 3'', ''After dedupe: 2''] @ rest) \<and>
   written (youtube_aigc_sampler_main scenario_youtube ()) =
     Some (''youtube_candidates_basic.csv'',
       \<lparr>columns = candidate_columns @
                    [''view_count'', ''like_count'', ''comment_count'', ''month_bucket''],
        rows = [[Str ''abc123'', Str ''UC1'', Str ''Channel'', Str [], Str ''One, in full'',
                 Str ''the full description'', Str ''AI tools for content creation'',
                 Num 120, Num 0, Num 3, Str []],
                [Str ''pqr'', Str ''UC1'', Str ''Channel'', Str ''n/a'', Str ''Three'',
                 Str ''short'', Str ''AI tools for content creators'', NaN, NaN, NaN,
                 Str ''n/a'']]\<rparr>) \<and>
   ''After dedupe: 2'' \<in> set (printed (youtube_aigc_sampler_main scenario_youtube ()))"
proof -
  let ?r = "[Str ''abc123'', Str ''UC1'', Str ''Channel'', Str ''2025-09-14T10:00:00Z'',
             Str ''One'', Str ''short'', Str ''AI tools for content creation'']"
  let ?out = "\<lparr>columns = candidate_columns,
          rows = [?r, [Str ''pqr'', NaN, NaN, Str ''2025-10'', Str ''Three'', Str [],
                   Str ''AI tools for content creators'']]\<rparr>"
  let ?P = "map ((@) ''Searching for query: '') QUERIES"
  let ?A = "[?r,
           [Str ''abc123'', Str ''UC1'', Str ''Channel'', Str ''2025-09-14T10:00:00Z'',
            Str ''One'', Str ''short'', Str ''AI tools for content creators''],
           [Str ''pqr'', Str ''UC1'', Str ''Channel'', Str ''n/a'', Str ''Three'',
            Str ''short'', Str ''AI tools for content creators'']]"
  let ?C = "\<lparr>columns = candidate_columns,
          rows = [?r, [Str ''pqr'', Str ''UC1'', Str ''Channel'', Str ''n/a'', Str ''Three'',
                   Str ''short'', Str ''AI tools for content creators'']]\<rparr>"
  let ?F = "\<lparr>columns = candidate_columns @
                    [''view_count'', ''like_count'', ''comment_count'', ''month_bucket''],
        rows = [[Str ''abc123'', Str ''UC1'', Str ''Channel'', Str [], Str ''One, in full'',
                 Str ''the full description'', Str ''AI tools for content creation'',
                 Num 120, Num 0, Num 3, Str []],
                [Str ''pqr'', Str ''UC1'', Str ''Channel'', Str ''n/a'', Str ''Three'',
                 Str ''short'', Str ''AI tools for content creators'', NaN, NaN, NaN,
                 Str ''n/a'']]\<rparr>"
  note inst = drop_duplicates_keeps_first_occurrence
    [where rss = scenario_b_rows and api = scenario_youtube and ?w0.0 = "()" and ?w1.0 = "()"
       and ps = ?P and all_rows = ?A and ?w2.0 = "()"
       and path = "''youtube_candidates_basic.csv''" and final = ?F]
  have ev: "drop_duplicates (DataFrame candidate_columns (concat scenario_b_rows)) ''video_id''
      = Inr ?out"
    by code_simp
  have k: "cell_at candidate_columns ?r ''video_id'' = Str ''abc123''"
    and qr: "cell_at candidate_columns ?r ''query'' = Str ''AI tools for content creation''"
    by code_simp+
  from inst [THEN conjunct1] ev
  have "\<forall>r \<in> set (rows ?out).
        find (\<lambda>x. cell_at candidate_columns x ''video_id''
                     = cell_at candidate_columns r ''video_id'') (concat scenario_b_rows) = Some r"
    by auto
  then have "find (\<lambda>x. cell_at candidate_columns x ''video_id''
                     = cell_at candidate_columns ?r ''video_id'') (concat scenario_b_rows) = Some ?r"
    by simp
  then have f: "find (\<lambda>x. cell_at candidate_columns x ''video_id'' = Str ''abc123'')
      (concat scenario_b_rows) = Some ?r"
    unfolding k .
  have b: "build scenario_youtube () = (None, ())"
    by (simp add: scenario_youtube_def scripted_youtube_def)
  have sq: "search_queries scenario_youtube QUERIES () = (?P, Inr ?A, ())"
    by code_simp
  have dd: "drop_duplicates (DataFrame candidate_columns ?A) ''video_id'' = Inr ?C"
    by code_simp
  have n3: "str_of_nat (length ?A) = ''3''" and n2: "str_of_nat (length (rows ?C)) = ''2''"
    by code_simp+
  have wr: "written (youtube_aigc_sampler_main scenario_youtube ()) =
     Some (''youtube_candidates_basic.csv'', ?F)"
    by code_simp
  from inst [THEN conjunct2, THEN conjunct1] b sq
  obtain cand rest
    where dc: "drop_duplicates (DataFrame candidate_columns ?A) ''video_id'' = Inr cand"
      and pc: "printed (youtube_aigc_sampler_main scenario_youtube ()) =
           ?P @ [''Raw candidates (before dedupe): '' @ str_of_nat (length ?A),
                 ''After dedupe: '' @ str_of_nat (length (rows cand))] @ rest"
    by blast
  from dc dd have "cand = ?C"
    by simp
  with pc have "printed (youtube_aigc_sampler_main scenario_youtube ()) =
           ?P @ [''Raw candidates (before dedupe): '' @ str_of_nat (length ?A),
                 ''After dedupe: '' @ str_of_nat (length (rows ?C))] @ rest"
    by simp
  then have "printed (youtube_aigc_sampler_main scenario_youtube ()) =
           ?P @ [''Raw candidates (before dedupe): 3'', ''After dedupe: 2''] @ rest"
    unfolding n3 n2 by simp
  then have pr: "\<exists>rest. printed (youtube_aigc_sampler_main scenario_youtube ()) =
           ?P @ [''Raw candidates (before dedupe): 3'', ''After dedupe: 2''] @ rest"
    by (rule exI)
  from inst [THEN conjunct2, THEN conjunct2] wr
  obtain v1 qs qrows v2 cand'
    where sq': "search_queries scenario_youtube QUERIES v1 = (qs, Inr (concat qrows), v2)"
      and dd': "drop_duplicates (DataFrame candidate_columns (concat qrows)) ''video_id''
          = Inr cand'"
      and ad: "''After dedupe: '' @ str_of_nat (length (rows cand'))
           \<in> set (printed (youtube_aigc_sampler_main scenario_youtube ()))"
    by blast
  from sq' sq have "concat qrows = ?A"
    by simp
  with dd' dd have "cand' = ?C"
    by simp
  with ad have "''After dedupe: '' @ str_of_nat (length (rows ?C))
           \<in> set (printed (youtube_aigc_sampler_main scenario_youtube ()))"
    by simp
  then have ad2: "''After dedupe: 2'' \<in> set (printed (youtube_aigc_sampler_main scenario_youtube ()))"
    unfolding n2 by simp
  show ?thesis
    by (intro conjI) (fact ev f qr b sq dd pr wr ad2)+
qed

end
